theory Spec2Isabelle
  imports Complex_Main "HOL-Library.AList" "HOL-Library.Multiset"
begin

section \<open>Strings\<close>

text \<open>
  A character is a code unit in the range U+0000 to U+00FF. On that range
  \<open>toLowerCase\<close> folds the letters A to Z and the accented capitals U+00C0 to U+00DE
  (the multiplication sign U+00D7 is no letter), and \<open>trim\<close> removes the white space
  and line terminators of the language: tab, line feed, vertical tab, form feed,
  carriage return, space and the no-break space U+00A0.
\<close>

definition lowerChar :: "char \<Rightarrow> char" where
  "lowerChar c =
     (if (65 \<le> (of_char c :: nat) \<and> (of_char c :: nat) \<le> 90)
         \<or> (192 \<le> (of_char c :: nat) \<and> (of_char c :: nat) \<le> 222 \<and> (of_char c :: nat) \<noteq> 215)
      then char_of ((of_char c :: nat) + 32) else c)"

definition toLowerCase :: "string \<Rightarrow> string" where
  "toLowerCase s = map lowerChar s"

definition isWhiteSpace :: "char \<Rightarrow> bool" where
  "isWhiteSpace c = ((of_char c :: nat) \<in> {9, 10, 11, 12, 13, 32, 160})"

definition trim :: "string \<Rightarrow> string" where
  "trim s = rev (dropWhile isWhiteSpace (rev (dropWhile isWhiteSpace s)))"

fun includesStr :: "string \<Rightarrow> string \<Rightarrow> bool" where
  "includesStr [] t = (t = [])"
| "includesStr (c # s) t = (take (length t) (c # s) = t \<or> includesStr s t)"

text \<open>The decimal numeral of an array index, as a property key.\<close>

fun decimal :: "nat \<Rightarrow> string" where
  "decimal n =
     (if n < 10 then [char_of (48 + n)]
      else decimal (n div 10) @ [char_of (48 + n mod 10)])"

declare decimal.simps [simp del]

section \<open>JavaScript values\<close>

text \<open>
  The metadata of an option is declared \<open>Record<string, any>\<close>, and the validation
  inspects the run-time type of a name: such a value is any JSON-like value, or
  \<open>undefined\<close>. A number is a real, an infinity or \<open>NaN\<close> (the rounding of doubles is
  not modelled). An object is an association list read with \<open>map_of\<close>.
\<close>

datatype JsNum = Num real | PosInfinity | NegInfinity | NaN

datatype JsValue =
    JsUndefined
  | JsNull
  | JsBoolean bool
  | JsNumber JsNum
  | JsString string
  | JsArray "JsValue list"
  | JsObject "(string \<times> JsValue) list"

subsection \<open>Arithmetic\<close>

text \<open>Sum, product and comparison of numbers; \<open>NaN\<close> is absorbing and compares false.\<close>

fun jsPlus :: "JsNum \<Rightarrow> JsNum \<Rightarrow> JsNum" where
  "jsPlus NaN b = NaN"
| "jsPlus a NaN = NaN"
| "jsPlus (Num a) (Num b) = Num (a + b)"
| "jsPlus PosInfinity NegInfinity = NaN"
| "jsPlus NegInfinity PosInfinity = NaN"
| "jsPlus PosInfinity b = PosInfinity"
| "jsPlus a PosInfinity = PosInfinity"
| "jsPlus NegInfinity b = NegInfinity"
| "jsPlus a NegInfinity = NegInfinity"

fun jsTimes :: "JsNum \<Rightarrow> JsNum \<Rightarrow> JsNum" where
  "jsTimes NaN b = NaN"
| "jsTimes a NaN = NaN"
| "jsTimes (Num a) (Num b) = Num (a * b)"
| "jsTimes PosInfinity (Num b) =
     (if b > 0 then PosInfinity else if b < 0 then NegInfinity else NaN)"
| "jsTimes NegInfinity (Num b) =
     (if b > 0 then NegInfinity else if b < 0 then PosInfinity else NaN)"
| "jsTimes (Num a) PosInfinity =
     (if a > 0 then PosInfinity else if a < 0 then NegInfinity else NaN)"
| "jsTimes (Num a) NegInfinity =
     (if a > 0 then NegInfinity else if a < 0 then PosInfinity else NaN)"
| "jsTimes PosInfinity PosInfinity = PosInfinity"
| "jsTimes NegInfinity NegInfinity = PosInfinity"
| "jsTimes PosInfinity NegInfinity = NegInfinity"
| "jsTimes NegInfinity PosInfinity = NegInfinity"

text \<open>The quotient by a positive real, the only division of the scoring code.\<close>

fun jsOver :: "JsNum \<Rightarrow> real \<Rightarrow> JsNum" where
  "jsOver (Num a) w = Num (a / w)"
| "jsOver a w = a"

fun jsNegate :: "JsNum \<Rightarrow> JsNum" where
  "jsNegate (Num a) = Num (- a)"
| "jsNegate PosInfinity = NegInfinity"
| "jsNegate NegInfinity = PosInfinity"
| "jsNegate NaN = NaN"

text \<open>\<open>Math.min\<close> and \<open>Math.max\<close> of two numbers, and \<open>Math.round\<close>.\<close>

fun mathMin :: "JsNum \<Rightarrow> JsNum \<Rightarrow> JsNum" where
  "mathMin NaN b = NaN"
| "mathMin a NaN = NaN"
| "mathMin NegInfinity b = NegInfinity"
| "mathMin a NegInfinity = NegInfinity"
| "mathMin PosInfinity b = b"
| "mathMin a PosInfinity = a"
| "mathMin (Num a) (Num b) = Num (min a b)"

fun mathMaxOf :: "JsNum \<Rightarrow> JsNum \<Rightarrow> JsNum" where
  "mathMaxOf NaN b = NaN"
| "mathMaxOf a NaN = NaN"
| "mathMaxOf PosInfinity b = PosInfinity"
| "mathMaxOf a PosInfinity = PosInfinity"
| "mathMaxOf NegInfinity b = b"
| "mathMaxOf a NegInfinity = a"
| "mathMaxOf (Num a) (Num b) = Num (max a b)"

fun mathRound :: "JsNum \<Rightarrow> JsNum" where
  "mathRound (Num a) = Num (of_int (round a))"
| "mathRound a = a"

fun jsLess :: "JsNum \<Rightarrow> JsNum \<Rightarrow> bool" where
  "jsLess NaN b = False"
| "jsLess a NaN = False"
| "jsLess (Num a) (Num b) = (a < b)"
| "jsLess a NegInfinity = False"
| "jsLess NegInfinity b = True"
| "jsLess PosInfinity b = False"
| "jsLess a PosInfinity = True"

fun jsLessEq :: "JsNum \<Rightarrow> JsNum \<Rightarrow> bool" where
  "jsLessEq NaN b = False"
| "jsLessEq a NaN = False"
| "jsLessEq (Num a) (Num b) = (a \<le> b)"
| "jsLessEq NegInfinity b = True"
| "jsLessEq a PosInfinity = True"
| "jsLessEq a NegInfinity = False"
| "jsLessEq PosInfinity b = False"

subsection \<open>Conversion of a string to a number\<close>

text \<open>
  \<open>StringToNumber\<close>: the trimmed text is empty (zero), a hexadecimal, octal or binary
  integer literal, or a decimal literal with an optional sign, an optional fraction and
  an optional exponent, or \<open>Infinity\<close>; anything else is \<open>NaN\<close>.
\<close>

definition isDigit :: "char \<Rightarrow> bool" where
  "isDigit c = (48 \<le> (of_char c :: nat) \<and> (of_char c :: nat) \<le> 57)"

definition digitsValue :: "string \<Rightarrow> nat" where
  "digitsValue ds = fold (\<lambda>c n. 10 * n + ((of_char c :: nat) - 48)) ds 0"

definition radixDigit :: "nat \<Rightarrow> char \<Rightarrow> nat option" where
  "radixDigit radix c =
     (let n = (of_char c :: nat);
          v = (if 48 \<le> n \<and> n \<le> 57 then Some (n - 48)
               else if 97 \<le> n \<and> n \<le> 102 then Some (n - 87)
               else if 65 \<le> n \<and> n \<le> 70 then Some (n - 55)
               else None)
      in case v of None \<Rightarrow> None | Some d \<Rightarrow> if d < radix then Some d else None)"

fun radixValue :: "nat \<Rightarrow> string \<Rightarrow> nat \<Rightarrow> nat option" where
  "radixValue radix [] acc = Some acc"
| "radixValue radix (c # cs) acc =
     (case radixDigit radix c of
        None \<Rightarrow> None
      | Some d \<Rightarrow> radixValue radix cs (radix * acc + d))"

definition nonDecimalIntegerLiteral :: "string \<Rightarrow> nat option" where
  "nonDecimalIntegerLiteral s =
     (case s of
        z # p # ds \<Rightarrow>
          if z = CHR ''0'' \<and> ds \<noteq> []
          then (if p = CHR ''x'' \<or> p = CHR ''X'' then radixValue 16 ds 0
                else if p = CHR ''o'' \<or> p = CHR ''O'' then radixValue 8 ds 0
                else if p = CHR ''b'' \<or> p = CHR ''B'' then radixValue 2 ds 0
                else None)
          else None
      | _ \<Rightarrow> None)"

definition signedInteger :: "string \<Rightarrow> int option" where
  "signedInteger s =
     (let negative = (s \<noteq> [] \<and> hd s = CHR ''-'');
          ds = (if s \<noteq> [] \<and> (hd s = CHR ''+'' \<or> hd s = CHR ''-'') then tl s else s)
      in if ds \<noteq> [] \<and> list_all isDigit ds
         then Some (if negative then - int (digitsValue ds) else int (digitsValue ds))
         else None)"

definition strUnsignedDecimalLiteral :: "string \<Rightarrow> JsNum" where
  "strUnsignedDecimalLiteral s =
     (if s = ''Infinity'' then PosInfinity
      else
        (let intDigits = takeWhile isDigit s;
             afterInt = dropWhile isDigit s;
             hasDot = (afterInt \<noteq> [] \<and> hd afterInt = CHR ''.'');
             fracDigits = (if hasDot then takeWhile isDigit (tl afterInt) else []);
             afterFrac = (if hasDot then dropWhile isDigit (tl afterInt) else afterInt);
             mantissa = real (digitsValue intDigits)
                        + real (digitsValue fracDigits) / 10 ^ length fracDigits
         in if intDigits = [] \<and> fracDigits = [] then NaN
            else if afterFrac = [] then Num mantissa
            else if hd afterFrac = CHR ''e'' \<or> hd afterFrac = CHR ''E''
            then (case signedInteger (tl afterFrac) of
                    None \<Rightarrow> NaN
                  | Some k \<Rightarrow> if 0 \<le> k then Num (mantissa * 10 ^ nat k)
                             else Num (mantissa / 10 ^ nat (- k)))
            else NaN))"

definition strDecimalLiteral :: "string \<Rightarrow> JsNum" where
  "strDecimalLiteral s =
     (if s \<noteq> [] \<and> hd s = CHR ''+'' then strUnsignedDecimalLiteral (tl s)
      else if s \<noteq> [] \<and> hd s = CHR ''-'' then jsNegate (strUnsignedDecimalLiteral (tl s))
      else strUnsignedDecimalLiteral s)"

definition stringToNumber :: "string \<Rightarrow> JsNum" where
  "stringToNumber s =
     (let t = trim s
      in if t = [] then Num 0
         else (case nonDecimalIntegerLiteral t of
                 Some n \<Rightarrow> Num (real n)
               | None \<Rightarrow> strDecimalLiteral t))"

subsection \<open>Coercions and property access\<close>

text \<open>\<open>ToBoolean\<close>: the falsy values are \<open>undefined\<close>, \<open>null\<close>, \<open>false\<close>, 0, \<open>NaN\<close> and \<open>''\<close>.\<close>

fun truthy :: "JsValue \<Rightarrow> bool" where
  "truthy JsUndefined = False"
| "truthy JsNull = False"
| "truthy (JsBoolean b) = b"
| "truthy (JsNumber n) = (n \<noteq> Num 0 \<and> n \<noteq> NaN)"
| "truthy (JsString s) = (s \<noteq> [])"
| "truthy (JsArray xs) = True"
| "truthy (JsObject fs) = True"

text \<open>
  \<open>ToNumber\<close>. An array is first joined to a string: the empty array and the array of
  one \<open>null\<close> or \<open>undefined\<close> give the empty string, an array of one element gives the
  string of that element, and a longer array gives a text with a comma, which is no
  numeral. The string of a plain object is \<open>[object Object]\<close>.
\<close>

fun toNumber :: "JsValue \<Rightarrow> JsNum" where
  "toNumber JsUndefined = NaN"
| "toNumber JsNull = Num 0"
| "toNumber (JsBoolean b) = Num (if b then 1 else 0)"
| "toNumber (JsNumber n) = n"
| "toNumber (JsString s) = stringToNumber s"
| "toNumber (JsArray []) = Num 0"
| "toNumber (JsArray [JsUndefined]) = Num 0"
| "toNumber (JsArray [JsNull]) = Num 0"
| "toNumber (JsArray [JsBoolean b]) = NaN"
| "toNumber (JsArray [JsNumber n]) = n"
| "toNumber (JsArray [JsString s]) = stringToNumber s"
| "toNumber (JsArray [JsArray xs]) = toNumber (JsArray xs)"
| "toNumber (JsArray [JsObject fs]) = NaN"
| "toNumber (JsArray (x # y # zs)) = NaN"
| "toNumber (JsObject fs) = NaN"

text \<open>
  \<open>value[key]\<close> on a value that is neither \<open>null\<close> nor \<open>undefined\<close>. The keys that the
  code reads are field names and \<open>length\<close>, never an index or a method.
\<close>

fun getProp :: "JsValue \<Rightarrow> string \<Rightarrow> JsValue" where
  "getProp (JsObject fs) key =
     (case map_of fs key of None \<Rightarrow> JsUndefined | Some v \<Rightarrow> v)"
| "getProp (JsArray xs) key =
     (if key = ''length'' then JsNumber (Num (real (length xs))) else JsUndefined)"
| "getProp (JsString s) key =
     (if key = ''length'' then JsNumber (Num (real (length s))) else JsUndefined)"
| "getProp v key = JsUndefined"

text \<open>
  The own enumerable properties that a spread \<open>{ ...value }\<close> copies: the fields of an
  object, the elements of an array and the characters of a string under their indices,
  nothing for any other value. \<open>{ ...a, ...b }\<close> holds the properties of both, and a
  key of \<open>b\<close> wins.
\<close>

fun ownEntries :: "JsValue \<Rightarrow> (string \<times> JsValue) list" where
  "ownEntries (JsObject fs) = fs"
| "ownEntries (JsArray xs) = zip (map decimal [0 ..< length xs]) xs"
| "ownEntries (JsString s) = zip (map decimal [0 ..< length s]) (map (\<lambda>c. JsString [c]) s)"
| "ownEntries v = []"

definition spread :: "JsValue \<Rightarrow> JsValue \<Rightarrow> JsValue" where
  "spread a b = JsObject (AList.merge (ownEntries a) (ownEntries b))"

text \<open>The guards \<open>x && x > k\<close>, \<open>x && x >= k\<close> and \<open>x && x < k\<close> of the scoring functions.\<close>

definition truthyGt :: "JsValue \<Rightarrow> real \<Rightarrow> bool" where
  "truthyGt x k = (truthy x \<and> jsLess (Num k) (toNumber x))"

definition truthyGe :: "JsValue \<Rightarrow> real \<Rightarrow> bool" where
  "truthyGe x k = (truthy x \<and> jsLessEq (Num k) (toNumber x))"

definition truthyLt :: "JsValue \<Rightarrow> real \<Rightarrow> bool" where
  "truthyLt x k = (truthy x \<and> jsLess (toNumber x) (Num k))"

text \<open>\<open>Math.min(100, Math.max(0, x))\<close>.\<close>

definition clamp100 :: "JsNum \<Rightarrow> JsNum" where
  "clamp100 x = mathMin (Num 100) (mathMaxOf (Num 0) x)"

section \<open>Data model (types/core.ts, types/knowledge.ts)\<close>

text \<open>
  The engine computes on numbers: there a JavaScript number is a real, and a
  \<open>Record<string, number>\<close> is an association list with distinct keys in insertion
  order: \<open>map_of\<close> reads a key (\<open>None\<close> is \<open>undefined\<close>), \<open>AList.update\<close> assigns one (an
  existing key keeps its position, a new key is appended), and the list itself is what
  \<open>Object.entries\<close> enumerates. The scores of the knowledge base are computed from
  untyped metadata and may be \<open>NaN\<close>: they are a \<open>numberRecord\<close>.
\<close>

type_synonym criteria = "(string \<times> real) list"

type_synonym numberRecord = "(string \<times> JsNum) list"

text \<open>
  A \<open>TechnicalOption\<close> after validation: its name is a string, its category is a string
  (the declared union widened, since unknown categories are handled at run time), its
  metadata is any value.
\<close>

record TechnicalOption =
  name :: string
  category :: string
  metadata :: JsValue

datatype Budget = BudgetLow | BudgetMedium | BudgetHigh
datatype Traffic = TrafficLow | TrafficMedium | TrafficHigh
datatype SkillLevel = Junior | Mixed | Senior
datatype Timeline = Immediate | Short | Medium | Long

record Scale =
  users :: real
  traffic :: Traffic

record Team =
  skillLevel :: SkillLevel
  experience :: "string list"

record Priorities =
  cost :: real
  performance :: real
  easeOfUse :: real
  scalability :: real
  vendorLockIn :: real

record UserConstraints =
  budget :: Budget
  scale :: Scale
  team :: Team
  timeline :: Timeline
  priorities :: Priorities

definition COST :: string where "COST = ''cost''"
definition PERFORMANCE :: string where "PERFORMANCE = ''performance''"
definition SCALABILITY :: string where "SCALABILITY = ''scalability''"
definition LEARNING_CURVE :: string where "LEARNING_CURVE = ''learningCurve''"
definition VENDOR_LOCK_IN :: string where "VENDOR_LOCK_IN = ''vendorLockIn''"
definition MAINTAINABILITY :: string where "MAINTAINABILITY = ''maintainability''"

section \<open>Knowledge base (components/KnowledgeBase.ts)\<close>

text \<open>
  Every scoring function casts \<open>option.metadata\<close> to the data interface of its category
  and returns 50 when the metadata is falsy. A field is read with \<open>getProp\<close>, compared
  to a string literal with \<open>===\<close> (equality of values) and to a number through
  \<open>ToNumber\<close>. Where the source only adds constants to \<open>score\<close> the accumulator is a
  real; where it adds a product with a field it is a \<open>JsNum\<close>.
\<close>

subsection \<open>Cloud provider scoring functions\<close>

definition scoreCloudCost :: "TechnicalOption \<Rightarrow> JsNum" where
  "scoreCloudCost opt =
     (let data = metadata opt
      in if \<not> truthy data then Num 50
         else
           (let score = 50;
                score = (if getProp data ''pricingModel'' = JsString ''pay-as-you-go''
                         then score + 15
                         else if getProp data ''pricingModel'' = JsString ''hybrid''
                         then score + 10
                         else if getProp data ''pricingModel'' = JsString ''reserved''
                         then score + 5
                         else score);
                score = (if truthyGt (getProp data ''marketShare'') 30 then score + 10
                         else if truthyGt (getProp data ''marketShare'') 15 then score + 5
                         else score)
            in clamp100 (Num score)))"

definition scoreCloudPerformance :: "TechnicalOption \<Rightarrow> JsNum" where
  "scoreCloudPerformance opt =
     (let data = metadata opt
      in if \<not> truthy data then Num 50
         else
           (let score = 50;
                score = (if truthyGt (getProp data ''regions'') 20 then score + 20
                         else if truthyGt (getProp data ''regions'') 10 then score + 15
                         else if truthyGt (getProp data ''regions'') 5 then score + 10
                         else score);
                score = (if truthyGt (getProp data ''marketShare'') 30 then score + 15
                         else if truthyGt (getProp data ''marketShare'') 15 then score + 10
                         else score)
            in clamp100 (Num score)))"

definition scoreCloudScalability :: "TechnicalOption \<Rightarrow> JsNum" where
  "scoreCloudScalability opt =
     (let data = metadata opt
      in if \<not> truthy data then Num 50
         else
           (let score = 50;
                score = (if truthyGt (getProp data ''serviceCount'') 200 then score + 20
                         else if truthyGt (getProp data ''serviceCount'') 100 then score + 15
                         else if truthyGt (getProp data ''serviceCount'') 50 then score + 10
                         else score);
                score = (if truthyGt (getProp data ''regions'') 15 then score + 15
                         else if truthyGt (getProp data ''regions'') 8 then score + 10
                         else score)
            in clamp100 (Num score)))"

definition scoreCloudLearningCurve :: "TechnicalOption \<Rightarrow> JsNum" where
  "scoreCloudLearningCurve opt =
     (let data = metadata opt
      in if \<not> truthy data then Num 50
         else
           (let score = 50;
                score = (if getProp data ''learningCurve'' = JsString ''low'' then score + 20
                         else if getProp data ''learningCurve'' = JsString ''medium''
                         then score + 10
                         else score);
                score = (if truthyGt (getProp data ''marketShare'') 30 then score + 15
                         else if truthyGt (getProp data ''marketShare'') 15 then score + 10
                         else score)
            in clamp100 (Num score)))"

definition scoreCloudVendorLockIn :: "TechnicalOption \<Rightarrow> JsNum" where
  "scoreCloudVendorLockIn opt =
     (let data = metadata opt
      in if \<not> truthy data then Num 50
         else
           (let score = 50;
                score = (if truthyLt (getProp data ''serviceCount'') 50 then score + 20
                         else if truthyLt (getProp data ''serviceCount'') 100 then score + 10
                         else score);
                score = (if truthyLt (getProp data ''marketShare'') 10 then score + 15
                         else if truthyLt (getProp data ''marketShare'') 25 then score + 10
                         else score)
            in clamp100 (Num score)))"

text \<open>
  \<open>data.enterpriseFeatures || []\<close> keeps any truthy value, and \<open>.length * 2\<close> is the
  product of whatever its \<open>length\<close> property is.
\<close>

definition scoreCloudMaintainability :: "TechnicalOption \<Rightarrow> JsNum" where
  "scoreCloudMaintainability opt =
     (let data = metadata opt
      in if \<not> truthy data then Num 50
         else
           (let score = Num 50;
                enterpriseFeatures =
                  (if truthy (getProp data ''enterpriseFeatures'')
                   then getProp data ''enterpriseFeatures'' else JsArray []);
                score = jsPlus score
                          (mathMin (Num 20)
                             (jsTimes (toNumber (getProp enterpriseFeatures ''length'')) (Num 2)));
                certifications =
                  (if truthy (getProp data ''certifications'')
                   then getProp data ''certifications'' else JsArray []);
                score = jsPlus score
                          (mathMin (Num 15)
                             (jsTimes (toNumber (getProp certifications ''length'')) (Num 3)));
                score = (if truthyGt (getProp data ''marketShare'') 30 then jsPlus score (Num 10)
                         else if truthyGt (getProp data ''marketShare'') 15
                         then jsPlus score (Num 5)
                         else score)
            in clamp100 score))"

subsection \<open>Backend framework scoring functions\<close>

definition scoreBackendCost :: "TechnicalOption \<Rightarrow> JsNum" where
  "scoreBackendCost opt =
     (let data = metadata opt
      in if \<not> truthy data then Num 50
         else
           (let score = 50;
                score = score + 15;
                score = (if getProp data ''language'' = JsString ''javascript''
                            \<or> getProp data ''language'' = JsString ''python''
                         then score + 10
                         else if getProp data ''language'' = JsString ''java''
                                 \<or> getProp data ''language'' = JsString ''c#''
                         then score + 5
                         else score);
                score = (if truthyGe (getProp data ''developmentSpeed'') 8 then score + 15
                         else if truthyGe (getProp data ''developmentSpeed'') 6 then score + 10
                         else score)
            in clamp100 (Num score)))"

definition scoreBackendPerformance :: "TechnicalOption \<Rightarrow> JsNum" where
  "scoreBackendPerformance opt =
     (let data = metadata opt
      in if \<not> truthy data then Num 50
         else
           (let score = Num 30;
                score = (if truthy (getProp data ''performanceRating'')
                         then jsPlus score
                                (jsTimes (toNumber (getProp data ''performanceRating'')) (Num 7))
                         else score)
            in clamp100 score))"

definition scoreBackendScalability :: "TechnicalOption \<Rightarrow> JsNum" where
  "scoreBackendScalability opt =
     (let data = metadata opt
      in if \<not> truthy data then Num 50
         else
           (let score = 50;
                score = (if truthyGe (getProp data ''performanceRating'') 8 then score + 20
                         else if truthyGe (getProp data ''performanceRating'') 6 then score + 15
                         else if truthyGe (getProp data ''performanceRating'') 4 then score + 10
                         else score);
                score = (if truthyGe (getProp data ''enterpriseAdoption'') 8 then score + 15
                         else if truthyGe (getProp data ''enterpriseAdoption'') 6 then score + 10
                         else score)
            in clamp100 (Num score)))"

definition scoreBackendLearningCurve :: "TechnicalOption \<Rightarrow> JsNum" where
  "scoreBackendLearningCurve opt =
     (let data = metadata opt
      in if \<not> truthy data then Num 50
         else
           (let score = Num 30;
                score = (if truthy (getProp data ''developmentSpeed'')
                         then jsPlus score
                                (jsTimes (toNumber (getProp data ''developmentSpeed'')) (Num 5))
                         else score);
                score = (if getProp data ''learningCurve'' = JsString ''low''
                         then jsPlus score (Num 20)
                         else if getProp data ''learningCurve'' = JsString ''medium''
                         then jsPlus score (Num 10)
                         else score)
            in clamp100 score))"

definition scoreBackendVendorLockIn :: "TechnicalOption \<Rightarrow> JsNum" where
  "scoreBackendVendorLockIn opt =
     (let data = metadata opt
      in if \<not> truthy data then Num 50
         else
           (let score = 70;
                score = (if getProp data ''language'' = JsString ''javascript''
                            \<or> getProp data ''language'' = JsString ''python''
                            \<or> getProp data ''language'' = JsString ''java''
                         then score + 15 else score);
                score = (if truthyGt (getProp data ''packageEcosystem'') 100000 then score + 15
                         else if truthyGt (getProp data ''packageEcosystem'') 50000
                         then score + 10
                         else score)
            in clamp100 (Num score)))"

definition scoreBackendMaintainability :: "TechnicalOption \<Rightarrow> JsNum" where
  "scoreBackendMaintainability opt =
     (let data = metadata opt
      in if \<not> truthy data then Num 50
         else
           (let score = 30;
                score = (if truthyGt (getProp data ''communitySize'') 100000 then score + 25
                         else if truthyGt (getProp data ''communitySize'') 50000 then score + 20
                         else if truthyGt (getProp data ''communitySize'') 10000 then score + 15
                         else score);
                score = (if truthyGe (getProp data ''enterpriseAdoption'') 8 then score + 20
                         else if truthyGe (getProp data ''enterpriseAdoption'') 6 then score + 15
                         else if truthyGe (getProp data ''enterpriseAdoption'') 4 then score + 10
                         else score);
                score = (if truthyGt (getProp data ''packageEcosystem'') 100000 then score + 15
                         else if truthyGt (getProp data ''packageEcosystem'') 50000
                         then score + 10
                         else score)
            in clamp100 (Num score)))"

subsection \<open>Database scoring functions\<close>

definition openSourceDatabases :: "string list" where
  "openSourceDatabases = [''postgresql'', ''mysql'', ''mongodb'', ''redis'', ''cassandra'']"

definition scoreDatabaseCost :: "TechnicalOption \<Rightarrow> JsNum" where
  "scoreDatabaseCost opt =
     (let data = metadata opt
      in if \<not> truthy data then Num 50
         else
           (let score = 50;
                score = (if toLowerCase (name opt) \<in> set openSourceDatabases
                         then score + 20 else score);
                score = (if getProp data ''queryComplexity'' = JsString ''simple''
                         then score + 15
                         else if getProp data ''queryComplexity'' = JsString ''moderate''
                         then score + 10
                         else score)
            in clamp100 (Num score)))"

definition scoreDatabasePerformance :: "TechnicalOption \<Rightarrow> JsNum" where
  "scoreDatabasePerformance opt =
     (let data = metadata opt
      in if \<not> truthy data then Num 50
         else
           (let score = Num 30;
                score = (if truthy (getProp data ''performanceRating'')
                         then jsPlus score
                                (jsTimes (toNumber (getProp data ''performanceRating'')) (Num 7))
                         else score)
            in clamp100 score))"

definition scoreDatabaseScalability :: "TechnicalOption \<Rightarrow> JsNum" where
  "scoreDatabaseScalability opt =
     (let data = metadata opt
      in if \<not> truthy data then Num 50
         else
           (let score = 50;
                score = (if getProp data ''horizontalScaling'' = JsString ''excellent''
                         then score + 25
                         else if getProp data ''horizontalScaling'' = JsString ''good''
                         then score + 15
                         else if getProp data ''horizontalScaling'' = JsString ''poor''
                         then score - 10
                         else score);
                score = (if getProp data ''schemaFlexibility'' = JsString ''schemaless''
                         then score + 15
                         else if getProp data ''schemaFlexibility'' = JsString ''flexible''
                         then score + 10
                         else score);
                score = (if getProp data ''type'' \<noteq> JsString ''relational''
                         then score + 10 else score)
            in clamp100 (Num score)))"

definition scoreDatabaseLearningCurve :: "TechnicalOption \<Rightarrow> JsNum" where
  "scoreDatabaseLearningCurve opt =
     (let data = metadata opt
      in if \<not> truthy data then Num 50
         else
           (let score = 50;
                score = (if getProp data ''queryComplexity'' = JsString ''simple''
                         then score + 20
                         else if getProp data ''queryComplexity'' = JsString ''moderate''
                         then score + 10
                         else score);
                score = (if getProp data ''type'' = JsString ''relational''
                         then score + 15 else score);
                score = (if getProp data ''schemaFlexibility'' = JsString ''rigid''
                         then score + 10 else score)
            in clamp100 (Num score)))"

definition scoreDatabaseVendorLockIn :: "TechnicalOption \<Rightarrow> JsNum" where
  "scoreDatabaseVendorLockIn opt =
     (let data = metadata opt
      in if \<not> truthy data then Num 50
         else
           (let score = 50;
                score = (if getProp data ''type'' = JsString ''relational''
                         then score + 20 else score);
                score = (if toLowerCase (name opt) \<in> set openSourceDatabases
                         then score + 25 else score);
                score = (if getProp data ''type'' = JsString ''relational''
                         then score + 10 else score)
            in clamp100 (Num score)))"

definition scoreDatabaseMaintainability :: "TechnicalOption \<Rightarrow> JsNum" where
  "scoreDatabaseMaintainability opt =
     (let data = metadata opt
      in if \<not> truthy data then Num 50
         else
           (let score = 50;
                score = (if truthy (getProp data ''acidCompliance'') then score + 20 else score);
                score = (if getProp data ''consistencyModel'' = JsString ''strong''
                         then score + 15
                         else if getProp data ''consistencyModel'' = JsString ''configurable''
                         then score + 10
                         else score);
                score = (if getProp data ''type'' = JsString ''relational''
                         then score + 10 else score)
            in clamp100 (Num score)))"

subsection \<open>Predicates of the scoring rules\<close>

text \<open>
  A rule fires when its condition is truthy. \<open>data && e\<close> is falsy for falsy metadata
  and has the truth value of \<open>e\<close> otherwise.
\<close>

definition hasEnterpriseFeatures :: "TechnicalOption \<Rightarrow> bool" where
  "hasEnterpriseFeatures opt =
     (let data = metadata opt
      in truthy data \<and> truthy (getProp data ''enterpriseFeatures'')
         \<and> jsLess (Num 5) (toNumber (getProp (getProp data ''enterpriseFeatures'') ''length'')))"

definition hasHighMarketShare :: "TechnicalOption \<Rightarrow> bool" where
  "hasHighMarketShare opt =
     (let data = metadata opt
      in truthy data \<and> jsLess (Num 25) (toNumber (getProp data ''marketShare'')))"

definition hasPayAsYouGoPricing :: "TechnicalOption \<Rightarrow> bool" where
  "hasPayAsYouGoPricing opt =
     (let data = metadata opt
      in truthy data \<and> getProp data ''pricingModel'' = JsString ''pay-as-you-go'')"

definition hasHighDevelopmentSpeed :: "TechnicalOption \<Rightarrow> bool" where
  "hasHighDevelopmentSpeed opt =
     (let data = metadata opt
      in truthy data \<and> jsLessEq (Num 8) (toNumber (getProp data ''developmentSpeed'')))"

definition hasLargeCommunity :: "TechnicalOption \<Rightarrow> bool" where
  "hasLargeCommunity opt =
     (let data = metadata opt
      in truthy data \<and> jsLess (Num 50000) (toNumber (getProp data ''communitySize'')))"

definition hasEnterpriseAdoption :: "TechnicalOption \<Rightarrow> bool" where
  "hasEnterpriseAdoption opt =
     (let data = metadata opt
      in truthy data \<and> jsLessEq (Num 7) (toNumber (getProp data ''enterpriseAdoption'')))"

definition hasACIDCompliance :: "TechnicalOption \<Rightarrow> bool" where
  "hasACIDCompliance opt =
     (let data = metadata opt
      in truthy data \<and> getProp data ''acidCompliance'' = JsBoolean True)"

definition hasSchemaFlexibility :: "TechnicalOption \<Rightarrow> bool" where
  "hasSchemaFlexibility opt =
     (let data = metadata opt
      in truthy data
         \<and> (getProp data ''schemaFlexibility'' = JsString ''flexible''
            \<or> getProp data ''schemaFlexibility'' = JsString ''schemaless''))"

definition hasStrongConsistency :: "TechnicalOption \<Rightarrow> bool" where
  "hasStrongConsistency opt =
     (let data = metadata opt
      in truthy data \<and> getProp data ''consistencyModel'' = JsString ''strong'')"

subsection \<open>The registry\<close>

record EvaluationCriteria =
  criterionName :: string
  scoringFunction :: "TechnicalOption \<Rightarrow> JsNum"

record ScoringRule =
  ruleName :: string
  condition :: "TechnicalOption \<Rightarrow> bool"
  scoreAdjustment :: real
  affectedCriteria :: "string list"

record DomainKnowledge =
  criteriaList :: "EvaluationCriteria list"
  scoringRules :: "ScoringRule list"

definition createCloudProviderKnowledge :: DomainKnowledge where
  "createCloudProviderKnowledge =
     \<lparr>criteriaList =
        [\<lparr>criterionName = COST, scoringFunction = scoreCloudCost\<rparr>,
         \<lparr>criterionName = PERFORMANCE, scoringFunction = scoreCloudPerformance\<rparr>,
         \<lparr>criterionName = SCALABILITY, scoringFunction = scoreCloudScalability\<rparr>,
         \<lparr>criterionName = LEARNING_CURVE, scoringFunction = scoreCloudLearningCurve\<rparr>,
         \<lparr>criterionName = VENDOR_LOCK_IN, scoringFunction = scoreCloudVendorLockIn\<rparr>,
         \<lparr>criterionName = MAINTAINABILITY, scoringFunction = scoreCloudMaintainability\<rparr>],
      scoringRules =
        [\<lparr>ruleName = ''Enterprise Features Bonus'', condition = hasEnterpriseFeatures,
          scoreAdjustment = 10, affectedCriteria = [MAINTAINABILITY]\<rparr>,
         \<lparr>ruleName = ''High Market Share Bonus'', condition = hasHighMarketShare,
          scoreAdjustment = 5, affectedCriteria = [LEARNING_CURVE, MAINTAINABILITY]\<rparr>,
         \<lparr>ruleName = ''Pay-as-you-go Cost Advantage'', condition = hasPayAsYouGoPricing,
          scoreAdjustment = 8, affectedCriteria = [COST]\<rparr>]\<rparr>"

definition createBackendFrameworkKnowledge :: DomainKnowledge where
  "createBackendFrameworkKnowledge =
     \<lparr>criteriaList =
        [\<lparr>criterionName = COST, scoringFunction = scoreBackendCost\<rparr>,
         \<lparr>criterionName = PERFORMANCE, scoringFunction = scoreBackendPerformance\<rparr>,
         \<lparr>criterionName = SCALABILITY, scoringFunction = scoreBackendScalability\<rparr>,
         \<lparr>criterionName = LEARNING_CURVE, scoringFunction = scoreBackendLearningCurve\<rparr>,
         \<lparr>criterionName = VENDOR_LOCK_IN, scoringFunction = scoreBackendVendorLockIn\<rparr>,
         \<lparr>criterionName = MAINTAINABILITY, scoringFunction = scoreBackendMaintainability\<rparr>],
      scoringRules =
        [\<lparr>ruleName = ''High Development Speed Bonus'', condition = hasHighDevelopmentSpeed,
          scoreAdjustment = 10, affectedCriteria = [LEARNING_CURVE]\<rparr>,
         \<lparr>ruleName = ''Large Community Bonus'', condition = hasLargeCommunity,
          scoreAdjustment = 8, affectedCriteria = [MAINTAINABILITY, LEARNING_CURVE]\<rparr>,
         \<lparr>ruleName = ''Enterprise Adoption Bonus'', condition = hasEnterpriseAdoption,
          scoreAdjustment = 6, affectedCriteria = [MAINTAINABILITY]\<rparr>]\<rparr>"

definition createDatabaseKnowledge :: DomainKnowledge where
  "createDatabaseKnowledge =
     \<lparr>criteriaList =
        [\<lparr>criterionName = COST, scoringFunction = scoreDatabaseCost\<rparr>,
         \<lparr>criterionName = PERFORMANCE, scoringFunction = scoreDatabasePerformance\<rparr>,
         \<lparr>criterionName = SCALABILITY, scoringFunction = scoreDatabaseScalability\<rparr>,
         \<lparr>criterionName = LEARNING_CURVE, scoringFunction = scoreDatabaseLearningCurve\<rparr>,
         \<lparr>criterionName = VENDOR_LOCK_IN, scoringFunction = scoreDatabaseVendorLockIn\<rparr>,
         \<lparr>criterionName = MAINTAINABILITY, scoringFunction = scoreDatabaseMaintainability\<rparr>],
      scoringRules =
        [\<lparr>ruleName = ''ACID Compliance Bonus'', condition = hasACIDCompliance,
          scoreAdjustment = 10, affectedCriteria = [MAINTAINABILITY]\<rparr>,
         \<lparr>ruleName = ''Schema Flexibility Bonus'', condition = hasSchemaFlexibility,
          scoreAdjustment = 8, affectedCriteria = [SCALABILITY]\<rparr>,
         \<lparr>ruleName = ''Strong Consistency Bonus'', condition = hasStrongConsistency,
          scoreAdjustment = 6, affectedCriteria = [MAINTAINABILITY]\<rparr>]\<rparr>"

text \<open>The map filled by \<open>initializeKnowledgeBase\<close>: three categories have an entry.\<close>

definition domainKnowledge :: "string \<Rightarrow> DomainKnowledge option" where
  "domainKnowledge c =
     (if c = ''cloud'' then Some createCloudProviderKnowledge
      else if c = ''backend'' then Some createBackendFrameworkKnowledge
      else if c = ''database'' then Some createDatabaseKnowledge
      else None)"

definition getGenericCriteria :: "EvaluationCriteria list" where
  "getGenericCriteria =
     [\<lparr>criterionName = COST, scoringFunction = (\<lambda>_. Num 50)\<rparr>,
      \<lparr>criterionName = PERFORMANCE, scoringFunction = (\<lambda>_. Num 50)\<rparr>,
      \<lparr>criterionName = SCALABILITY, scoringFunction = (\<lambda>_. Num 50)\<rparr>,
      \<lparr>criterionName = LEARNING_CURVE, scoringFunction = (\<lambda>_. Num 50)\<rparr>,
      \<lparr>criterionName = VENDOR_LOCK_IN, scoringFunction = (\<lambda>_. Num 50)\<rparr>,
      \<lparr>criterionName = MAINTAINABILITY, scoringFunction = (\<lambda>_. Num 50)\<rparr>]"

definition getCriteriaForCategory :: "string \<Rightarrow> EvaluationCriteria list" where
  "getCriteriaForCategory c =
     (case domainKnowledge c of None \<Rightarrow> getGenericCriteria | Some k \<Rightarrow> criteriaList k)"

definition getScoringRulesForCategory :: "string \<Rightarrow> ScoringRule list" where
  "getScoringRulesForCategory c =
     (case domainKnowledge c of None \<Rightarrow> [] | Some k \<Rightarrow> scoringRules k)"

subsection \<open>Evaluation of one option\<close>

text \<open>
  \<open>evaluateOption\<close> assigns \<open>scores[criterion.name]\<close> for each criterion in turn. On the
  values of this model no scoring function throws (a property is only read from a
  truthy value, and the name is a string), so the \<open>catch\<close> branch (neutral 50) is
  never taken; a score that is \<open>NaN\<close> is stored as it is.
\<close>

fun evaluateCriteria :: "EvaluationCriteria list \<Rightarrow> TechnicalOption \<Rightarrow> numberRecord \<Rightarrow> numberRecord" where
  "evaluateCriteria [] opt acc = acc"
| "evaluateCriteria (c # cs) opt acc =
     evaluateCriteria cs opt (AList.update (criterionName c) (scoringFunction c opt) acc)"

definition evaluateOption :: "TechnicalOption \<Rightarrow> numberRecord" where
  "evaluateOption opt = evaluateCriteria (getCriteriaForCategory (category opt)) opt []"

text \<open>The inner loop of \<open>applyScoreAdjustments\<close> over \<open>rule.affectedCriteria\<close>.\<close>

fun adjustAffected :: "string list \<Rightarrow> real \<Rightarrow> numberRecord \<Rightarrow> numberRecord" where
  "adjustAffected [] delta acc = acc"
| "adjustAffected (c # cs) delta acc =
     adjustAffected cs delta
       (case map_of acc c of
          None \<Rightarrow> acc
        | Some v \<Rightarrow> AList.update c (clamp100 (jsPlus v (Num delta))) acc)"

fun applyRules :: "ScoringRule list \<Rightarrow> TechnicalOption \<Rightarrow> numberRecord \<Rightarrow> numberRecord" where
  "applyRules [] opt acc = acc"
| "applyRules (r # rs) opt acc =
     applyRules rs opt
       (if condition r opt then adjustAffected (affectedCriteria r) (scoreAdjustment r) acc
        else acc)"

definition applyScoreAdjustments :: "TechnicalOption \<Rightarrow> numberRecord \<Rightarrow> numberRecord" where
  "applyScoreAdjustments opt baseScores =
     applyRules (getScoringRulesForCategory (category opt)) opt baseScores"

definition getComprehensiveEvaluation :: "TechnicalOption \<Rightarrow> numberRecord" where
  "getComprehensiveEvaluation opt = applyScoreAdjustments opt (evaluateOption opt)"

subsection \<open>Metadata validation\<close>

text \<open>The list of errors of \<open>validateOptionMetadata\<close>; \<open>isValid\<close> is its emptiness.\<close>

definition missingFields :: "JsValue \<Rightarrow> string list \<Rightarrow> string list" where
  "missingFields md required =
     map (\<lambda>field. ''Missing required field: '' @ field)
       (filter (\<lambda>field. getProp md field = JsUndefined) required)"

text \<open>\<open>metadata.f && !allowed.includes(metadata.f)\<close>.\<close>

definition invalidValue :: "JsValue \<Rightarrow> string list \<Rightarrow> string \<Rightarrow> string list" where
  "invalidValue v allowed message =
     (if truthy v \<and> v \<notin> set (map JsString allowed) then [message] else [])"

definition validateCloudProviderMetadata :: "JsValue \<Rightarrow> string list" where
  "validateCloudProviderMetadata md =
     missingFields md
       [''pricingModel'', ''serviceCount'', ''learningCurve'', ''marketShare'', ''regions'']
     @ invalidValue (getProp md ''pricingModel'') [''pay-as-you-go'', ''reserved'', ''hybrid'']
         ''Invalid pricing model''
     @ invalidValue (getProp md ''learningCurve'') [''low'', ''medium'', ''high'']
         ''Invalid learning curve value''"

text \<open>\<open>typeof v === 'number'\<close>.\<close>

fun isNumber :: "JsValue \<Rightarrow> bool" where
  "isNumber (JsNumber n) = True"
| "isNumber v = False"

definition validateBackendFrameworkMetadata :: "JsValue \<Rightarrow> string list" where
  "validateBackendFrameworkMetadata md =
     missingFields md
       [''language'', ''developmentSpeed'', ''communitySize'', ''enterpriseAdoption'',
        ''performanceRating'']
     @ map (\<lambda>field. ''Field '' @ field @ '' must be numeric'')
         (filter (\<lambda>field. getProp md field \<noteq> JsUndefined \<and> \<not> isNumber (getProp md field))
            [''developmentSpeed'', ''communitySize'', ''enterpriseAdoption'',
             ''performanceRating''])"

definition validateDatabaseMetadata :: "JsValue \<Rightarrow> string list" where
  "validateDatabaseMetadata md =
     missingFields md
       [''type'', ''schemaFlexibility'', ''queryComplexity'', ''horizontalScaling'',
        ''consistencyModel'', ''performanceRating'']
     @ invalidValue (getProp md ''type'')
         [''relational'', ''document'', ''key-value'', ''graph'', ''columnar'']
         ''Invalid database type''
     @ invalidValue (getProp md ''schemaFlexibility'') [''rigid'', ''flexible'', ''schemaless'']
         ''Invalid schema flexibility value''"

definition validateOptionMetadata :: "TechnicalOption \<Rightarrow> string list" where
  "validateOptionMetadata opt =
     (if \<not> truthy (metadata opt) then [''Option metadata is missing'']
      else if category opt = ''cloud'' then validateCloudProviderMetadata (metadata opt)
      else if category opt = ''backend'' then validateBackendFrameworkMetadata (metadata opt)
      else if category opt = ''database'' then validateDatabaseMetadata (metadata opt)
      else [])"

subsection \<open>Fallback metadata\<close>

definition getKnownTechnologiesForCategory :: "string \<Rightarrow> string list" where
  "getKnownTechnologiesForCategory c =
     (if c = ''cloud'' then [''aws'', ''gcp'', ''azure'', ''digitalocean'', ''linode'', ''vultr'']
      else if c = ''backend''
      then [''node.js'', ''django'', ''spring boot'', ''express'', ''fastapi'', ''rails'', ''laravel'']
      else if c = ''database''
      then [''postgresql'', ''mysql'', ''mongodb'', ''redis'', ''cassandra'', ''dynamodb'']
      else [])"

definition hasSpecificTechnologyData :: "TechnicalOption \<Rightarrow> bool" where
  "hasSpecificTechnologyData opt =
     (toLowerCase (name opt) \<in> set (getKnownTechnologiesForCategory (category opt)))"

definition isKnownTechnology :: "TechnicalOption \<Rightarrow> bool" where
  "isKnownTechnology opt =
     (case domainKnowledge (category opt) of
        None \<Rightarrow> False
      | Some _ \<Rightarrow> hasSpecificTechnologyData opt)"

definition getFallbackMetadata :: "string \<Rightarrow> JsValue" where
  "getFallbackMetadata c =
     (if c = ''cloud''
      then JsObject
             [(''name'', JsString ''Unknown Cloud Provider''),
              (''pricingModel'', JsString ''pay-as-you-go''),
              (''serviceCount'', JsNumber (Num 50)),
              (''enterpriseFeatures'', JsArray []),
              (''learningCurve'', JsString ''medium''),
              (''marketShare'', JsNumber (Num 5)),
              (''regions'', JsNumber (Num 5)),
              (''certifications'', JsArray [])]
      else if c = ''backend''
      then JsObject
             [(''name'', JsString ''Unknown Backend Framework''),
              (''language'', JsString ''unknown''),
              (''developmentSpeed'', JsNumber (Num 5)),
              (''communitySize'', JsNumber (Num 10000)),
              (''enterpriseAdoption'', JsNumber (Num 5)),
              (''performanceRating'', JsNumber (Num 5)),
              (''learningCurve'', JsString ''medium''),
              (''packageEcosystem'', JsNumber (Num 10000))]
      else if c = ''database''
      then JsObject
             [(''name'', JsString ''Unknown Database''),
              (''type'', JsString ''relational''),
              (''schemaFlexibility'', JsString ''rigid''),
              (''queryComplexity'', JsString ''moderate''),
              (''horizontalScaling'', JsString ''good''),
              (''consistencyModel'', JsString ''strong''),
              (''acidCompliance'', JsBoolean True),
              (''performanceRating'', JsNumber (Num 5))]
      else JsObject [])"

definition getTechnologyMetadata :: "TechnicalOption \<Rightarrow> JsValue" where
  "getTechnologyMetadata opt =
     (if isKnownTechnology opt then metadata opt
      else getFallbackMetadata (category opt))"

section \<open>Comparison engine (components/ComparisonEngine.ts)\<close>

subsection \<open>Scores and the object store\<close>

text \<open>
  An \<open>OptionScore\<close> holds a reference to its \<open>criteriaScores\<close> object: the spread
  \<open>{ ...score }\<close> copies the reference, not the object. The store maps a reference to
  the object it names; \<open>alloc\<close> is the creation of a fresh object.
\<close>

type_synonym ref = nat

record Heap =
  objects :: "ref \<Rightarrow> criteria"
  nextRef :: ref

definition alloc :: "criteria \<Rightarrow> Heap \<Rightarrow> ref \<times> Heap" where
  "alloc cs h = (nextRef h, \<lparr>objects = (objects h)(nextRef h := cs), nextRef = Suc (nextRef h)\<rparr>)"

record OptionScore =
  option :: TechnicalOption
  criteriaScores :: ref
  weightedScore :: real
  normalizedScore :: int

record RankedOption =
  rankedOption :: TechnicalOption
  rank :: nat
  score :: real

datatype Impact = ImpactLow | ImpactMedium | ImpactHigh

record Compromise =
  description :: string
  impact :: Impact
  compromiseCriteria :: "string list"

record TradeOffAnalysis =
  strongestOption :: "(string \<times> TechnicalOption) list"
  weakestOption :: "(string \<times> TechnicalOption) list"
  compromises :: "Compromise list"

record EvaluationResult =
  scores :: "OptionScore list"
  rankings :: "RankedOption list"
  tradeOffs :: TradeOffAnalysis

subsection \<open>Weighting\<close>

definition normalizePriorities :: "Priorities \<Rightarrow> Priorities" where
  "normalizePriorities p =
     (let total = cost p + performance p + easeOfUse p + scalability p + vendorLockIn p
      in if total = 0
         then \<lparr>cost = 0.2, performance = 0.2, easeOfUse = 0.2, scalability = 0.2,
               vendorLockIn = 0.2\<rparr>
         else \<lparr>cost = cost p / total, performance = performance p / total,
               easeOfUse = easeOfUse p / total, scalability = scalability p / total,
               vendorLockIn = vendorLockIn p / total\<rparr>)"

definition getEmphasisFactor :: "real \<Rightarrow> real" where
  "getEmphasisFactor priority =
     (if priority = 5 then 1.5
      else if priority = 4 then 1.2
      else if priority = 3 then 1.0
      else if priority = 2 then 0.8
      else if priority = 1 then 0.5
      else 1.0)"

definition applyPriorityEmphasis :: "Priorities \<Rightarrow> Priorities \<Rightarrow> Priorities" where
  "applyPriorityEmphasis normalizedPriorities rawPriorities =
     (let emphasized =
            \<lparr>cost = cost normalizedPriorities * getEmphasisFactor (cost rawPriorities),
             performance =
               performance normalizedPriorities * getEmphasisFactor (performance rawPriorities),
             easeOfUse =
               easeOfUse normalizedPriorities * getEmphasisFactor (easeOfUse rawPriorities),
             scalability =
               scalability normalizedPriorities * getEmphasisFactor (scalability rawPriorities),
             vendorLockIn =
               vendorLockIn normalizedPriorities * getEmphasisFactor (vendorLockIn rawPriorities)\<rparr>;
          total = cost emphasized + performance emphasized + easeOfUse emphasized
                  + scalability emphasized + vendorLockIn emphasized
      in if total > 0
         then \<lparr>cost = cost emphasized / total, performance = performance emphasized / total,
               easeOfUse = easeOfUse emphasized / total,
               scalability = scalability emphasized / total,
               vendorLockIn = vendorLockIn emphasized / total\<rparr>
         else emphasized)"

definition criteriaMapping :: "Priorities \<Rightarrow> (string \<times> real) list" where
  "criteriaMapping emphasizedWeights =
     [(COST, cost emphasizedWeights),
      (PERFORMANCE, performance emphasizedWeights),
      (SCALABILITY, scalability emphasizedWeights),
      (LEARNING_CURVE, easeOfUse emphasizedWeights),
      (VENDOR_LOCK_IN, vendorLockIn emphasizedWeights),
      (MAINTAINABILITY, cost emphasizedWeights * 0.3 + performance emphasizedWeights * 0.2)]"

text \<open>The loop over \<open>Object.entries(criteriaMapping)\<close> with its two accumulators.\<close>

fun weightedLoop :: "(string \<times> real) list \<Rightarrow> criteria \<Rightarrow> real \<times> real \<Rightarrow> real \<times> real" where
  "weightedLoop [] cs acc = acc"
| "weightedLoop ((criterion, weight) # rest) cs (weightedSum, totalWeight) =
     weightedLoop rest cs
       (case map_of cs criterion of
          None \<Rightarrow> (weightedSum, totalWeight)
        | Some v \<Rightarrow> (weightedSum + v * weight, totalWeight + weight))"

definition calculateWeightedScore :: "criteria \<Rightarrow> Priorities \<Rightarrow> real" where
  "calculateWeightedScore cs p =
     (let normalizedPriorities = normalizePriorities p;
          emphasizedWeights = applyPriorityEmphasis normalizedPriorities p;
          (weightedSum, totalWeight) = weightedLoop (criteriaMapping emphasizedWeights) cs (0, 0)
      in if totalWeight > 0 then weightedSum / totalWeight else 50)"

text \<open>
  The scores of the knowledge base enter the engine here. \<open>numericScores\<close> reads them
  as reals; it is defined when every one of them is a finite number.
\<close>

fun numericScores :: "numberRecord \<Rightarrow> criteria option" where
  "numericScores [] = Some []"
| "numericScores ((criterion, Num v) # rest) =
     (case numericScores rest of None \<Rightarrow> None | Some cs \<Rightarrow> Some ((criterion, v) # cs))"
| "numericScores ((criterion, v) # rest) = None"

text \<open>
  \<open>Math.round\<close> rounds half up, which is \<^const>\<open>round\<close>. \<open>None\<close> is an \<open>OptionScore\<close>
  with a score that is no number; it is computed by \<open>jsOptionScore\<close> below.
\<close>

definition calculateOptionScore :: "TechnicalOption \<Rightarrow> UserConstraints \<Rightarrow> Heap \<Rightarrow> (OptionScore \<times> Heap) option" where
  "calculateOptionScore opt constraints h =
     (case numericScores (getComprehensiveEvaluation opt) of
        None \<Rightarrow> None
      | Some baseScores \<Rightarrow>
          (let weighted = calculateWeightedScore baseScores (priorities constraints);
               (r, h') = alloc baseScores h
           in Some (\<lparr>option = opt, criteriaScores = r, weightedScore = weighted,
                     normalizedScore = round weighted\<rparr>, h')))"

fun calculateScores :: "TechnicalOption list \<Rightarrow> UserConstraints \<Rightarrow> Heap \<Rightarrow> (OptionScore list \<times> Heap) option" where
  "calculateScores [] constraints h = Some ([], h)"
| "calculateScores (opt # opts) constraints h =
     (case calculateOptionScore opt constraints h of
        None \<Rightarrow> None
      | Some (s, h') \<Rightarrow>
          (case calculateScores opts constraints h' of
             None \<Rightarrow> None
           | Some (ss, h'') \<Rightarrow> Some (s # ss, h'')))"

subsection \<open>Contextual adjustments\<close>

definition calculateContextualAdjustments :: "TechnicalOption \<Rightarrow> UserConstraints \<Rightarrow> criteria" where
  "calculateContextualAdjustments opt constraints =
     (let adjustments = [];
          adjustments =
            (if budget constraints = BudgetLow then AList.update COST 10 adjustments
             else if budget constraints = BudgetHigh then AList.update PERFORMANCE 5 adjustments
             else adjustments);
          adjustments =
            (if timeline constraints = Immediate then AList.update LEARNING_CURVE 15 adjustments
             else if timeline constraints = Long then AList.update SCALABILITY 10 adjustments
             else adjustments);
          adjustments =
            (if skillLevel (team constraints) = Junior
             then AList.update MAINTAINABILITY 5 (AList.update LEARNING_CURVE 10 adjustments)
             else if skillLevel (team constraints) = Senior
             then AList.update PERFORMANCE 5 adjustments
             else adjustments);
          adjustments =
            (if list_ex (\<lambda>exp. includesStr (toLowerCase exp) (toLowerCase (name opt)))
                  (experience (team constraints))
             then AList.update MAINTAINABILITY 10 (AList.update LEARNING_CURVE 20 adjustments)
             else adjustments);
          adjustments =
            (if users (scale constraints) > 100000 \<or> traffic (scale constraints) = TrafficHigh
             then AList.update PERFORMANCE 10 (AList.update SCALABILITY 15 adjustments)
             else adjustments)
      in adjustments)"

text \<open>The loop over \<open>Object.entries(adjustments)\<close>, writing into the criteria object.\<close>

fun applyAdjustments :: "(string \<times> real) list \<Rightarrow> criteria \<Rightarrow> criteria" where
  "applyAdjustments [] cs = cs"
| "applyAdjustments ((criterion, adjustment) # rest) cs =
     applyAdjustments rest
       (case map_of cs criterion of
          None \<Rightarrow> cs
        | Some v \<Rightarrow> AList.update criterion (min 100 (max 0 (v + adjustment))) cs)"

text \<open>
  \<open>applyContextualAdjustments\<close> maps over the scores. For each one the criteria object
  reached through the copied reference is overwritten in the store, and a new
  \<open>OptionScore\<close> with the same reference and the recomputed scores is returned.
\<close>

fun applyContextualAdjustments :: "OptionScore list \<Rightarrow> UserConstraints \<Rightarrow> Heap \<Rightarrow> OptionScore list \<times> Heap" where
  "applyContextualAdjustments [] constraints h = ([], h)"
| "applyContextualAdjustments (s # ss) constraints h =
     (let adjustments = calculateContextualAdjustments (option s) constraints;
          cs = applyAdjustments adjustments (objects h (criteriaScores s));
          h' = h\<lparr>objects := (objects h)(criteriaScores s := cs)\<rparr>;
          weighted = calculateWeightedScore cs (priorities constraints);
          adjustedScore = s\<lparr>weightedScore := weighted, normalizedScore := round weighted\<rparr>;
          (rest, h'') = applyContextualAdjustments ss constraints h'
      in (adjustedScore # rest, h''))"

subsection \<open>Scores that are not numbers\<close>

text \<open>
  When a score of the knowledge base is \<open>NaN\<close> the source computes on with it. These
  are the loops of \<open>calculateWeightedScore\<close> and \<open>applyContextualAdjustments\<close> on such
  scores, and the \<open>OptionScore\<close> that \<open>evaluate\<close> then holds for an option: its criteria
  after the contextual adjustments, the weighted score of those and its rounding. The
  weights are reals as above.
\<close>

fun jsWeightedLoop :: "(string \<times> real) list \<Rightarrow> numberRecord \<Rightarrow> JsNum \<times> real \<Rightarrow> JsNum \<times> real" where
  "jsWeightedLoop [] cs acc = acc"
| "jsWeightedLoop ((criterion, weight) # rest) cs (weightedSum, totalWeight) =
     jsWeightedLoop rest cs
       (case map_of cs criterion of
          None \<Rightarrow> (weightedSum, totalWeight)
        | Some v \<Rightarrow> (jsPlus weightedSum (jsTimes v (Num weight)), totalWeight + weight))"

definition jsCalculateWeightedScore :: "numberRecord \<Rightarrow> Priorities \<Rightarrow> JsNum" where
  "jsCalculateWeightedScore cs p =
     (let normalizedPriorities = normalizePriorities p;
          emphasizedWeights = applyPriorityEmphasis normalizedPriorities p;
          (weightedSum, totalWeight) =
            jsWeightedLoop (criteriaMapping emphasizedWeights) cs (Num 0, 0)
      in if totalWeight > 0 then jsOver weightedSum totalWeight else Num 50)"

fun jsApplyAdjustments :: "(string \<times> real) list \<Rightarrow> numberRecord \<Rightarrow> numberRecord" where
  "jsApplyAdjustments [] cs = cs"
| "jsApplyAdjustments ((criterion, adjustment) # rest) cs =
     jsApplyAdjustments rest
       (case map_of cs criterion of
          None \<Rightarrow> cs
        | Some v \<Rightarrow> AList.update criterion (clamp100 (jsPlus v (Num adjustment))) cs)"

record JsOptionScore =
  jsOption :: TechnicalOption
  jsCriteriaScores :: numberRecord
  jsWeightedScore :: JsNum
  jsNormalizedScore :: JsNum

definition jsOptionScore :: "TechnicalOption \<Rightarrow> UserConstraints \<Rightarrow> JsOptionScore" where
  "jsOptionScore opt constraints =
     (let baseScores = getComprehensiveEvaluation opt;
          adjustments = calculateContextualAdjustments opt constraints;
          cs = jsApplyAdjustments adjustments baseScores;
          weighted = jsCalculateWeightedScore cs (priorities constraints)
      in \<lparr>jsOption = opt, jsCriteriaScores = cs, jsWeightedScore = weighted,
          jsNormalizedScore = mathRound weighted\<rparr>)"

subsection \<open>Ranking\<close>

text \<open>
  \<open>Array.prototype.sort\<close> is stable; with the comparator
  \<open>b.weightedScore - a.weightedScore\<close> it is the stable sort by descending weighted
  score, here \<^const>\<open>sort_key\<close> on the negated score.
\<close>

definition rankOptions :: "OptionScore list \<Rightarrow> RankedOption list" where
  "rankOptions ss =
     (let sortedScores = sort_key (\<lambda>s. - weightedScore s) ss
      in map (\<lambda>(s, index). \<lparr>rankedOption = option s, rank = index + 1, score = weightedScore s\<rparr>)
           (zip sortedScores [0 ..< length sortedScores]))"

subsection \<open>Trade-off analysis\<close>

definition getCriterionPriority :: "string \<Rightarrow> Priorities \<Rightarrow> real" where
  "getCriterionPriority criterion p =
     (if criterion = COST then cost p
      else if criterion = PERFORMANCE then performance p
      else if criterion = SCALABILITY then scalability p
      else if criterion = LEARNING_CURVE then easeOfUse p
      else if criterion = VENDOR_LOCK_IN then vendorLockIn p
      else if criterion = MAINTAINABILITY then max (cost p) (performance p)
      else 3)"

definition determineImpact :: "real \<Rightarrow> real \<Rightarrow> Impact" where
  "determineImpact scoreDifference priority =
     (let impactScore = (scoreDifference / 100) * priority
      in if impactScore > 0.15 then ImpactHigh
         else if impactScore > 0.08 then ImpactMedium
         else ImpactLow)"

text \<open>\<open>criteriaScores[criterion] || 0\<close>: an absent key reads as 0.\<close>

definition scoreOrZero :: "criteria \<Rightarrow> string \<Rightarrow> real" where
  "scoreOrZero cs criterion = (case map_of cs criterion of None \<Rightarrow> 0 | Some v \<Rightarrow> v)"

text \<open>\<open>Math.max(...xs)\<close>; \<open>None\<close> is the \<open>-Infinity\<close> of the empty list.\<close>

definition mathMax :: "real list \<Rightarrow> real option" where
  "mathMax xs = (case xs of [] \<Rightarrow> None | x # rest \<Rightarrow> Some (fold max rest x))"

fun compromiseLoop :: "Heap \<Rightarrow> (string \<times> real) list \<Rightarrow> OptionScore \<Rightarrow> OptionScore list \<Rightarrow> Priorities \<Rightarrow> Compromise list" where
  "compromiseLoop h [] optionScore allScores p = []"
| "compromiseLoop h ((criterion, sc) # rest) optionScore allScores p =
     (let otherScores =
            map (\<lambda>s. scoreOrZero (objects h (criteriaScores s)) criterion)
              (filter (\<lambda>s. name (option s) \<noteq> name (option optionScore)) allScores)
      in (case mathMax otherScores of
            None \<Rightarrow> []
          | Some maxOtherScore \<Rightarrow>
              (let scoreDifference = maxOtherScore - sc
               in if scoreDifference > 20
                  then [\<lparr>description =
                           ''Choosing '' @ name (option optionScore)
                           @ '' means accepting weaker '' @ criterion @ '' performance'',
                         impact = determineImpact scoreDifference (getCriterionPriority criterion p),
                         compromiseCriteria = [criterion]\<rparr>]
                  else []))
         @ compromiseLoop h rest optionScore allScores p)"

definition identifyCompromises :: "Heap \<Rightarrow> OptionScore \<Rightarrow> OptionScore list \<Rightarrow> UserConstraints \<Rightarrow> Compromise list" where
  "identifyCompromises h optionScore allScores constraints =
     compromiseLoop h (objects h (criteriaScores optionScore)) optionScore allScores
       (priorities constraints)"

text \<open>The insertion-ordered \<open>Set\<close> of every criterion key of every score.\<close>

definition allCriteria :: "Heap \<Rightarrow> OptionScore list \<Rightarrow> string list" where
  "allCriteria h ss =
     fold (\<lambda>k acc. if k \<in> set acc then acc else acc @ [k])
       (concat (map (\<lambda>s. map fst (objects h (criteriaScores s))) ss)) []"

fun strongWeakLoop :: "Heap \<Rightarrow> string \<Rightarrow> OptionScore list \<Rightarrow> OptionScore \<times> OptionScore \<Rightarrow> OptionScore \<times> OptionScore" where
  "strongWeakLoop h criterion [] acc = acc"
| "strongWeakLoop h criterion (s # ss) (strongest, weakest) =
     (let criterionScore = scoreOrZero (objects h (criteriaScores s)) criterion;
          strongestScore = scoreOrZero (objects h (criteriaScores strongest)) criterion;
          weakestScore = scoreOrZero (objects h (criteriaScores weakest)) criterion
      in strongWeakLoop h criterion ss
           (if criterionScore > strongestScore then s else strongest,
            if criterionScore < weakestScore then s else weakest))"

definition generateTradeOffAnalysis :: "Heap \<Rightarrow> OptionScore list \<Rightarrow> UserConstraints \<Rightarrow> TradeOffAnalysis" where
  "generateTradeOffAnalysis h ss constraints =
     (let extremes =
            (case ss of
               [] \<Rightarrow> []
             | s0 # _ \<Rightarrow> map (\<lambda>c. (c, strongWeakLoop h c ss (s0, s0))) (allCriteria h ss))
      in \<lparr>strongestOption =
            fold (\<lambda>(c, strongest, weakest). AList.update c (option strongest)) extremes [],
          weakestOption =
            fold (\<lambda>(c, strongest, weakest). AList.update c (option weakest)) extremes [],
          compromises = concat (map (\<lambda>s. identifyCompromises h s ss constraints) ss)\<rparr>)"

subsection \<open>Option validation\<close>

text \<open>
  An option as \<open>evaluate\<close> receives it. TypeScript declares the name a string and
  \<open>validateSingleOption\<close> checks that at run time, so the name of an input is any
  value. The list is an array of objects and a category is a string: the branches
  \<open>OPTIONS_INVALID_TYPE\<close> and \<open>OPTION_NULL\<close> and the non-string half of
  \<open>OPTION_CATEGORY_INVALID\<close> have no input here. \<open>asTechnicalOption\<close> is the option that
  the knowledge base and the engine see once the name has passed the check.
\<close>

record RawOption =
  rawName :: JsValue
  rawCategory :: string
  rawMetadata :: JsValue

definition asTechnicalOption :: "RawOption \<Rightarrow> TechnicalOption" where
  "asTechnicalOption raw =
     \<lparr>name = (case rawName raw of JsString s \<Rightarrow> s | _ \<Rightarrow> []),
      category = rawCategory raw,
      metadata = rawMetadata raw\<rparr>"

text \<open>
  An error keeps its code and the index of the option it is about. A warning is a
  message text in the source; here it keeps its kind, the index of the option that the
  message names and the part of the text that varies.
\<close>

datatype ValidationError =
    OPTIONS_TOO_FEW
  | OPTIONS_TOO_MANY
  | OPTION_NAME_INVALID nat
  | OPTION_NAME_EMPTY nat
  | OPTION_CATEGORY_INVALID nat
  | OPTION_DUPLICATE nat

datatype Warning =
    UNKNOWN_CATEGORY nat string
  | NO_METADATA nat
  | METADATA_ISSUE nat string
  | MIXED_CATEGORIES "string list"

record ValidationResult =
  isValid :: bool
  errors :: "ValidationError list"
  warnings :: "Warning list"

definition validateOptionCount :: "RawOption list \<Rightarrow> ValidationResult" where
  "validateOptionCount opts =
     (let errs = (if length opts < 2 then [OPTIONS_TOO_FEW]
                  else if length opts > 3 then [OPTIONS_TOO_MANY]
                  else [])
      in \<lparr>isValid = (errs = []), errors = errs, warnings = []\<rparr>)"

definition validCategories :: "string list" where
  "validCategories = [''cloud'', ''backend'', ''database'', ''frontend'']"

text \<open>\<open>typeof v === 'object'\<close>.\<close>

fun isObjectType :: "JsValue \<Rightarrow> bool" where
  "isObjectType JsNull = True"
| "isObjectType (JsArray xs) = True"
| "isObjectType (JsObject fs) = True"
| "isObjectType v = False"

definition validateSingleOption :: "RawOption \<Rightarrow> nat \<Rightarrow> ValidationResult" where
  "validateSingleOption opt index =
     (let nameErrors =
            (case rawName opt of
               JsString s \<Rightarrow> if length (trim s) = 0 then [OPTION_NAME_EMPTY index] else []
             | _ \<Rightarrow> [OPTION_NAME_INVALID index]);
          categoryErrors =
            (if rawCategory opt = [] then [OPTION_CATEGORY_INVALID index] else []);
          categoryWarnings =
            (if rawCategory opt \<noteq> [] \<and> rawCategory opt \<notin> set validCategories
             then [UNKNOWN_CATEGORY index (rawCategory opt)]
             else []);
          metadataWarnings =
            (if \<not> truthy (rawMetadata opt) \<or> \<not> isObjectType (rawMetadata opt)
             then [NO_METADATA index]
             else map (METADATA_ISSUE index) (validateOptionMetadata (asTechnicalOption opt)));
          errs = nameErrors @ categoryErrors
      in \<lparr>isValid = (errs = []), errors = errs,
          warnings = categoryWarnings @ metadataWarnings\<rparr>)"

text \<open>
  The loop of \<open>validateNoDuplicates\<close> with its set of keys. A falsy name is skipped; on
  a truthy name that is no string \<open>option.name.toLowerCase()\<close> throws a \<open>TypeError\<close>,
  which is the result \<open>None\<close>.
\<close>

fun duplicatesLoop :: "RawOption list \<Rightarrow> nat \<Rightarrow> string set \<Rightarrow> ValidationError list option" where
  "duplicatesLoop [] index seen = Some []"
| "duplicatesLoop (opt # opts) index seen =
     (if truthy (rawName opt)
      then (case rawName opt of
              JsString s \<Rightarrow>
                (let key = toLowerCase s @ ''-'' @ rawCategory opt
                 in if key \<in> seen
                    then (case duplicatesLoop opts (Suc index) seen of
                            None \<Rightarrow> None
                          | Some errs \<Rightarrow> Some (OPTION_DUPLICATE index # errs))
                    else duplicatesLoop opts (Suc index) (insert key seen))
            | _ \<Rightarrow> None)
      else duplicatesLoop opts (Suc index) seen)"

definition validateNoDuplicates :: "RawOption list \<Rightarrow> ValidationResult option" where
  "validateNoDuplicates opts =
     (case duplicatesLoop opts 0 {} of
        None \<Rightarrow> None
      | Some errs \<Rightarrow> Some \<lparr>isValid = (errs = []), errors = errs, warnings = []\<rparr>)"

text \<open>The insertion-ordered \<open>Set\<close> of the truthy categories.\<close>

definition orderedSet :: "string list \<Rightarrow> string list" where
  "orderedSet ks = fold (\<lambda>k acc. if k \<in> set acc then acc else acc @ [k]) ks []"

definition validateCategoryConsistency :: "RawOption list \<Rightarrow> ValidationResult" where
  "validateCategoryConsistency opts =
     (let categories = orderedSet (filter (\<lambda>c. c \<noteq> []) (map rawCategory opts))
      in \<lparr>isValid = True, errors = [],
          warnings = (if length categories > 1 then [MIXED_CATEGORIES categories] else [])\<rparr>)"

text \<open>
  In the source the three lines that open \<open>validateTechnicalOptions\<close> (its header and
  the two declarations of \<open>errors\<close> and \<open>warnings\<close>) are commented out; the body that
  follows them is the function that \<open>evaluate\<close> and the tests call. \<open>None\<close> is the
  \<open>TypeError\<close> of the duplicate check.
\<close>

definition validateTechnicalOptions :: "RawOption list \<Rightarrow> ValidationResult option" where
  "validateTechnicalOptions opts =
     (let countValidation = validateOptionCount opts
      in if \<not> isValid countValidation
         then Some \<lparr>isValid = False, errors = errors countValidation,
                     warnings = warnings countValidation\<rparr>
         else
           (let singles = map (\<lambda>(opt, index). validateSingleOption opt index)
                            (zip opts [0 ..< length opts])
            in case validateNoDuplicates opts of
                 None \<Rightarrow> None
               | Some duplicateValidation \<Rightarrow>
                   (let categoryValidation = validateCategoryConsistency opts;
                        errs = errors countValidation @ concat (map errors singles)
                               @ errors duplicateValidation @ errors categoryValidation;
                        warns = warnings countValidation @ concat (map warnings singles)
                                @ warnings duplicateValidation @ warnings categoryValidation
                    in Some \<lparr>isValid = (errs = []), errors = errs, warnings = warns\<rparr>)))"

subsection \<open>Option processing\<close>

text \<open>
  A technology that the knowledge base does not know gets the fallback metadata of its
  category under its own: \<open>{ ...fallbackMetadata, ...option.metadata }\<close>.
\<close>

definition processOption :: "TechnicalOption \<Rightarrow> TechnicalOption" where
  "processOption opt =
     (if isKnownTechnology opt then opt
      else (let fallbackMetadata = getTechnologyMetadata opt
            in opt\<lparr>metadata := spread fallbackMetadata (metadata opt)\<rparr>))"

definition processOptions :: "TechnicalOption list \<Rightarrow> TechnicalOption list" where
  "processOptions opts = map processOption opts"

subsection \<open>The entry point\<close>

text \<open>
  \<open>evaluate\<close> throws an \<open>Error\<close> that carries the validation errors, or the
  \<open>TypeError\<close> of the validation, or it returns a result. When a score is no number,
  the result is given by its scores alone (\<open>ReturnsNaN\<close>): every comparison with such a
  score is false, the comparator of \<open>rankOptions\<close> is then not consistent, and the order
  that \<open>Array.prototype.sort\<close> produces with it is left to the implementation.
\<close>

datatype Outcome =
    ThrowsInvalidOptions "ValidationError list"
  | ThrowsTypeError
  | Returns EvaluationResult Heap
  | ReturnsNaN "JsOptionScore list"

definition evaluate :: "RawOption list \<Rightarrow> UserConstraints \<Rightarrow> Heap \<Rightarrow> Outcome" where
  "evaluate opts constraints h =
     (case validateTechnicalOptions opts of
        None \<Rightarrow> ThrowsTypeError
      | Some optionValidation \<Rightarrow>
          if \<not> isValid optionValidation then ThrowsInvalidOptions (errors optionValidation)
          else
            (let processedOptions = processOptions (map asTechnicalOption opts)
             in case calculateScores processedOptions constraints h of
                  None \<Rightarrow>
                    ReturnsNaN (map (\<lambda>opt. jsOptionScore opt constraints) processedOptions)
                | Some (baseScores, h1) \<Rightarrow>
                    (let (adjusted, h2) = applyContextualAdjustments baseScores constraints h1;
                         ranked = rankOptions adjusted;
                         analysis = generateTradeOffAnalysis h2 adjusted constraints
                     in Returns \<lparr>scores = adjusted, rankings = ranked, tradeOffs = analysis\<rparr>
                          h2)))"

section \<open>Recommendation confidence (components/OutputGenerator.ts)\<close>

definition mapPriorityToCriterion :: "string \<Rightarrow> string" where
  "mapPriorityToCriterion priority =
     (if priority = ''cost'' then COST
      else if priority = ''performance'' then PERFORMANCE
      else if priority = ''easeOfUse'' then LEARNING_CURVE
      else if priority = ''scalability'' then SCALABILITY
      else if priority = ''vendorLockIn'' then VENDOR_LOCK_IN
      else priority)"

text \<open>\<open>Object.entries\<close> of a priorities object, in the order of its keys.\<close>

definition priorityEntries :: "Priorities \<Rightarrow> (string \<times> real) list" where
  "priorityEntries p =
     [(''cost'', cost p), (''performance'', performance p), (''easeOfUse'', easeOfUse p),
      (''scalability'', scalability p), (''vendorLockIn'', vendorLockIn p)]"

text \<open>\<open>criteriaScores[criterion] || 50\<close>: an absent key and the score 0 read as 50.\<close>

definition scoreOrFifty :: "criteria \<Rightarrow> string \<Rightarrow> real" where
  "scoreOrFifty cs criterion =
     (case map_of cs criterion of None \<Rightarrow> 50 | Some v \<Rightarrow> if v = 0 then 50 else v)"

fun alignmentLoop :: "(string \<times> real) list \<Rightarrow> criteria \<Rightarrow> real \<times> real \<Rightarrow> real \<times> real" where
  "alignmentLoop [] cs acc = acc"
| "alignmentLoop ((priority, weight) # rest) cs (alignmentScore, totalWeight) =
     (let criterion = mapPriorityToCriterion priority;
          sc = scoreOrFifty cs criterion
      in alignmentLoop rest cs (alignmentScore + (sc / 100) * weight, totalWeight + weight))"

definition calculatePriorityAlignment :: "Heap \<Rightarrow> OptionScore \<Rightarrow> UserConstraints \<Rightarrow> real" where
  "calculatePriorityAlignment h optionScore constraints =
     (let normalizedPriorities = normalizePriorities (priorities constraints);
          (alignmentScore, totalWeight) =
            alignmentLoop (priorityEntries normalizedPriorities)
              (objects h (criteriaScores optionScore)) (0, 0)
      in if totalWeight > 0 then alignmentScore / totalWeight else 0.5)"

text \<open>
  \<open>None\<close> is a result that is no number. The mean of an empty \<open>criteriaScores\<close>
  object is \<open>0 / 0\<close>, a \<open>NaN\<close> that every later \<open>Math.min\<close> and \<open>Math.max\<close> keeps;
  and with no ranking at all, \<open>topOption!.option\<close> throws as soon as \<open>find\<close> looks
  at a score.
\<close>

definition calculateConsistencyBonus :: "Heap \<Rightarrow> EvaluationResult \<Rightarrow> real option" where
  "calculateConsistencyBonus h result =
     (case rankings result of
        [] \<Rightarrow> (if scores result = [] then Some 0 else None)
      | topOption # _ \<Rightarrow>
          (case find (\<lambda>s. name (option s) = name (rankedOption topOption)) (scores result) of
             None \<Rightarrow> Some 0
           | Some topScore \<Rightarrow>
               (let values = map snd (objects h (criteriaScores topScore))
                in if values = [] then None
                   else
                     (let avgScore = sum_list values / real (length values);
                          variance = sum_list (map (\<lambda>v. (v - avgScore)\<^sup>2) values)
                                     / real (length values);
                          standardDeviation = sqrt variance;
                          consistencyBonus = max 0 ((20 - standardDeviation) / 100)
                      in Some (min 0.2 consistencyBonus)))))"

definition calculateRecommendationConfidence :: "Heap \<Rightarrow> EvaluationResult \<Rightarrow> UserConstraints \<Rightarrow> real option" where
  "calculateRecommendationConfidence h result constraints =
     (case rankings result of
        r1 # r2 # _ \<Rightarrow>
          (let topScore = score r1;
               secondScore = score r2;
               scoreGap = topScore - secondScore;
               confidence = (if scoreGap > 20 then 0.9
                             else if scoreGap > 10 then 0.75
                             else if scoreGap > 5 then 0.6
                             else 0.4);
               confidence =
                 (case find (\<lambda>s. name (option s) = name (rankedOption r1)) (scores result) of
                    None \<Rightarrow> confidence
                  | Some topOption \<Rightarrow>
                      min 1.0 (confidence
                               + (calculatePriorityAlignment h topOption constraints - 0.5) * 0.2))
           in (case calculateConsistencyBonus h result of
                 None \<Rightarrow> None
               | Some consistencyBonus \<Rightarrow>
                   Some (max 0.1 (min 1.0 (min 1.0 (confidence + consistencyBonus))))))
      | _ \<Rightarrow> Some 0.5)"

section \<open>Properties\<close>

text \<open>A criteria object whose scores all lie in [0, 100].\<close>

definition scoresInRange :: "criteria \<Rightarrow> bool" where
  "scoresInRange cs = list_all (\<lambda>(c, v). 0 \<le> v \<and> v \<le> 100) cs"

text \<open>Priorities that are not negative; the validated range [1, 5] is a special case.\<close>

definition nonNegative :: "Priorities \<Rightarrow> bool" where
  "nonNegative p = (0 \<le> cost p \<and> 0 \<le> performance p \<and> 0 \<le> easeOfUse p
                    \<and> 0 \<le> scalability p \<and> 0 \<le> vendorLockIn p)"

text \<open>Priorities on the integer scale of the data model: each is one of 1, 2, 3, 4, 5.\<close>

definition validPriorities :: "Priorities \<Rightarrow> bool" where
  "validPriorities p =
     (cost p \<in> {1, 2, 3, 4, 5} \<and> performance p \<in> {1, 2, 3, 4, 5}
      \<and> easeOfUse p \<in> {1, 2, 3, 4, 5} \<and> scalability p \<in> {1, 2, 3, 4, 5}
      \<and> vendorLockIn p \<in> {1, 2, 3, 4, 5})"


text \<open>A score of the knowledge base that is a number in [0, 100].\<close>

fun inRange :: "JsNum \<Rightarrow> bool" where
  "inRange (Num v) = (0 \<le> v \<and> v \<le> 100)"
| "inRange v = False"

text \<open>\<open>Array.isArray(v)\<close>.\<close>

fun isArray :: "JsValue \<Rightarrow> bool" where
  "isArray (JsArray xs) = True"
| "isArray v = False"

text \<open>
  Metadata whose fields \<open>developmentSpeed\<close> and \<open>performanceRating\<close>, where it has them,
  are numbers and whose fields \<open>enterpriseFeatures\<close> and \<open>certifications\<close>, where it has
  them, are arrays, as the data interfaces of the knowledge base declare them. These
  are the four fields that enter a score through arithmetic.
\<close>

definition declaredTypes :: "JsValue \<Rightarrow> bool" where
  "declaredTypes md =
     (list_all (\<lambda>field. getProp md field = JsUndefined \<or> isNumber (getProp md field))
        [''developmentSpeed'', ''performanceRating'']
      \<and> list_all (\<lambda>field. getProp md field = JsUndefined \<or> isArray (getProp md field))
          [''enterpriseFeatures'', ''certifications''])"

text \<open>The key under which \<open>validateNoDuplicates\<close> remembers an option with a string name.\<close>

definition duplicateKey :: "RawOption \<Rightarrow> string" where
  "duplicateKey opt = toLowerCase (name (asTechnicalOption opt)) @ ''-'' @ rawCategory opt"

text \<open>A name that passes \<open>validateSingleOption\<close>: a string that is not blank.\<close>

definition validName :: "JsValue \<Rightarrow> bool" where
  "validName v = (case v of JsString s \<Rightarrow> trim s \<noteq> [] | _ \<Rightarrow> False)"

text \<open>A record of the knowledge base whose scores are all numbers in [0, 100].\<close>

definition allInRange :: "numberRecord \<Rightarrow> bool" where
  "allInRange acc = list_all (\<lambda>(k, v). inRange v) acc"

text \<open>The six standard criteria, in the order of \<open>STANDARD_CRITERIA\<close>.\<close>

definition standardCriteria :: "string list" where
  "standardCriteria =
     [COST, PERFORMANCE, SCALABILITY, LEARNING_CURVE, VENDOR_LOCK_IN, MAINTAINABILITY]"


section \<open>Fixtures\<close>

text \<open>Concrete inputs on which the theorems below are exercised.\<close>

definition optionA :: TechnicalOption where
  "optionA = \<lparr>name = ''A'', category = ''other'', metadata = JsUndefined\<rparr>"

definition optionB :: TechnicalOption where
  "optionB = \<lparr>name = ''B'', category = ''other'', metadata = JsUndefined\<rparr>"

definition gapHeap :: Heap where
  "gapHeap = \<lparr>objects = (\<lambda>r. if r = 0 then [(''cost'', 50)] else [(''cost'', 71)]), nextRef = 2\<rparr>"

definition scoreA :: OptionScore where
  "scoreA = \<lparr>option = optionA, criteriaScores = 0, weightedScore = 50, normalizedScore = 50\<rparr>"

definition scoreB :: OptionScore where
  "scoreB = \<lparr>option = optionB, criteriaScores = 1, weightedScore = 71, normalizedScore = 71\<rparr>"

definition lowCostPriority :: UserConstraints where
  "lowCostPriority =
     \<lparr>budget = BudgetMedium, scale = \<lparr>users = 1000, traffic = TrafficMedium\<rparr>,
      team = \<lparr>skillLevel = Mixed, experience = []\<rparr>, timeline = Short,
      priorities = \<lparr>cost = 1, performance = 3, easeOfUse = 3, scalability = 3,
                    vendorLockIn = 3\<rparr>\<rparr>"

definition frontendOption :: TechnicalOption where
  "frontendOption = \<lparr>name = ''React'', category = ''frontend'', metadata = JsUndefined\<rparr>"

definition juniorImmediate :: UserConstraints where
  "juniorImmediate =
     \<lparr>budget = BudgetMedium, scale = \<lparr>users = 1000, traffic = TrafficMedium\<rparr>,
      team = \<lparr>skillLevel = Junior, experience = []\<rparr>, timeline = Immediate,
      priorities = \<lparr>cost = 3, performance = 3, easeOfUse = 3, scalability = 3,
                    vendorLockIn = 3\<rparr>\<rparr>"

definition lowBudget :: UserConstraints where
  "lowBudget =
     \<lparr>budget = BudgetLow, scale = \<lparr>users = 1000, traffic = TrafficMedium\<rparr>,
      team = \<lparr>skillLevel = Mixed, experience = []\<rparr>, timeline = Short,
      priorities = \<lparr>cost = 3, performance = 3, easeOfUse = 3, scalability = 3,
                    vendorLockIn = 3\<rparr>\<rparr>"

definition neutralHeap :: Heap where
  "neutralHeap =
     \<lparr>objects = (\<lambda>r. [(COST, 50), (PERFORMANCE, 50), (SCALABILITY, 50),
                       (LEARNING_CURVE, 50), (VENDOR_LOCK_IN, 50), (MAINTAINABILITY, 50)]),
      nextRef = 1\<rparr>"

definition mockPriorities :: Priorities where
  "mockPriorities = \<lparr>cost = 3, performance = 5, easeOfUse = 4, scalability = 4, vendorLockIn = 2\<rparr>"

definition mockCriteria :: criteria where
  "mockCriteria = [(COST, 85), (PERFORMANCE, 75), (SCALABILITY, 80), (LEARNING_CURVE, 90),
                   (VENDOR_LOCK_IN, 85), (MAINTAINABILITY, 80)]"

definition noTradeOffs :: TradeOffAnalysis where
  "noTradeOffs = \<lparr>strongestOption = [], weakestOption = [], compromises = []\<rparr>"

definition evenHeap :: Heap where
  "evenHeap =
     \<lparr>objects = (\<lambda>r. if r = 0
                      then [(COST, 78), (PERFORMANCE, 78), (SCALABILITY, 78),
                            (LEARNING_CURVE, 78), (VENDOR_LOCK_IN, 78), (MAINTAINABILITY, 78)]
                      else [(COST, 77), (PERFORMANCE, 77), (SCALABILITY, 77),
                            (LEARNING_CURVE, 77), (VENDOR_LOCK_IN, 77), (MAINTAINABILITY, 77)]),
      nextRef = 2\<rparr>"

definition closeResult :: EvaluationResult where
  "closeResult =
     \<lparr>scores = [\<lparr>option = optionA, criteriaScores = 0, weightedScore = 78, normalizedScore = 78\<rparr>,
                \<lparr>option = optionB, criteriaScores = 1, weightedScore = 77, normalizedScore = 77\<rparr>],
      rankings = [\<lparr>rankedOption = optionA, rank = 1, score = 78\<rparr>,
                  \<lparr>rankedOption = optionB, rank = 2, score = 77\<rparr>],
      tradeOffs = noTradeOffs\<rparr>"

definition spikyHeap :: Heap where
  "spikyHeap =
     \<lparr>objects = (\<lambda>r. if r = 0
                      then [(COST, 10), (PERFORMANCE, 10), (SCALABILITY, 70),
                            (LEARNING_CURVE, 10), (VENDOR_LOCK_IN, 70), (MAINTAINABILITY, 70)]
                      else [(COST, 55), (PERFORMANCE, 55), (SCALABILITY, 55),
                            (LEARNING_CURVE, 55), (VENDOR_LOCK_IN, 55), (MAINTAINABILITY, 55)]),
      nextRef = 2\<rparr>"

definition wideResult :: EvaluationResult where
  "wideResult =
     \<lparr>scores = [\<lparr>option = optionA, criteriaScores = 0, weightedScore = 90, normalizedScore = 90\<rparr>,
                \<lparr>option = optionB, criteriaScores = 1, weightedScore = 55, normalizedScore = 55\<rparr>],
      rankings = [\<lparr>rankedOption = optionA, rank = 1, score = 90\<rparr>,
                  \<lparr>rankedOption = optionB, rank = 2, score = 55\<rparr>],
      tradeOffs = noTradeOffs\<rparr>"

definition flatHeap :: Heap where
  "flatHeap =
     \<lparr>objects = (\<lambda>r. if r = 0
                      then [(COST, 90), (PERFORMANCE, 90), (SCALABILITY, 90),
                            (LEARNING_CURVE, 90), (VENDOR_LOCK_IN, 90), (MAINTAINABILITY, 90)]
                      else [(COST, 55), (PERFORMANCE, 55), (SCALABILITY, 55),
                            (LEARNING_CURVE, 55), (VENDOR_LOCK_IN, 55), (MAINTAINABILITY, 55)]),
      nextRef = 2\<rparr>"

definition consistentResult :: EvaluationResult where
  "consistentResult =
     \<lparr>scores = [\<lparr>option = optionA, criteriaScores = 0, weightedScore = 90, normalizedScore = 90\<rparr>,
                \<lparr>option = optionB, criteriaScores = 1, weightedScore = 55, normalizedScore = 55\<rparr>],
      rankings = [\<lparr>rankedOption = optionA, rank = 1, score = 90\<rparr>,
                  \<lparr>rankedOption = optionB, rank = 2, score = 55\<rparr>],
      tradeOffs = noTradeOffs\<rparr>"

definition skewedPriorities :: UserConstraints where
  "skewedPriorities =
     \<lparr>budget = BudgetMedium, scale = \<lparr>users = 1000, traffic = TrafficMedium\<rparr>,
      team = \<lparr>skillLevel = Mixed, experience = []\<rparr>, timeline = Short,
      priorities = \<lparr>cost = 5, performance = 5, easeOfUse = 5, scalability = 1,
                    vendorLockIn = 1\<rparr>\<rparr>"


definition rocketOption :: RawOption where
  "rocketOption =
     \<lparr>rawName = JsString ''Rocket'', rawCategory = ''backend'',
      rawMetadata =
        JsObject [(''language'', JsString ''javascript''),
                  (''developmentSpeed'', JsNumber (Num 8)),
                  (''communitySize'', JsNumber (Num 150000)),
                  (''enterpriseAdoption'', JsNumber (Num 7)),
                  (''performanceRating'', JsString ''fast''),
                  (''learningCurve'', JsString ''low''),
                  (''packageEcosystem'', JsNumber (Num 1300000))]\<rparr>"

definition expressOption :: RawOption where
  "expressOption =
     \<lparr>rawName = JsString ''Express'', rawCategory = ''backend'', rawMetadata = JsObject []\<rparr>"










section \<open>Verification\<close>

lemmas STANDARD_CRITERIA_defs =
  COST_def PERFORMANCE_def SCALABILITY_def LEARNING_CURVE_def VENDOR_LOCK_IN_def
  MAINTAINABILITY_def

lemma criteria_distinct:
  "COST \<noteq> PERFORMANCE" "COST \<noteq> SCALABILITY" "COST \<noteq> LEARNING_CURVE"
  "COST \<noteq> VENDOR_LOCK_IN" "COST \<noteq> MAINTAINABILITY"
  "PERFORMANCE \<noteq> COST" "PERFORMANCE \<noteq> SCALABILITY" "PERFORMANCE \<noteq> LEARNING_CURVE"
  "PERFORMANCE \<noteq> VENDOR_LOCK_IN" "PERFORMANCE \<noteq> MAINTAINABILITY"
  "SCALABILITY \<noteq> COST" "SCALABILITY \<noteq> PERFORMANCE" "SCALABILITY \<noteq> LEARNING_CURVE"
  "SCALABILITY \<noteq> VENDOR_LOCK_IN" "SCALABILITY \<noteq> MAINTAINABILITY"
  "LEARNING_CURVE \<noteq> COST" "LEARNING_CURVE \<noteq> PERFORMANCE" "LEARNING_CURVE \<noteq> SCALABILITY"
  "LEARNING_CURVE \<noteq> VENDOR_LOCK_IN" "LEARNING_CURVE \<noteq> MAINTAINABILITY"
  "VENDOR_LOCK_IN \<noteq> COST" "VENDOR_LOCK_IN \<noteq> PERFORMANCE" "VENDOR_LOCK_IN \<noteq> SCALABILITY"
  "VENDOR_LOCK_IN \<noteq> LEARNING_CURVE" "VENDOR_LOCK_IN \<noteq> MAINTAINABILITY"
  "MAINTAINABILITY \<noteq> COST" "MAINTAINABILITY \<noteq> PERFORMANCE" "MAINTAINABILITY \<noteq> SCALABILITY"
  "MAINTAINABILITY \<noteq> LEARNING_CURVE" "MAINTAINABILITY \<noteq> VENDOR_LOCK_IN"
  by (simp_all add: STANDARD_CRITERIA_defs)

subsection \<open>Impact of a compromise\<close>

lemma determineImpact_high:
  assumes "d > 20" "pr \<ge> 1"
  shows "determineImpact d pr = ImpactHigh"
proof -
  have "d / 100 * 1 \<le> d / 100 * pr"
    using assms by (intro mult_left_mono) auto
  moreover have "15 / 100 < d / 100" using assms by simp
  ultimately have "15 / 100 < d / 100 * pr" by linarith
  then show ?thesis by (simp add: determineImpact_def Let_def)
qed

lemma getCriterionPriority_ge1:
  assumes "1 \<le> cost p" "1 \<le> performance p" "1 \<le> easeOfUse p" "1 \<le> scalability p"
    "1 \<le> vendorLockIn p"
  shows "1 \<le> getCriterionPriority criterion p"
  using assms by (simp add: getCriterionPriority_def le_max_iff_disj)

text \<open>Every compromise of the loop comes from one criterion entry that trails by more than 20.\<close>

lemma compromiseLoop_member:
  assumes "c \<in> set (compromiseLoop h es optionScore allScores p)"
  shows "\<exists>criterion sc m.
           (criterion, sc) \<in> set es
         \<and> mathMax (map (\<lambda>s. scoreOrZero (objects h (criteriaScores s)) criterion)
                      (filter (\<lambda>s. name (option s) \<noteq> name (option optionScore)) allScores)) = Some m
         \<and> m - sc > 20
         \<and> compromiseCriteria c = [criterion]
         \<and> impact c = determineImpact (m - sc) (getCriterionPriority criterion p)"
  using assms
proof (induction es)
  case Nil
  then show ?case by simp
next
  case (Cons e es)
  obtain criterion sc where e: "e = (criterion, sc)" by (cases e)
  show ?case
  proof (cases "c \<in> set (compromiseLoop h es optionScore allScores p)")
    case True
    from Cons.IH[OF True] show ?thesis by auto
  next
    case False
    let ?others = "map (\<lambda>s. scoreOrZero (objects h (criteriaScores s)) criterion)
                      (filter (\<lambda>s. name (option s) \<noteq> name (option optionScore)) allScores)"
    from Cons.prems e False obtain m where m: "mathMax ?others = Some m"
      by (cases "mathMax ?others") (auto simp: Let_def)
    with Cons.prems e False have "m - sc > 20 \<and> compromiseCriteria c = [criterion]
         \<and> impact c = determineImpact (m - sc) (getCriterionPriority criterion p)"
      by (auto simp: Let_def split: if_splits)
    with m e show ?thesis by auto
  qed
qed

lemma gap_fixture_compromises:
  "identifyCompromises gapHeap scoreA [scoreA, scoreB] lowCostPriority =
     [\<lparr>description = ''Choosing A means accepting weaker cost performance'',
       impact = ImpactHigh, compromiseCriteria = [''cost'']\<rparr>]"
  by (simp add: identifyCompromises_def gapHeap_def scoreA_def scoreB_def optionA_def
      optionB_def lowCostPriority_def mathMax_def scoreOrZero_def determineImpact_def
      getCriterionPriority_def COST_def Let_def)

text \<open>
  Claim C2, as it holds on the code. Every compromise that \<open>identifyCompromises\<close> emits
  belongs to one criterion on which the option trails the best other option by more than
  20 points, and its impact is the classification of (gap / 100) times the user's priority
  for that criterion: high above 0.15, medium above 0.08, low otherwise. A 20-point gap is
  classified high for priority 5 and for priority 1 alike.
\<close>

theorem compromise_impact_classification:
  "(c \<in> set (identifyCompromises h optionScore allScores constraints) \<longrightarrow>
      (\<exists>criterion sc m.
         (criterion, sc) \<in> set (objects h (criteriaScores optionScore))
       \<and> mathMax (map (\<lambda>s. scoreOrZero (objects h (criteriaScores s)) criterion)
                    (filter (\<lambda>s. name (option s) \<noteq> name (option optionScore)) allScores)) = Some m
       \<and> m - sc > 20
       \<and> compromiseCriteria c = [criterion]
       \<and> impact c =
           (if (m - sc) / 100 * getCriterionPriority criterion (priorities constraints) > 0.15
            then ImpactHigh
            else if (m - sc) / 100 * getCriterionPriority criterion (priorities constraints) > 0.08
            then ImpactMedium
            else ImpactLow)))
   \<and> determineImpact 20 5 = ImpactHigh
   \<and> determineImpact 20 1 = ImpactHigh"
proof (intro conjI impI)
  assume "c \<in> set (identifyCompromises h optionScore allScores constraints)"
  then have "c \<in> set (compromiseLoop h (objects h (criteriaScores optionScore)) optionScore
                        allScores (priorities constraints))"
    by (simp add: identifyCompromises_def)
  from compromiseLoop_member[OF this]
  show "\<exists>criterion sc m.
         (criterion, sc) \<in> set (objects h (criteriaScores optionScore))
       \<and> mathMax (map (\<lambda>s. scoreOrZero (objects h (criteriaScores s)) criterion)
                    (filter (\<lambda>s. name (option s) \<noteq> name (option optionScore)) allScores)) = Some m
       \<and> m - sc > 20
       \<and> compromiseCriteria c = [criterion]
       \<and> impact c =
           (if (m - sc) / 100 * getCriterionPriority criterion (priorities constraints) > 0.15
            then ImpactHigh
            else if (m - sc) / 100 * getCriterionPriority criterion (priorities constraints) > 0.08
            then ImpactMedium
            else ImpactLow)"
    unfolding determineImpact_def Let_def .
next
  show "determineImpact 20 5 = ImpactHigh" by (simp add: determineImpact_def Let_def)
next
  show "determineImpact 20 1 = ImpactHigh" by (simp add: determineImpact_def Let_def)
qed

theorem compromise_impact_classification_witness:
  "\<lparr>description = ''Choosing A means accepting weaker cost performance'',
    impact = ImpactHigh, compromiseCriteria = [''cost'']\<rparr>
     \<in> set (identifyCompromises gapHeap scoreA [scoreA, scoreB] lowCostPriority)
   \<and> (\<exists>criterion sc m.
         (criterion, sc) \<in> set (objects gapHeap (criteriaScores scoreA))
       \<and> mathMax (map (\<lambda>s. scoreOrZero (objects gapHeap (criteriaScores s)) criterion)
                    (filter (\<lambda>s. name (option s) \<noteq> name (option scoreA)) [scoreA, scoreB])) = Some m
       \<and> m - sc > 20
       \<and> [''cost''] = [criterion]
       \<and> ImpactHigh =
           (if (m - sc) / 100 * getCriterionPriority criterion (priorities lowCostPriority) > 0.15
            then ImpactHigh
            else if (m - sc) / 100 * getCriterionPriority criterion (priorities lowCostPriority) > 0.08
            then ImpactMedium
            else ImpactLow))"
  using compromise_impact_classification
    [of "\<lparr>description = ''Choosing A means accepting weaker cost performance'',
          impact = ImpactHigh, compromiseCriteria = [''cost'']\<rparr>"
        gapHeap scoreA "[scoreA, scoreB]" lowCostPriority]
  by (simp add: gap_fixture_compromises)

text \<open>
  Claim C2 as the specification words it fails: with priority 1 a 20-point gap is not
  classified low, and the 21-point gap of the fixture, on a criterion of priority 1, is
  reported with high impact.
\<close>

theorem twenty_point_gap_low_priority_counterexample:
  "determineImpact 20 1 \<noteq> ImpactLow
   \<and> map impact (identifyCompromises gapHeap scoreA [scoreA, scoreB] lowCostPriority)
       = [ImpactHigh]"
  by (simp add: gap_fixture_compromises) (simp add: determineImpact_def Let_def)

text \<open>
  Claim C10. When the five priorities lie in [1, 5], every compromise that
  \<open>identifyCompromises\<close> emits has impact high: the gap exceeds 20 and the priority of
  every criterion (also the composite one of maintainability and the default 3) is at
  least 1, so the impact score exceeds 0.2.
\<close>

theorem compromises_always_high:
  assumes "1 \<le> cost (priorities constraints)" "cost (priorities constraints) \<le> 5"
    and "1 \<le> performance (priorities constraints)" "performance (priorities constraints) \<le> 5"
    and "1 \<le> easeOfUse (priorities constraints)" "easeOfUse (priorities constraints) \<le> 5"
    and "1 \<le> scalability (priorities constraints)" "scalability (priorities constraints) \<le> 5"
    and "1 \<le> vendorLockIn (priorities constraints)" "vendorLockIn (priorities constraints) \<le> 5"
    and "c \<in> set (identifyCompromises h optionScore allScores constraints)"
  shows "impact c = ImpactHigh"
proof -
  from assms(11)
  have "c \<in> set (compromiseLoop h (objects h (criteriaScores optionScore)) optionScore
                   allScores (priorities constraints))"
    by (simp add: identifyCompromises_def)
  from compromiseLoop_member[OF this] obtain criterion sc m where
    gap: "m - sc > 20" and
    imp: "impact c = determineImpact (m - sc) (getCriterionPriority criterion (priorities constraints))"
    by blast
  have "1 \<le> getCriterionPriority criterion (priorities constraints)"
    using assms(1,3,5,7,9) by (rule getCriterionPriority_ge1)
  with gap imp show ?thesis by (simp add: determineImpact_high)
qed

theorem compromises_always_high_witness:
  "\<lparr>description = ''Choosing A means accepting weaker cost performance'',
    impact = ImpactHigh, compromiseCriteria = [''cost'']\<rparr>
     \<in> set (identifyCompromises gapHeap scoreA [scoreA, scoreB] lowCostPriority)
   \<and> impact \<lparr>description = ''Choosing A means accepting weaker cost performance'',
              impact = ImpactHigh, compromiseCriteria = [''cost'']\<rparr> = ImpactHigh
   \<and> cost (priorities lowCostPriority) = 1"
proof -
  let ?c = "\<lparr>description = ''Choosing A means accepting weaker cost performance'',
             impact = ImpactHigh, compromiseCriteria = [''cost'']\<rparr>"
  have member: "?c \<in> set (identifyCompromises gapHeap scoreA [scoreA, scoreB] lowCostPriority)"
    by (simp add: gap_fixture_compromises)
  have "impact ?c = ImpactHigh"
    by (rule compromises_always_high[OF _ _ _ _ _ _ _ _ _ _ member])
       (simp_all add: lowCostPriority_def)
  with member show ?thesis by (simp add: lowCostPriority_def)
qed

subsection \<open>Ranking\<close>

lemma rankOptions_pairs:
  "map (\<lambda>r. (rankedOption r, score r)) (rankOptions ss)
     = map (\<lambda>s. (option s, weightedScore s)) (sort_key (\<lambda>s. - weightedScore s) ss)"
proof -
  have "map (\<lambda>r. (rankedOption r, score r))
          (map (\<lambda>(s, index). \<lparr>rankedOption = option s, rank = index + 1, score = weightedScore s\<rparr>)
             (zip xs [0 ..< length xs]))
        = map (\<lambda>s. (option s, weightedScore s)) xs" for xs :: "OptionScore list"
  proof -
    have "map (\<lambda>r. (rankedOption r, score r))
          (map (\<lambda>(s, index). \<lparr>rankedOption = option s, rank = index + 1, score = weightedScore s\<rparr>)
             (zip xs [0 ..< length xs]))
        = map ((\<lambda>s. (option s, weightedScore s)) \<circ> fst) (zip xs [0 ..< length xs])"
      by (simp add: comp_def case_prod_unfold)
    also have "\<dots> = map (\<lambda>s. (option s, weightedScore s)) (map fst (zip xs [0 ..< length xs]))"
      by (rule map_map[symmetric])
    also have "\<dots> = map (\<lambda>s. (option s, weightedScore s)) xs"
      by (simp only: map_fst_zip length_upt diff_zero)
    finally show ?thesis .
  qed
  then show ?thesis unfolding rankOptions_def Let_def .
qed

lemma rankOptions_ranks: "map rank (rankOptions ss) = [1 ..< Suc (length ss)]"
proof -
  have "map rank
          (map (\<lambda>(s, index). \<lparr>rankedOption = option s, rank = index + 1, score = weightedScore s\<rparr>)
             (zip xs [0 ..< length xs]))
        = map Suc [0 ..< length xs]" for xs :: "OptionScore list"
  proof -
    have "map rank
          (map (\<lambda>(s, index). \<lparr>rankedOption = option s, rank = index + 1, score = weightedScore s\<rparr>)
             (zip xs [0 ..< length xs]))
        = map (Suc \<circ> snd) (zip xs [0 ..< length xs])"
      by (simp add: comp_def case_prod_unfold)
    also have "\<dots> = map Suc (map snd (zip xs [0 ..< length xs]))"
      by (rule map_map[symmetric])
    also have "\<dots> = map Suc [0 ..< length xs]"
      by (simp only: map_snd_zip length_upt diff_zero)
    finally show ?thesis .
  qed
  from this[of "sort_key (\<lambda>s. - weightedScore s) ss"] show ?thesis
    unfolding rankOptions_def Let_def by (simp only: length_sort map_Suc_upt One_nat_def)
qed




subsection \<open>Unknown categories\<close>

lemma domainKnowledge_unknown:
  assumes "category opt \<notin> {''cloud'', ''backend'', ''database''}"
  shows "domainKnowledge (category opt) = None"
  using assms by (simp add: domainKnowledge_def)

lemma generic_evaluation:
  "evaluateCriteria getGenericCriteria opt []
     = [(COST, Num 50), (PERFORMANCE, Num 50), (SCALABILITY, Num 50), (LEARNING_CURVE, Num 50),
        (VENDOR_LOCK_IN, Num 50), (MAINTAINABILITY, Num 50)]"
  by (simp add: getGenericCriteria_def STANDARD_CRITERIA_defs)

lemma category_processOption: "category (processOption opt) = category opt"
  by (simp add: processOption_def Let_def)

text \<open>
  Claim C6. An option whose category has no entry in the knowledge base is scored by the
  generic criteria, each of which returns the constant 50, and by no scoring rule: the
  evaluation before any contextual adjustment is exactly 50 on the six standard
  criteria, for the option as given and after \<open>processOption\<close>, and these are the six
  numbers that enter the engine. The evaluation is a total function, so it returns for
  every such option.
\<close>

theorem unknown_category_neutral:
  assumes "category opt \<notin> {''cloud'', ''backend'', ''database''}"
  shows "getCriteriaForCategory (category opt) = getGenericCriteria
       \<and> list_all (\<lambda>c. scoringFunction c opt = Num 50) getGenericCriteria
       \<and> getScoringRulesForCategory (category opt) = []
       \<and> getComprehensiveEvaluation opt
           = [(COST, Num 50), (PERFORMANCE, Num 50), (SCALABILITY, Num 50),
              (LEARNING_CURVE, Num 50), (VENDOR_LOCK_IN, Num 50), (MAINTAINABILITY, Num 50)]
       \<and> getComprehensiveEvaluation (processOption opt)
           = [(COST, Num 50), (PERFORMANCE, Num 50), (SCALABILITY, Num 50),
              (LEARNING_CURVE, Num 50), (VENDOR_LOCK_IN, Num 50), (MAINTAINABILITY, Num 50)]
       \<and> numericScores (getComprehensiveEvaluation (processOption opt))
           = Some [(COST, 50), (PERFORMANCE, 50), (SCALABILITY, 50), (LEARNING_CURVE, 50),
                   (VENDOR_LOCK_IN, 50), (MAINTAINABILITY, 50)]"
proof -
  note dk = domainKnowledge_unknown[OF assms]
  have crit: "getCriteriaForCategory (category opt) = getGenericCriteria"
    by (simp add: getCriteriaForCategory_def dk)
  have rules: "getScoringRulesForCategory (category opt) = []"
    by (simp add: getScoringRulesForCategory_def dk)
  have all50: "list_all (\<lambda>c. scoringFunction c opt = Num 50) getGenericCriteria"
    by (simp add: getGenericCriteria_def)
  have ev: "getComprehensiveEvaluation o'
              = [(COST, Num 50), (PERFORMANCE, Num 50), (SCALABILITY, Num 50),
                 (LEARNING_CURVE, Num 50), (VENDOR_LOCK_IN, Num 50), (MAINTAINABILITY, Num 50)]"
    if "category o' = category opt" for o'
    using that
    by (simp add: getComprehensiveEvaluation_def applyScoreAdjustments_def evaluateOption_def
        getCriteriaForCategory_def getScoringRulesForCategory_def dk generic_evaluation)
  have num: "numericScores (getComprehensiveEvaluation (processOption opt))
           = Some [(COST, 50), (PERFORMANCE, 50), (SCALABILITY, 50), (LEARNING_CURVE, 50),
                   (VENDOR_LOCK_IN, 50), (MAINTAINABILITY, 50)]"
    by (simp add: ev[OF category_processOption])
  from crit rules all50 ev[of opt] ev[OF category_processOption] num show ?thesis by simp
qed

theorem unknown_category_neutral_witness:
  "category frontendOption \<notin> {''cloud'', ''backend'', ''database''}
   \<and> getComprehensiveEvaluation frontendOption
       = [(''cost'', Num 50), (''performance'', Num 50), (''scalability'', Num 50),
          (''learningCurve'', Num 50), (''vendorLockIn'', Num 50), (''maintainability'', Num 50)]"
proof -
  have c: "category frontendOption \<notin> {''cloud'', ''backend'', ''database''}"
    by (simp add: frontendOption_def)
  from unknown_category_neutral[OF c] c show ?thesis
    by (simp add: STANDARD_CRITERIA_defs)
qed

subsection \<open>Contextual adjustments\<close>

lemma distinct_calculateContextualAdjustments:
  "distinct (map fst (calculateContextualAdjustments opt constraints))"
  by (simp add: calculateContextualAdjustments_def Let_def distinct_update)

lemma applyAdjustments_lookup:
  assumes "distinct (map fst adj)"
  shows "map_of (applyAdjustments adj cs) c =
           (case map_of cs c of
              None \<Rightarrow> None
            | Some v \<Rightarrow> (case map_of adj c of
                          None \<Rightarrow> Some v
                        | Some d \<Rightarrow> Some (min 100 (max 0 (v + d)))))"
  using assms
proof (induction adj arbitrary: cs)
  case Nil
  then show ?case by (simp split: option.splits)
next
  case (Cons e adj)
  obtain k a where e: "e = (k, a)" by (cases e)
  from Cons.prems e have notin: "map_of adj k = None" and dist: "distinct (map fst adj)"
    by (auto simp: map_of_eq_None_iff)
  show ?case
    using notin by (simp add: e Cons.IH[OF dist] update_conv' split: option.splits)
qed

lemma adjustments_cost:
  "map_of (calculateContextualAdjustments opt constraints) COST =
     (if budget constraints = BudgetLow then Some 10 else None)"
  by (simp add: calculateContextualAdjustments_def Let_def update_conv' criteria_distinct)

lemma adjustments_learningCurve:
  "map_of (calculateContextualAdjustments opt constraints) LEARNING_CURVE =
     (if list_ex (\<lambda>exp. includesStr (toLowerCase exp) (toLowerCase (name opt)))
           (experience (team constraints)) then Some 20
      else if skillLevel (team constraints) = Junior then Some 10
      else if timeline constraints = Immediate then Some 15
      else None)"
  by (simp add: calculateContextualAdjustments_def Let_def update_conv' criteria_distinct)

lemma adjustments_performance:
  "map_of (calculateContextualAdjustments opt constraints) PERFORMANCE =
     (if users (scale constraints) > 100000 \<or> traffic (scale constraints) = TrafficHigh
      then Some 10
      else if skillLevel (team constraints) = Senior then Some 5
      else if budget constraints = BudgetHigh then Some 5
      else None)"
  by (simp add: calculateContextualAdjustments_def Let_def update_conv' criteria_distinct)

lemma adjustments_scalability:
  "map_of (calculateContextualAdjustments opt constraints) SCALABILITY =
     (if users (scale constraints) > 100000 \<or> traffic (scale constraints) = TrafficHigh
      then Some 15
      else if timeline constraints = Long then Some 10
      else None)"
  by (simp add: calculateContextualAdjustments_def Let_def update_conv' criteria_distinct)

lemma adjustments_maintainability:
  "map_of (calculateContextualAdjustments opt constraints) MAINTAINABILITY =
     (if list_ex (\<lambda>exp. includesStr (toLowerCase exp) (toLowerCase (name opt)))
           (experience (team constraints)) then Some 10
      else if skillLevel (team constraints) = Junior then Some 5
      else None)"
  by (simp add: calculateContextualAdjustments_def Let_def update_conv' criteria_distinct)

lemma adjustments_keys:
  "set (map fst (calculateContextualAdjustments opt constraints))
     \<subseteq> {COST, PERFORMANCE, SCALABILITY, LEARNING_CURVE, MAINTAINABILITY}"
  by (auto simp: calculateContextualAdjustments_def Let_def dom_update)

lemma applyContextualAdjustments_single:
  "objects (snd (applyContextualAdjustments [s] constraints h)) (criteriaScores s)
     = applyAdjustments (calculateContextualAdjustments (option s) constraints)
         (objects h (criteriaScores s))"
  by (simp add: Let_def)

lemma junior_immediate_learningCurve:
  "map_of (calculateContextualAdjustments optionA juniorImmediate) LEARNING_CURVE = Some 10"
  by (simp add: adjustments_learningCurve juniorImmediate_def)

text \<open>
  Claim C1, as it holds on the code. The rules of \<open>calculateContextualAdjustments\<close>
  assign, they do not add: for each criterion the adjustment is the delta of the last
  rule, in the order budget, timeline, team skill, team experience, scale, that fires on
  it, and no other criterion is adjusted. \<open>applyContextualAdjustments\<close> adds that one
  delta to a criterion that is present and clamps the sum to [0, 100].
\<close>

theorem contextual_adjustments_last_rule_wins:
  "(let adj = calculateContextualAdjustments opt constraints;
        familiar = list_ex (\<lambda>exp. includesStr (toLowerCase exp) (toLowerCase (name opt)))
                     (experience (team constraints));
        atScale = (users (scale constraints) > 100000 \<or> traffic (scale constraints) = TrafficHigh)
    in map_of adj COST = (if budget constraints = BudgetLow then Some 10 else None)
     \<and> map_of adj PERFORMANCE =
         (if atScale then Some 10
          else if skillLevel (team constraints) = Senior then Some 5
          else if budget constraints = BudgetHigh then Some 5
          else None)
     \<and> map_of adj SCALABILITY =
         (if atScale then Some 15
          else if timeline constraints = Long then Some 10
          else None)
     \<and> map_of adj LEARNING_CURVE =
         (if familiar then Some 20
          else if skillLevel (team constraints) = Junior then Some 10
          else if timeline constraints = Immediate then Some 15
          else None)
     \<and> map_of adj MAINTAINABILITY =
         (if familiar then Some 10
          else if skillLevel (team constraints) = Junior then Some 5
          else None)
     \<and> set (map fst adj) \<subseteq> {COST, PERFORMANCE, SCALABILITY, LEARNING_CURVE, MAINTAINABILITY}
     \<and> map_of (applyAdjustments adj cs) c =
         (case map_of cs c of
            None \<Rightarrow> None
          | Some v \<Rightarrow> (case map_of adj c of
                        None \<Rightarrow> Some v
                      | Some d \<Rightarrow> Some (min 100 (max 0 (v + d))))))
   \<and> objects (snd (applyContextualAdjustments [s] constraints h)) (criteriaScores s)
       = applyAdjustments (calculateContextualAdjustments (option s) constraints)
           (objects h (criteriaScores s))"
  unfolding Let_def
  by (intro conjI adjustments_cost adjustments_performance adjustments_scalability
      adjustments_learningCurve adjustments_maintainability adjustments_keys
      applyAdjustments_lookup[OF distinct_calculateContextualAdjustments]
      applyContextualAdjustments_single)

text \<open>
  Claim C1 as the specification words it fails: with \<open>timeline = immediate\<close> and
  \<open>team.skillLevel = junior\<close> the adjustment of the learning curve is 10, not 15 + 10,
  and a learning-curve score of 50 becomes 60.
\<close>

theorem rules_do_not_stack_counterexample:
  "map_of (calculateContextualAdjustments optionA juniorImmediate) LEARNING_CURVE = Some 10
   \<and> map_of (objects neutralHeap (criteriaScores scoreA)) LEARNING_CURVE = Some 50
   \<and> map_of (objects (snd (applyContextualAdjustments [scoreA] juniorImmediate neutralHeap))
         (criteriaScores scoreA)) LEARNING_CURVE = Some 60"
proof -
  have opt: "option scoreA = optionA" by (simp add: scoreA_def)
  have before: "map_of (objects neutralHeap (criteriaScores scoreA)) LEARNING_CURVE = Some 50"
    by (simp add: neutralHeap_def criteria_distinct)
  have "map_of (objects (snd (applyContextualAdjustments [scoreA] juniorImmediate neutralHeap))
         (criteriaScores scoreA)) LEARNING_CURVE = Some 60"
    by (simp only: applyContextualAdjustments_single opt
          applyAdjustments_lookup[OF distinct_calculateContextualAdjustments]
          before junior_immediate_learningCurve option.case) simp
  with before junior_immediate_learningCurve show ?thesis by simp
qed

subsection \<open>Sharing of the criteria object\<close>

lemma applyContextualAdjustments_refs:
  "map criteriaScores (fst (applyContextualAdjustments ss constraints h)) = map criteriaScores ss"
  by (induction ss arbitrary: h) (simp_all add: Let_def case_prod_unfold)

lemma applyContextualAdjustments_options:
  "map option (fst (applyContextualAdjustments ss constraints h)) = map option ss"
  by (induction ss arbitrary: h) (simp_all add: Let_def case_prod_unfold)

lemma low_budget_cost:
  "map_of (calculateContextualAdjustments optionA lowBudget) COST = Some 10"
  by (simp add: adjustments_cost lowBudget_def)

text \<open>
  Claim C3 does not hold on the code. The \<open>OptionScore\<close> that
  \<open>applyContextualAdjustments\<close> returns is a new value with its own weighted and
  normalized score, but it carries the reference of the score it was made from, and the
  adjusted criteria are written through that reference: with a low budget, the cost
  entry of the criteria object of the input score is 50 before the call and 60 after it.
\<close>

theorem applyContextualAdjustments_mutates_input:
  "criteriaScores (hd (fst (applyContextualAdjustments [scoreA] lowBudget neutralHeap)))
     = criteriaScores scoreA
   \<and> map_of (objects neutralHeap (criteriaScores scoreA)) COST = Some 50
   \<and> map_of (objects (snd (applyContextualAdjustments [scoreA] lowBudget neutralHeap))
         (criteriaScores scoreA)) COST = Some 60"
proof -
  have opt: "option scoreA = optionA" by (simp add: scoreA_def)
  have before: "map_of (objects neutralHeap (criteriaScores scoreA)) COST = Some 50"
    by (simp add: neutralHeap_def criteria_distinct)
  have after: "map_of (objects (snd (applyContextualAdjustments [scoreA] lowBudget neutralHeap))
         (criteriaScores scoreA)) COST = Some 60"
    by (simp only: applyContextualAdjustments_single opt
          applyAdjustments_lookup[OF distinct_calculateContextualAdjustments]
          before low_budget_cost option.case) simp
  have same: "criteriaScores (hd (fst (applyContextualAdjustments [scoreA] lowBudget neutralHeap)))
     = criteriaScores scoreA"
    by (simp add: Let_def)
  from same before after show ?thesis by simp
qed

subsection \<open>Score bounds\<close>

lemma set_update_subset: "set (AList.update k v al) \<subseteq> insert (k, v) (set al)"
  by (induction al) auto

lemma scoresInRange_update:
  assumes "scoresInRange al" "0 \<le> v" "v \<le> 100"
  shows "scoresInRange (AList.update k v al)"
  using assms set_update_subset[of k v al]
  by (auto simp: scoresInRange_def list_all_iff)

lemma applyAdjustments_range:
  assumes "scoresInRange cs"
  shows "scoresInRange (applyAdjustments adj cs)"
  using assms
  by (induction adj arbitrary: cs) (auto simp: scoresInRange_update split: option.splits)

lemma getEmphasisFactor_pos: "0 < getEmphasisFactor x"
  by (simp add: getEmphasisFactor_def)

lemma normalizePriorities_nonneg:
  assumes "nonNegative p"
  shows "nonNegative (normalizePriorities p)"
  using assms by (simp add: nonNegative_def normalizePriorities_def Let_def)

lemma applyPriorityEmphasis_nonneg:
  assumes "nonNegative n"
  shows "nonNegative (applyPriorityEmphasis n raw)"
proof -
  have f: "0 \<le> getEmphasisFactor x" for x
    using getEmphasisFactor_pos[of x] by simp
  show ?thesis
    using assms f
    by (simp add: nonNegative_def applyPriorityEmphasis_def Let_def)
qed

lemma weightedLoop_bounds:
  assumes "list_all (\<lambda>(c, w). 0 \<le> w) m" and "scoresInRange cs"
    and "0 \<le> ws" and "ws \<le> 100 * tw" and "0 \<le> tw"
  shows "0 \<le> fst (weightedLoop m cs (ws, tw))
       \<and> fst (weightedLoop m cs (ws, tw)) \<le> 100 * snd (weightedLoop m cs (ws, tw))"
  using assms
proof (induction m arbitrary: ws tw)
  case Nil
  then show ?case by simp
next
  case (Cons e m)
  obtain c w where e: "e = (c, w)" by (cases e)
  from Cons.prems e have w: "0 \<le> w" and m: "list_all (\<lambda>(c, w). 0 \<le> w) m" by auto
  show ?case
  proof (cases "map_of cs c")
    case None
    with Cons.IH[OF m Cons.prems(2-5)] e show ?thesis by simp
  next
    case (Some v)
    then have "(c, v) \<in> set cs" by (rule map_of_SomeD)
    with Cons.prems(2) have v: "0 \<le> v" "v \<le> 100"
      by (auto simp: scoresInRange_def list_all_iff)
    have step: "0 \<le> ws + v * w" "ws + v * w \<le> 100 * (tw + w)" "0 \<le> tw + w"
    proof -
      have "0 \<le> v * w" using v w by simp
      with Cons.prems(3) show "0 \<le> ws + v * w" by simp
      have "v * w \<le> 100 * w" using v w by (simp add: mult_right_mono)
      with Cons.prems(4) show "ws + v * w \<le> 100 * (tw + w)" by (simp add: algebra_simps)
      from Cons.prems(5) w show "0 \<le> tw + w" by simp
    qed
    from Cons.IH[OF m Cons.prems(2) step] e Some show ?thesis by simp
  qed
qed

lemma calculateWeightedScore_range:
  assumes "nonNegative p" and "scoresInRange cs"
  shows "0 \<le> calculateWeightedScore cs p \<and> calculateWeightedScore cs p \<le> 100"
proof -
  let ?e = "applyPriorityEmphasis (normalizePriorities p) p"
  have e: "nonNegative ?e"
    by (intro applyPriorityEmphasis_nonneg normalizePriorities_nonneg assms)
  then have m: "list_all (\<lambda>(c, w). 0 \<le> w) (criteriaMapping ?e)"
    by (simp add: criteriaMapping_def nonNegative_def)
  obtain ws tw where r: "weightedLoop (criteriaMapping ?e) cs (0, 0) = (ws, tw)"
    by (cases "weightedLoop (criteriaMapping ?e) cs (0, 0)")
  from weightedLoop_bounds[OF m assms(2), of 0 0] r
  have b: "0 \<le> ws" "ws \<le> 100 * tw" by simp_all
  have "0 \<le> ws / tw \<and> ws / tw \<le> 100" if "tw > 0"
    using that b by (simp add: field_simps)
  then show ?thesis
    by (simp add: calculateWeightedScore_def Let_def r)
qed

lemma round_range:
  assumes "0 \<le> x" "x \<le> (100::real)"
  shows "0 \<le> round x \<and> round x \<le> 100"
proof -
  have "round (0::real) \<le> round x" using assms(1) by (rule round_mono)
  moreover have "round x \<le> round (100::real)" using assms(2) by (rule round_mono)
  ultimately show ?thesis by simp
qed

lemma applyContextualAdjustments_range:
  assumes "applyContextualAdjustments ss constraints h = (ss', h')"
    and "\<forall>r \<in> G. scoresInRange (objects h r)"
    and "set (map criteriaScores ss) \<subseteq> G"
  shows "(\<forall>r \<in> G. scoresInRange (objects h' r))
       \<and> map criteriaScores ss' = map criteriaScores ss
       \<and> (nonNegative (priorities constraints) \<longrightarrow>
            list_all (\<lambda>s. 0 \<le> weightedScore s \<and> weightedScore s \<le> 100
                         \<and> 0 \<le> normalizedScore s \<and> normalizedScore s \<le> 100) ss')"
  using assms
proof (induction ss arbitrary: h ss' h')
  case Nil
  then show ?case by simp
next
  case (Cons s ss)
  let ?cs = "applyAdjustments (calculateContextualAdjustments (option s) constraints)
               (objects h (criteriaScores s))"
  let ?h1 = "h\<lparr>objects := (objects h)(criteriaScores s := ?cs)\<rparr>"
  let ?w = "calculateWeightedScore ?cs (priorities constraints)"
  obtain rest h2 where rest: "applyContextualAdjustments ss constraints ?h1 = (rest, h2)"
    by (cases "applyContextualAdjustments ss constraints ?h1")
  from Cons.prems(1) rest
  have res: "ss' = s\<lparr>weightedScore := ?w, normalizedScore := round ?w\<rparr> # rest" "h' = h2"
    by (simp_all add: Let_def)
  from Cons.prems(2,3) have cs: "scoresInRange ?cs"
    by (intro applyAdjustments_range) simp
  with Cons.prems(2) have inv: "\<forall>r \<in> G. scoresInRange (objects ?h1 r)" by simp
  from Cons.prems(3) have sub: "set (map criteriaScores ss) \<subseteq> G" by simp
  note ih = Cons.IH[OF rest inv sub]
  have "0 \<le> ?w \<and> ?w \<le> 100 \<and> 0 \<le> round ?w \<and> round ?w \<le> 100"
    if "nonNegative (priorities constraints)"
    using calculateWeightedScore_range[OF that cs] round_range[of ?w] by simp
  with ih res show ?case by simp
qed

subsection \<open>Scores of the knowledge base\<close>

text \<open>
  Every scoring function ends in \<open>Math.min(100, Math.max(0, score))\<close>, which keeps a
  number within [0, 100] and keeps \<open>NaN\<close>. Fourteen of the functions add constants only.
  The other four multiply a field of the metadata or the length of one: their score is
  a number when the field has its declared type.
\<close>

lemma clamp100_inRange: "x \<noteq> NaN \<Longrightarrow> inRange (clamp100 x)"
  by (cases x) (simp_all add: clamp100_def)

lemma clamp100_Num: "inRange (clamp100 (Num x))"
  by (simp add: clamp100_def)

lemma jsPlus_Num_left: "y \<noteq> NaN \<Longrightarrow> jsPlus (Num s) y \<noteq> NaN"
  by (cases y) simp_all

lemma jsPlus_Num_right: "x \<noteq> NaN \<Longrightarrow> jsPlus x (Num d) \<noteq> NaN"
  by (cases x) simp_all

lemma jsTimes_Num_right: "x \<noteq> NaN \<Longrightarrow> k \<noteq> 0 \<Longrightarrow> jsTimes x (Num k) \<noteq> NaN"
  by (cases x) simp_all

lemma mathMin_Num_left: "y \<noteq> NaN \<Longrightarrow> mathMin (Num a) y \<noteq> NaN"
  by (cases y) simp_all

lemma inRange_if: "inRange a \<Longrightarrow> inRange b \<Longrightarrow> inRange (if c then a else b)"
  by simp

lemma inRange_50: "inRange (Num 50)"
  by simp

lemma simple_scores_range:
  "inRange (scoreCloudCost opt)"
  "inRange (scoreCloudPerformance opt)"
  "inRange (scoreCloudScalability opt)"
  "inRange (scoreCloudLearningCurve opt)"
  "inRange (scoreCloudVendorLockIn opt)"
  "inRange (scoreBackendCost opt)"
  "inRange (scoreBackendScalability opt)"
  "inRange (scoreBackendVendorLockIn opt)"
  "inRange (scoreBackendMaintainability opt)"
  "inRange (scoreDatabaseCost opt)"
  "inRange (scoreDatabaseScalability opt)"
  "inRange (scoreDatabaseLearningCurve opt)"
  "inRange (scoreDatabaseVendorLockIn opt)"
  "inRange (scoreDatabaseMaintainability opt)"
  unfolding scoreCloudCost_def scoreCloudPerformance_def scoreCloudScalability_def
    scoreCloudLearningCurve_def scoreCloudVendorLockIn_def scoreBackendCost_def
    scoreBackendScalability_def scoreBackendVendorLockIn_def scoreBackendMaintainability_def
    scoreDatabaseCost_def scoreDatabaseScalability_def scoreDatabaseLearningCurve_def
    scoreDatabaseVendorLockIn_def scoreDatabaseMaintainability_def Let_def
  by (rule inRange_if, rule inRange_50, rule clamp100_Num)+

lemma truthy_number_notNaN:
  assumes "v = JsUndefined \<or> isNumber v" "truthy v"
  shows "toNumber v \<noteq> NaN"
  using assms by (cases v) auto

lemma rating_term_notNaN:
  assumes "v = JsUndefined \<or> isNumber v" "k \<noteq> 0"
  shows "(if truthy v then jsPlus (Num s) (jsTimes (toNumber v) (Num k)) else Num s) \<noteq> NaN"
  using truthy_number_notNaN[OF assms(1)] assms(2)
  by (simp add: jsPlus_Num_left jsTimes_Num_right)

lemma declaredTypesD:
  assumes "declaredTypes md"
  shows "getProp md ''developmentSpeed'' = JsUndefined \<or> isNumber (getProp md ''developmentSpeed'')"
    and "getProp md ''performanceRating'' = JsUndefined \<or> isNumber (getProp md ''performanceRating'')"
    and "getProp md ''enterpriseFeatures'' = JsUndefined \<or> isArray (getProp md ''enterpriseFeatures'')"
    and "getProp md ''certifications'' = JsUndefined \<or> isArray (getProp md ''certifications'')"
  using assms by (simp_all add: declaredTypes_def)

lemma performance_scores_range:
  assumes "declaredTypes (metadata opt)"
  shows "inRange (scoreBackendPerformance opt)" "inRange (scoreDatabasePerformance opt)"
  unfolding scoreBackendPerformance_def scoreDatabasePerformance_def Let_def
  by (rule inRange_if, rule inRange_50, rule clamp100_inRange,
      rule rating_term_notNaN[OF declaredTypesD(2)[OF assms]], simp)+

lemma learningCurve_score_range:
  assumes "declaredTypes (metadata opt)"
  shows "inRange (scoreBackendLearningCurve opt)"
proof -
  let ?v = "getProp (metadata opt) ''developmentSpeed''"
  let ?s = "if truthy ?v then jsPlus (Num 30) (jsTimes (toNumber ?v) (Num 5)) else Num 30"
  have s: "?s \<noteq> NaN"
    by (rule rating_term_notNaN[OF declaredTypesD(1)[OF assms]]) simp
  have "(if c1 then jsPlus ?s (Num 20) else if c2 then jsPlus ?s (Num 10) else ?s) \<noteq> NaN"
    for c1 c2
    using s jsPlus_Num_right[OF s] by (simp del: jsPlus.simps)
  then show ?thesis
    unfolding scoreBackendLearningCurve_def Let_def
    by (intro inRange_if inRange_50 clamp100_inRange)
qed

lemma length_term:
  assumes "v = JsUndefined \<or> isArray v"
  shows "\<exists>n. toNumber (getProp (if truthy v then v else JsArray []) ''length'') = Num n"
  using assms by (cases v) auto

lemma maintainability_score_range:
  assumes "declaredTypes (metadata opt)"
  shows "inRange (scoreCloudMaintainability opt)"
proof -
  let ?e = "getProp (metadata opt) ''enterpriseFeatures''"
  let ?c = "getProp (metadata opt) ''certifications''"
  obtain n where n: "toNumber (getProp (if truthy ?e then ?e else JsArray []) ''length'') = Num n"
    using length_term[OF declaredTypesD(3)[OF assms]] by blast
  obtain m where m: "toNumber (getProp (if truthy ?c then ?c else JsArray []) ''length'') = Num m"
    using length_term[OF declaredTypesD(4)[OF assms]] by blast
  show ?thesis
    unfolding scoreCloudMaintainability_def Let_def n m
    by (intro inRange_if inRange_50 clamp100_inRange) simp
qed

lemma criteria_functions_range:
  assumes "declaredTypes (metadata opt)"
  shows "list_all (\<lambda>c. inRange (scoringFunction c opt)) (getCriteriaForCategory cat)"
  by (simp add: getCriteriaForCategory_def domainKnowledge_def createCloudProviderKnowledge_def
      createBackendFrameworkKnowledge_def createDatabaseKnowledge_def getGenericCriteria_def
      simple_scores_range performance_scores_range[OF assms] learningCurve_score_range[OF assms]
      maintainability_score_range[OF assms])

lemma allInRange_update:
  assumes "allInRange al" "inRange v"
  shows "allInRange (AList.update k v al)"
  using assms set_update_subset[of k v al]
  by (auto simp: allInRange_def list_all_iff)

lemma evaluateCriteria_range:
  assumes "list_all (\<lambda>c. inRange (scoringFunction c opt)) cs" and "allInRange acc"
  shows "allInRange (evaluateCriteria cs opt acc)"
  using assms by (induction cs arbitrary: acc) (simp_all add: allInRange_update)

lemma allInRange_lookup:
  assumes "allInRange acc" "map_of acc c = Some v"
  shows "inRange v"
  using assms map_of_SomeD[OF assms(2)] by (auto simp: allInRange_def list_all_iff)

lemma inRange_notNaN: "inRange v \<Longrightarrow> v \<noteq> NaN"
  by (cases v) simp_all

lemma adjusted_inRange: "inRange v \<Longrightarrow> inRange (clamp100 (jsPlus v (Num d)))"
  by (intro clamp100_inRange jsPlus_Num_right inRange_notNaN)

lemma adjustAffected_range:
  assumes "allInRange acc"
  shows "allInRange (adjustAffected cs delta acc)"
  using assms
proof (induction cs arbitrary: acc)
  case Nil
  then show ?case by simp
next
  case (Cons c cs)
  show ?case
  proof (cases "map_of acc c")
    case None
    with Cons show ?thesis by simp
  next
    case (Some v)
    from allInRange_lookup[OF Cons.prems Some]
    have "allInRange (AList.update c (clamp100 (jsPlus v (Num delta))) acc)"
      by (intro allInRange_update Cons.prems adjusted_inRange)
    with Cons.IH Some show ?thesis by simp
  qed
qed

lemma applyRules_range:
  assumes "allInRange acc"
  shows "allInRange (applyRules rs opt acc)"
  using assms by (induction rs arbitrary: acc) (simp_all add: adjustAffected_range)

lemma getComprehensiveEvaluation_range:
  assumes "declaredTypes (metadata opt)"
  shows "allInRange (getComprehensiveEvaluation opt)"
  unfolding getComprehensiveEvaluation_def applyScoreAdjustments_def evaluateOption_def
  by (intro applyRules_range evaluateCriteria_range criteria_functions_range[OF assms])
     (simp add: allInRange_def)

lemma evaluateOption_keys: "map fst (evaluateOption opt) = standardCriteria"
  by (simp add: evaluateOption_def getCriteriaForCategory_def domainKnowledge_def
      createCloudProviderKnowledge_def createBackendFrameworkKnowledge_def
      createDatabaseKnowledge_def getGenericCriteria_def criteria_distinct standardCriteria_def)

lemma update_present_keys:
  assumes "map_of al k = Some v"
  shows "map fst (AList.update k x al) = map fst al"
proof -
  from map_of_SomeD[OF assms] have "k \<in> fst ` set al" by force
  then show ?thesis by (simp add: update_keys)
qed

lemma adjustAffected_keys: "map fst (adjustAffected cs delta acc) = map fst acc"
  by (induction cs arbitrary: acc) (simp_all add: update_present_keys split: option.splits)

lemma applyRules_keys: "map fst (applyRules rs opt acc) = map fst acc"
  by (induction rs arbitrary: acc) (simp_all add: adjustAffected_keys)

lemma getComprehensiveEvaluation_keys:
  "map fst (getComprehensiveEvaluation opt) = standardCriteria"
  by (simp add: getComprehensiveEvaluation_def applyScoreAdjustments_def applyRules_keys
      evaluateOption_keys)

lemma numericScores_Some:
  assumes "allInRange kb"
  shows "\<exists>cs. numericScores kb = Some cs \<and> map fst cs = map fst kb \<and> scoresInRange cs"
  using assms
proof (induction kb)
  case Nil
  then show ?case by (simp add: scoresInRange_def)
next
  case (Cons e kb)
  obtain k v where e: "e = (k, v)" by (cases e)
  from Cons.prems e have v: "inRange v" and rest: "allInRange kb"
    by (simp_all add: allInRange_def)
  from v obtain r where r: "v = Num r" "0 \<le> r" "r \<le> 100" by (cases v) simp_all
  from Cons.IH[OF rest] obtain cs where cs: "numericScores kb = Some cs"
    "map fst cs = map fst kb" "scoresInRange cs" by blast
  show ?case using e r cs by (simp add: scoresInRange_def)
qed

lemma numericScores_keys:
  assumes "numericScores kb = Some cs"
  shows "map fst cs = map fst kb"
  using assms
proof (induction kb arbitrary: cs rule: numericScores.induct)
  case 1
  then show ?case by simp
next
  case (2 criterion v rest)
  then show ?case by (auto split: option.splits)
qed simp_all

lemma decimal_digits: "list_all isDigit (decimal n)"
proof (induction n rule: decimal.induct)
  case (1 n)
  show ?case
  proof (cases "n < 10")
    case True
    then have "isDigit (char_of (48 + n))"
      by (simp add: isDigit_def)
    with True show ?thesis by (subst decimal.simps) simp
  next
    case False
    have "n mod 10 < 10" by simp
    then have "isDigit (char_of (48 + n mod 10))"
      by (simp add: isDigit_def)
    with False 1 show ?thesis by (subst decimal.simps) simp
  qed
qed

lemma index_keys_lookup:
  assumes "\<not> list_all isDigit key"
  shows "map_of (zip (map decimal ns) xs) key = None"
proof -
  have "key \<notin> set (map decimal ns)"
    using assms decimal_digits by auto
  then have "key \<notin> fst ` set (zip (map decimal ns) xs)"
    by (auto dest: set_zip_leftD)
  then show ?thesis by (simp add: map_of_eq_None_iff)
qed

lemma own_lookup:
  assumes "\<not> list_all isDigit key"
  shows "map_of (ownEntries md) key = None \<or> map_of (ownEntries md) key = Some (getProp md key)"
proof (cases md)
  case (JsObject fs)
  then show ?thesis by (cases "map_of fs key") simp_all
next
  case (JsArray xs)
  have "map_of (ownEntries md) key = None"
    unfolding JsArray ownEntries.simps by (rule index_keys_lookup[OF assms])
  then show ?thesis by (rule disjI1)
next
  case (JsString s)
  have "map_of (ownEntries md) key = None"
    unfolding JsString ownEntries.simps by (rule index_keys_lookup[OF assms])
  then show ?thesis by (rule disjI1)
qed simp_all

lemma getProp_spread:
  "getProp (spread a b) key =
     (case map_of (ownEntries b) key of
        Some v \<Rightarrow> v
      | None \<Rightarrow> (case map_of (ownEntries a) key of Some v \<Rightarrow> v | None \<Rightarrow> JsUndefined))"
  by (simp add: spread_def merge_conv' map_add_def split: option.splits)

lemma spread_field:
  assumes "\<not> list_all isDigit key"
    and "getProp a key = JsUndefined \<or> P (getProp a key)"
    and "getProp b key = JsUndefined \<or> P (getProp b key)"
  shows "getProp (spread a b) key = JsUndefined \<or> P (getProp (spread a b) key)"
  using own_lookup[OF assms(1), of a] own_lookup[OF assms(1), of b] assms(2,3)
  by (auto simp: getProp_spread split: option.splits)

lemma field_names_not_indices:
  "\<not> list_all isDigit ''developmentSpeed''" "\<not> list_all isDigit ''performanceRating''"
  "\<not> list_all isDigit ''enterpriseFeatures''" "\<not> list_all isDigit ''certifications''"
  by (simp_all add: isDigit_def)

lemma declaredTypes_spread:
  assumes "declaredTypes a" "declaredTypes b"
  shows "declaredTypes (spread a b)"
  using spread_field[OF field_names_not_indices(1) declaredTypesD(1)[OF assms(1)]
          declaredTypesD(1)[OF assms(2)]]
    spread_field[OF field_names_not_indices(2) declaredTypesD(2)[OF assms(1)]
          declaredTypesD(2)[OF assms(2)]]
    spread_field[OF field_names_not_indices(3) declaredTypesD(3)[OF assms(1)]
          declaredTypesD(3)[OF assms(2)]]
    spread_field[OF field_names_not_indices(4) declaredTypesD(4)[OF assms(1)]
          declaredTypesD(4)[OF assms(2)]]
  unfolding declaredTypes_def by simp

lemma declaredTypes_fallback: "declaredTypes (getFallbackMetadata c)"
  by (simp add: declaredTypes_def getFallbackMetadata_def)

lemma metadata_processOption:
  "metadata (processOption opt) =
     (if isKnownTechnology opt then metadata opt
      else spread (getFallbackMetadata (category opt)) (metadata opt))"
  by (simp add: processOption_def getTechnologyMetadata_def Let_def)

lemma declaredTypes_processOption:
  assumes "declaredTypes (metadata opt)"
  shows "declaredTypes (metadata (processOption opt))"
  using assms by (simp add: metadata_processOption declaredTypes_spread declaredTypes_fallback)

subsection \<open>Scoring on the heap\<close>

lemma applyAdjustments_keys: "map fst (applyAdjustments adj cs) = map fst cs"
  by (induction adj arbitrary: cs) (auto simp: update_present_keys split: option.splits)

lemma calculateOptionScore_Some:
  assumes "calculateOptionScore opt constraints h = Some (s, h1)"
  obtains base where "numericScores (getComprehensiveEvaluation opt) = Some base"
    "option s = opt" "criteriaScores s = nextRef h" "nextRef h1 = Suc (nextRef h)"
    "objects h1 = (objects h)(nextRef h := base)"
proof -
  from assms obtain base where base: "numericScores (getComprehensiveEvaluation opt) = Some base"
    by (auto simp: calculateOptionScore_def split: option.splits)
  with assms have "option s = opt" "criteriaScores s = nextRef h" "nextRef h1 = Suc (nextRef h)"
    "objects h1 = (objects h)(nextRef h := base)"
    by (auto simp: calculateOptionScore_def alloc_def Let_def)
  with base that show thesis by blast
qed

lemma calculateScores_heap:
  assumes "calculateScores opts constraints h = Some (ss, h')"
  shows "nextRef h \<le> nextRef h'
       \<and> (\<forall>r < nextRef h. objects h' r = objects h r)
       \<and> map option ss = opts
       \<and> distinct (map criteriaScores ss)
       \<and> list_all (\<lambda>s. nextRef h \<le> criteriaScores s \<and> criteriaScores s < nextRef h'
                       \<and> numericScores (getComprehensiveEvaluation (option s))
                          = Some (objects h' (criteriaScores s))) ss"
  using assms
proof (induction opts arbitrary: h ss h')
  case Nil
  then show ?case by simp
next
  case (Cons opt opts)
  from Cons.prems obtain s h1 where s: "calculateOptionScore opt constraints h = Some (s, h1)"
    by (auto split: option.splits)
  from Cons.prems s obtain rest h2 where rest: "calculateScores opts constraints h1 = Some (rest, h2)"
    by (auto split: option.splits)
  from Cons.prems s rest have res: "ss = s # rest" "h' = h2" by simp_all
  from calculateOptionScore_Some[OF s] obtain base where
    base: "numericScores (getComprehensiveEvaluation opt) = Some base" and
    s_eq: "option s = opt" "criteriaScores s = nextRef h" "nextRef h1 = Suc (nextRef h)"
      "objects h1 = (objects h)(nextRef h := base)"
    by blast
  note ih = Cons.IH[OF rest]
  from ih have mono1: "nextRef h1 \<le> nextRef h2" by (rule conjunct1)
  from ih have frame1: "\<forall>r < nextRef h1. objects h2 r = objects h1 r"
    by (rule conjunct2[THEN conjunct1])
  from ih have opts1: "map option rest = opts"
    by (rule conjunct2[THEN conjunct2, THEN conjunct1])
  from ih have dist1: "distinct (map criteriaScores rest)"
    by (rule conjunct2[THEN conjunct2, THEN conjunct2, THEN conjunct1])
  from ih have all1: "list_all (\<lambda>s. nextRef h1 \<le> criteriaScores s \<and> criteriaScores s < nextRef h2
                       \<and> numericScores (getComprehensiveEvaluation (option s))
                          = Some (objects h2 (criteriaScores s))) rest"
    by (rule conjunct2[THEN conjunct2, THEN conjunct2, THEN conjunct2])
  have mono: "nextRef h \<le> nextRef h2" using mono1 s_eq(3) by simp
  have frame: "\<forall>r < nextRef h. objects h2 r = objects h r"
    using frame1 s_eq(3,4) by simp
  have here: "objects h2 (criteriaScores s) = base"
    using frame1 s_eq(2,3,4) by simp
  have notin: "criteriaScores s \<notin> set (map criteriaScores rest)"
  proof
    assume "criteriaScores s \<in> set (map criteriaScores rest)"
    then obtain x where "x \<in> set rest" "criteriaScores x = criteriaScores s" by auto
    with all1 have "nextRef h1 \<le> criteriaScores s" by (auto simp: list_all_iff)
    with s_eq(2,3) show False by simp
  qed
  have head: "nextRef h \<le> criteriaScores s \<and> criteriaScores s < nextRef h2
              \<and> numericScores (getComprehensiveEvaluation (option s))
                   = Some (objects h2 (criteriaScores s))"
    using mono1 s_eq(1,2,3) base here by simp
  have tail: "list_all (\<lambda>s. nextRef h \<le> criteriaScores s \<and> criteriaScores s < nextRef h2
                       \<and> numericScores (getComprehensiveEvaluation (option s))
                          = Some (objects h2 (criteriaScores s))) rest"
    using all1 s_eq(3) by (auto simp: list_all_iff)
  show ?case
    unfolding res
    using mono frame opts1 s_eq(1) dist1 notin head tail by simp
qed

lemma calculateScores_Some:
  assumes "\<forall>opt \<in> set opts. numericScores (getComprehensiveEvaluation opt) \<noteq> None"
  shows "\<exists>ss h'. calculateScores opts constraints h = Some (ss, h')"
  using assms
proof (induction opts arbitrary: h)
  case Nil
  then show ?case by simp
next
  case (Cons opt opts)
  from Cons.prems obtain base where base: "numericScores (getComprehensiveEvaluation opt) = Some base"
    by auto
  then obtain s h1 where s: "calculateOptionScore opt constraints h = Some (s, h1)"
    by (simp add: calculateOptionScore_def Let_def case_prod_unfold)
  from Cons.IH[of h1] Cons.prems obtain rest h2 where
    "calculateScores opts constraints h1 = Some (rest, h2)" by auto
  with s show ?case by simp
qed

lemma applyContextualAdjustments_frame:
  assumes "r \<notin> set (map criteriaScores ss)"
  shows "objects (snd (applyContextualAdjustments ss constraints h)) r = objects h r"
  using assms by (induction ss arbitrary: h) (simp_all add: Let_def case_prod_unfold)

lemma applyContextualAdjustments_distinct:
  assumes "distinct (map criteriaScores ss)"
  shows "list_all (\<lambda>s. objects (snd (applyContextualAdjustments ss constraints h)) (criteriaScores s)
                          = applyAdjustments (calculateContextualAdjustments (option s) constraints)
                              (objects h (criteriaScores s))
                       \<and> weightedScore s
                          = calculateWeightedScore
                              (objects (snd (applyContextualAdjustments ss constraints h))
                                 (criteriaScores s))
                              (priorities constraints)
                       \<and> normalizedScore s = round (weightedScore s))
           (fst (applyContextualAdjustments ss constraints h))"
  using assms
proof (induction ss arbitrary: h)
  case Nil
  then show ?case by simp
next
  case (Cons s ss)
  let ?cs = "applyAdjustments (calculateContextualAdjustments (option s) constraints)
               (objects h (criteriaScores s))"
  let ?h1 = "h\<lparr>objects := (objects h)(criteriaScores s := ?cs)\<rparr>"
  let ?w = "calculateWeightedScore ?cs (priorities constraints)"
  let ?s' = "s\<lparr>weightedScore := ?w, normalizedScore := round ?w\<rparr>"
  let ?rest = "fst (applyContextualAdjustments ss constraints ?h1)"
  let ?h2 = "snd (applyContextualAdjustments ss constraints ?h1)"
  have unfold: "applyContextualAdjustments (s # ss) constraints h = (?s' # ?rest, ?h2)"
    by (simp add: Let_def case_prod_unfold)
  from Cons.prems have notin: "criteriaScores s \<notin> set (map criteriaScores ss)"
    and dist: "distinct (map criteriaScores ss)" by simp_all
  have own: "objects ?h2 (criteriaScores s) = ?cs"
    using applyContextualAdjustments_frame[OF notin, of constraints ?h1] by simp
  have refs: "map criteriaScores ?rest = map criteriaScores ss"
    by (rule applyContextualAdjustments_refs)
  have head: "objects ?h2 (criteriaScores ?s')
                = applyAdjustments (calculateContextualAdjustments (option ?s') constraints)
                    (objects h (criteriaScores ?s'))
            \<and> weightedScore ?s'
                = calculateWeightedScore (objects ?h2 (criteriaScores ?s')) (priorities constraints)
            \<and> normalizedScore ?s' = round (weightedScore ?s')"
    using own by simp
  have same: "objects ?h1 (criteriaScores x) = objects h (criteriaScores x)" if "x \<in> set ?rest" for x
  proof -
    from that have "criteriaScores x \<in> set (map criteriaScores ?rest)" by simp
    with refs notin have "criteriaScores x \<noteq> criteriaScores s" by auto
    then show ?thesis by simp
  qed
  have tail: "list_all (\<lambda>s. objects ?h2 (criteriaScores s)
                          = applyAdjustments (calculateContextualAdjustments (option s) constraints)
                              (objects h (criteriaScores s))
                       \<and> weightedScore s
                          = calculateWeightedScore (objects ?h2 (criteriaScores s))
                              (priorities constraints)
                       \<and> normalizedScore s = round (weightedScore s)) ?rest"
    unfolding list_all_iff
  proof
    fix x assume x: "x \<in> set ?rest"
    from Cons.IH[OF dist, of ?h1] x
    have "objects ?h2 (criteriaScores x)
            = applyAdjustments (calculateContextualAdjustments (option x) constraints)
                (objects ?h1 (criteriaScores x))
          \<and> weightedScore x
            = calculateWeightedScore (objects ?h2 (criteriaScores x)) (priorities constraints)
          \<and> normalizedScore x = round (weightedScore x)"
      unfolding list_all_iff by blast
    then show "objects ?h2 (criteriaScores x)
            = applyAdjustments (calculateContextualAdjustments (option x) constraints)
                (objects h (criteriaScores x))
          \<and> weightedScore x
            = calculateWeightedScore (objects ?h2 (criteriaScores x)) (priorities constraints)
          \<and> normalizedScore x = round (weightedScore x)"
      unfolding same[OF x] .
  qed
  show ?case
    unfolding unfold fst_conv snd_conv list.pred_inject
    using head tail by (rule conjI)
qed

lemma distinct_standardCriteria: "distinct standardCriteria"
  by (simp add: standardCriteria_def criteria_distinct)

lemma dedupe_absorb:
  assumes "set ks \<subseteq> set acc"
  shows "fold (\<lambda>k acc. if k \<in> set acc then acc else acc @ [k]) ks acc = acc"
  using assms by (induction ks arbitrary: acc) simp_all

lemma dedupe_distinct:
  assumes "distinct (acc @ ks)"
  shows "fold (\<lambda>k acc. if k \<in> set acc then acc else acc @ [k]) ks acc = acc @ ks"
  using assms by (induction ks arbitrary: acc) simp_all

lemma allCriteria_standard:
  assumes "ss \<noteq> []"
    and "\<forall>s \<in> set ss. map fst (objects h (criteriaScores s)) = standardCriteria"
  shows "allCriteria h ss = standardCriteria"
proof -
  from assms(1) obtain s rest where ss: "ss = s # rest" by (cases ss) auto
  let ?f = "\<lambda>k acc. if k \<in> set acc then acc else acc @ [k]"
  let ?R = "concat (map (\<lambda>s. map fst (objects h (criteriaScores s))) rest)"
  from assms(2) ss have sub: "set ?R \<subseteq> set standardCriteria" by auto
  from assms(2) ss have "concat (map (\<lambda>s. map fst (objects h (criteriaScores s))) ss)
                          = standardCriteria @ ?R" by simp
  then have "allCriteria h ss = fold ?f ?R (fold ?f standardCriteria [])"
    by (simp add: allCriteria_def)
  also have "fold ?f standardCriteria [] = standardCriteria"
    using dedupe_distinct[of "[]" standardCriteria] distinct_standardCriteria by simp
  also have "fold ?f ?R standardCriteria = standardCriteria"
    by (rule dedupe_absorb[OF sub])
  finally show ?thesis .
qed

lemma fold_update_keys:
  assumes "distinct (map fst acc @ map fst xs)"
  shows "map fst (fold (\<lambda>(c, a, b). AList.update c (g a b)) xs acc) = map fst acc @ map fst xs"
  using assms
proof (induction xs arbitrary: acc)
  case Nil
  then show ?case by simp
next
  case (Cons x xs)
  obtain c a b where x: "x = (c, a, b)" by (cases x)
  from Cons.prems x have notin: "c \<notin> set (map fst acc)" by simp
  then have keys: "map fst (AList.update c (g a b) acc) = map fst acc @ [c]"
    by (simp add: update_keys)
  from Cons.prems x have "distinct (map fst (AList.update c (g a b) acc) @ map fst xs)"
    unfolding keys by simp
  from Cons.IH[OF this] keys x show ?case by simp
qed

lemma tradeOff_keys:
  assumes "ss \<noteq> []"
    and "\<forall>s \<in> set ss. map fst (objects h (criteriaScores s)) = standardCriteria"
  shows "map fst (strongestOption (generateTradeOffAnalysis h ss constraints)) = standardCriteria"
    and "map fst (weakestOption (generateTradeOffAnalysis h ss constraints)) = standardCriteria"
proof -
  from assms(1) obtain s0 rest where ss: "ss = s0 # rest" by (cases ss) auto
  let ?ex = "map (\<lambda>c. (c, strongWeakLoop h c ss (s0, s0))) standardCriteria"
  have keys: "map fst ?ex = standardCriteria" by (simp add: comp_def)
  have d: "distinct (map fst ([] :: (string \<times> TechnicalOption) list) @ map fst ?ex)"
    unfolding keys using distinct_standardCriteria by simp
  have ex: "(case ss of [] \<Rightarrow> []
             | s0 # x \<Rightarrow> map (\<lambda>c. (c, strongWeakLoop h c ss (s0, s0))) (allCriteria h ss)) = ?ex"
    by (simp add: ss allCriteria_standard[OF assms, unfolded ss])
  show "map fst (strongestOption (generateTradeOffAnalysis h ss constraints)) = standardCriteria"
    unfolding generateTradeOffAnalysis_def Let_def ex
    using fold_update_keys[OF d, of "\<lambda>strongest weakest. option strongest"] keys by simp
  show "map fst (weakestOption (generateTradeOffAnalysis h ss constraints)) = standardCriteria"
    unfolding generateTradeOffAnalysis_def Let_def ex
    using fold_update_keys[OF d, of "\<lambda>strongest weakest. option weakest"] keys by simp
qed

subsection \<open>Validation\<close>

lemma validName_cases:
  "validName v \<longleftrightarrow> (\<exists>s. v = JsString s \<and> trim s \<noteq> [])"
  by (cases v) (simp_all add: validName_def)

lemma trim_Nil: "trim [] = []"
  by (simp add: trim_def)

lemma validName_truthy: "validName v \<Longrightarrow> truthy v"
  by (auto simp: validName_cases trim_Nil)

lemma validateSingleOption_errors:
  "errors (validateSingleOption opt index) = []
     \<longleftrightarrow> validName (rawName opt) \<and> rawCategory opt \<noteq> []"
  by (cases "rawName opt") (simp_all add: validateSingleOption_def validName_def Let_def)

lemma set_zip_index: "fst ` set (zip xs [0 ..< length xs]) = set xs"
  unfolding set_map[symmetric] by (simp only: map_fst_zip length_upt diff_zero)

lemma single_errors_Nil_iff:
  "concat (map errors (map (\<lambda>(opt, index). validateSingleOption opt index)
                          (zip opts [0 ..< length opts]))) = []
   \<longleftrightarrow> (\<forall>opt \<in> set opts. validName (rawName opt) \<and> rawCategory opt \<noteq> [])"
proof -
  have "concat (map errors (map (\<lambda>(opt, index). validateSingleOption opt index)
                          (zip opts [0 ..< length opts]))) = []
        \<longleftrightarrow> (\<forall>p \<in> set (zip opts [0 ..< length opts]).
               validName (rawName (fst p)) \<and> rawCategory (fst p) \<noteq> [])"
    by (auto simp: validateSingleOption_errors case_prod_unfold)
  also have "\<dots> \<longleftrightarrow> (\<forall>opt \<in> fst ` set (zip opts [0 ..< length opts]).
               validName (rawName opt) \<and> rawCategory opt \<noteq> [])"
    by auto
  finally show ?thesis by (simp only: set_zip_index)
qed

lemma duplicatesLoop_valid_names:
  assumes "\<forall>opt \<in> set opts. validName (rawName opt)"
  shows "\<exists>errs. duplicatesLoop opts index seen = Some errs
           \<and> (errs = [] \<longleftrightarrow> distinct (map duplicateKey opts)
                              \<and> set (map duplicateKey opts) \<inter> seen = {})"
  using assms
proof (induction opts arbitrary: index seen)
  case Nil
  then show ?case by simp
next
  case (Cons opt opts)
  from Cons.prems obtain s where s: "rawName opt = JsString s" "trim s \<noteq> []"
    by (auto simp: validName_cases)
  then have ne: "s \<noteq> []" by (auto simp: trim_Nil)
  have key: "duplicateKey opt = toLowerCase s @ ''-'' @ rawCategory opt"
    by (simp add: duplicateKey_def asTechnicalOption_def s)
  from Cons.prems have rest: "\<forall>opt \<in> set opts. validName (rawName opt)" by simp
  show ?case
  proof (cases "duplicateKey opt \<in> seen")
    case True
    from Cons.IH[OF rest, of "Suc index" seen] obtain errs where
      "duplicatesLoop opts (Suc index) seen = Some errs" by blast
    with True s ne key show ?thesis by (simp add: Let_def)
  next
    case False
    from Cons.IH[OF rest, of "Suc index" "insert (duplicateKey opt) seen"] obtain errs where
      errs: "duplicatesLoop opts (Suc index) (insert (duplicateKey opt) seen) = Some errs"
        "errs = [] \<longleftrightarrow> distinct (map duplicateKey opts)
                 \<and> set (map duplicateKey opts) \<inter> insert (duplicateKey opt) seen = {}"
      by blast
    from False s ne key errs(1)
    have "duplicatesLoop (opt # opts) index seen = Some errs" by (simp add: Let_def)
    moreover from errs(2) False
    have "errs = [] \<longleftrightarrow> distinct (map duplicateKey (opt # opts))
                 \<and> set (map duplicateKey (opt # opts)) \<inter> seen = {}"
      by auto
    ultimately show ?thesis by blast
  qed
qed

lemma validateTechnicalOptions_count:
  assumes "\<not> (2 \<le> length opts \<and> length opts \<le> 3)"
  shows "validateTechnicalOptions opts
           = Some \<lparr>isValid = False,
                   errors = (if length opts < 2 then [OPTIONS_TOO_FEW] else [OPTIONS_TOO_MANY]),
                   warnings = []\<rparr>"
  using assms by (auto simp: validateTechnicalOptions_def validateOptionCount_def Let_def)

lemma validateTechnicalOptions_in_count:
  assumes "2 \<le> length opts" "length opts \<le> 3"
  shows "validateTechnicalOptions opts =
           (case duplicatesLoop opts 0 {} of
              None \<Rightarrow> None
            | Some dups \<Rightarrow>
                Some \<lparr>isValid =
                        (concat (map errors (map (\<lambda>(opt, index). validateSingleOption opt index)
                                  (zip opts [0 ..< length opts]))) @ dups = []),
                      errors =
                        concat (map errors (map (\<lambda>(opt, index). validateSingleOption opt index)
                                  (zip opts [0 ..< length opts]))) @ dups,
                      warnings =
                        concat (map warnings (map (\<lambda>(opt, index). validateSingleOption opt index)
                                  (zip opts [0 ..< length opts])))
                        @ warnings (validateCategoryConsistency opts)\<rparr>)"
  using assms
  by (simp add: validateTechnicalOptions_def validateOptionCount_def Let_def
      validateNoDuplicates_def validateCategoryConsistency_def split: option.splits)

lemma valid_iff:
  "(\<exists>v. validateTechnicalOptions opts = Some v \<and> isValid v) \<longleftrightarrow>
     2 \<le> length opts \<and> length opts \<le> 3
   \<and> (\<forall>opt \<in> set opts. validName (rawName opt) \<and> rawCategory opt \<noteq> [])
   \<and> distinct (map duplicateKey opts)"
proof (cases "2 \<le> length opts \<and> length opts \<le> 3")
  case False
  then show ?thesis by (auto simp: validateTechnicalOptions_count)
next
  case True
  then have c: "2 \<le> length opts" "length opts \<le> 3" by simp_all
  note form = validateTechnicalOptions_in_count[OF c]
  show ?thesis
  proof
    assume "\<exists>v. validateTechnicalOptions opts = Some v \<and> isValid v"
    then obtain v where v: "validateTechnicalOptions opts = Some v" "isValid v" by blast
    from v form obtain dups where dups: "duplicatesLoop opts 0 {} = Some dups"
      by (auto split: option.splits)
    from v form dups have e: "concat (map errors (map (\<lambda>(opt, index). validateSingleOption opt index)
                                  (zip opts [0 ..< length opts]))) = []" "dups = []"
      by auto
    from e(1) have names: "\<forall>opt \<in> set opts. validName (rawName opt) \<and> rawCategory opt \<noteq> []"
      by (simp only: single_errors_Nil_iff)
    then have "\<forall>opt \<in> set opts. validName (rawName opt)" by simp
    from duplicatesLoop_valid_names[OF this, of 0 "{}"] dups e(2)
    have "distinct (map duplicateKey opts)" by auto
    with c names show "2 \<le> length opts \<and> length opts \<le> 3
      \<and> (\<forall>opt \<in> set opts. validName (rawName opt) \<and> rawCategory opt \<noteq> [])
      \<and> distinct (map duplicateKey opts)" by simp
  next
    assume a: "2 \<le> length opts \<and> length opts \<le> 3
      \<and> (\<forall>opt \<in> set opts. validName (rawName opt) \<and> rawCategory opt \<noteq> [])
      \<and> distinct (map duplicateKey opts)"
    then have names: "\<forall>opt \<in> set opts. validName (rawName opt) \<and> rawCategory opt \<noteq> []"
      and dist: "distinct (map duplicateKey opts)" by simp_all
    from names have "\<forall>opt \<in> set opts. validName (rawName opt)" by simp
    from duplicatesLoop_valid_names[OF this, of 0 "{}"] dist
    have dups: "duplicatesLoop opts 0 {} = Some []" by auto
    from names have e: "concat (map errors (map (\<lambda>(opt, index). validateSingleOption opt index)
                                  (zip opts [0 ..< length opts]))) = []"
      by (simp only: single_errors_Nil_iff)
    show "\<exists>v. validateTechnicalOptions opts = Some v \<and> isValid v"
      unfolding form dups using e by simp
  qed
qed

lemma evaluate_aborts_iff:
  "(evaluate opts constraints h = ThrowsTypeError
    \<or> (\<exists>e. evaluate opts constraints h = ThrowsInvalidOptions e))
   \<longleftrightarrow> \<not> (\<exists>v. validateTechnicalOptions opts = Some v \<and> isValid v)"
  by (auto simp: evaluate_def Let_def case_prod_unfold split: option.splits)
















subsection \<open>The entry point\<close>

lemma pairs_as_zip: "map (\<lambda>s. (f s, g s)) xs = zip (map f xs) (map g xs)"
  by (induction xs) simp_all

lemma numericScores_range:
  assumes "allInRange kb" "numericScores kb = Some cs"
  shows "scoresInRange cs"
  using numericScores_Some[OF assms(1)] assms(2) by auto

lemma processed_numeric:
  assumes "declaredTypes (rawMetadata raw)"
  shows "allInRange (getComprehensiveEvaluation (processOption (asTechnicalOption raw)))"
  by (intro getComprehensiveEvaluation_range declaredTypes_processOption)
     (simp add: asTechnicalOption_def assms)

lemma evaluate_returns_complete:
  assumes v: "validateTechnicalOptions opts = Some v" "isValid v"
    and d: "\<forall>opt \<in> set opts. declaredTypes (rawMetadata opt)"
  shows "\<exists>result h'. evaluate opts constraints h = Returns result h'
       \<and> map option (scores result) = processOptions (map asTechnicalOption opts)
       \<and> distinct (map criteriaScores (scores result))
       \<and> list_all (\<lambda>s. map fst (objects h' (criteriaScores s)) = standardCriteria
                       \<and> scoresInRange (objects h' (criteriaScores s))
                       \<and> weightedScore s
                          = calculateWeightedScore (objects h' (criteriaScores s))
                              (priorities constraints)
                       \<and> normalizedScore s = round (weightedScore s)) (scores result)
       \<and> rankings result = rankOptions (scores result)
       \<and> map rank (rankings result) = [1 ..< Suc (length opts)]
       \<and> mset (map (\<lambda>r. (rankedOption r, score r)) (rankings result))
           = mset (map (\<lambda>s. (option s, weightedScore s)) (scores result))
       \<and> tradeOffs result = generateTradeOffAnalysis h' (scores result) constraints
       \<and> map fst (strongestOption (tradeOffs result)) = standardCriteria
       \<and> map fst (weakestOption (tradeOffs result)) = standardCriteria"
proof -
  let ?P = "processOptions (map asTechnicalOption opts)"
  from v have "\<exists>v. validateTechnicalOptions opts = Some v \<and> isValid v" by blast
  then have len: "2 \<le> length opts" by (simp add: valid_iff)
  have inr: "allInRange (getComprehensiveEvaluation p)" if "p \<in> set ?P" for p
    using that d by (auto simp: processOptions_def processed_numeric)
  then have "\<forall>p \<in> set ?P. numericScores (getComprehensiveEvaluation p) \<noteq> None"
    using numericScores_Some by fastforce
  from calculateScores_Some[OF this, of constraints h]
  obtain base h1 where calc: "calculateScores ?P constraints h = Some (base, h1)" by blast
  define adjusted where "adjusted = fst (applyContextualAdjustments base constraints h1)"
  define h2 where "h2 = snd (applyContextualAdjustments base constraints h1)"
  define result where
    "result = \<lparr>scores = adjusted, rankings = rankOptions adjusted,
               tradeOffs = generateTradeOffAnalysis h2 adjusted constraints\<rparr>"
  have ev: "evaluate opts constraints h = Returns result h2"
    by (simp add: evaluate_def v calc Let_def case_prod_unfold result_def adjusted_def h2_def)
  note heap = calculateScores_heap[OF calc]
  from heap have base_opts: "map option base = ?P"
    by (rule conjunct2[THEN conjunct2, THEN conjunct1])
  from heap have base_dist: "distinct (map criteriaScores base)"
    by (rule conjunct2[THEN conjunct2, THEN conjunct2, THEN conjunct1])
  from heap have base_all:
    "list_all (\<lambda>s. nextRef h \<le> criteriaScores s \<and> criteriaScores s < nextRef h1
                \<and> numericScores (getComprehensiveEvaluation (option s))
                     = Some (objects h1 (criteriaScores s))) base"
    by (rule conjunct2[THEN conjunct2, THEN conjunct2, THEN conjunct2])
  have opts: "map option adjusted = map option base"
    unfolding adjusted_def by (rule applyContextualAdjustments_options)
  have refs: "map criteriaScores adjusted = map criteriaScores base"
    unfolding adjusted_def by (rule applyContextualAdjustments_refs)
  have length: "length adjusted = length opts"
  proof -
    from opts base_opts have "length (map option adjusted) = length ?P" by simp
    then show ?thesis by (simp add: processOptions_def)
  qed
  have adj_all:
    "list_all (\<lambda>s. objects h2 (criteriaScores s)
                     = applyAdjustments (calculateContextualAdjustments (option s) constraints)
                         (objects h1 (criteriaScores s))
                \<and> weightedScore s
                     = calculateWeightedScore (objects h2 (criteriaScores s))
                         (priorities constraints)
                \<and> normalizedScore s = round (weightedScore s)) adjusted"
    unfolding adjusted_def h2_def by (rule applyContextualAdjustments_distinct[OF base_dist])
  have pairs: "set (map (\<lambda>s. (criteriaScores s, option s)) adjusted)
             = set (map (\<lambda>s. (criteriaScores s, option s)) base)"
    by (simp only: pairs_as_zip refs opts)
  have base_num: "numericScores (getComprehensiveEvaluation (option s))
                   = Some (objects h1 (criteriaScores s))
                 \<and> option s \<in> set ?P" if "s \<in> set adjusted" for s
  proof -
    from that have "(criteriaScores s, option s) \<in> set (map (\<lambda>s. (criteriaScores s, option s)) adjusted)"
      by force
    with pairs obtain b where b: "b \<in> set base" "criteriaScores b = criteriaScores s"
      "option b = option s" by auto
    from b(1) base_all have "numericScores (getComprehensiveEvaluation (option b))
                   = Some (objects h1 (criteriaScores b))"
      by (auto simp: list_all_iff)
    moreover have "option b \<in> set ?P"
    proof -
      from b(1) have "option b \<in> set (map option base)" by simp
      then show ?thesis by (simp only: base_opts)
    qed
    ultimately show ?thesis using b(2,3) by simp
  qed
  have each: "map fst (objects h2 (criteriaScores s)) = standardCriteria
            \<and> scoresInRange (objects h2 (criteriaScores s))
            \<and> weightedScore s
                 = calculateWeightedScore (objects h2 (criteriaScores s)) (priorities constraints)
            \<and> normalizedScore s = round (weightedScore s)" if s: "s \<in> set adjusted" for s
  proof -
    let ?cs = "objects h1 (criteriaScores s)"
    from base_num[OF s] have num: "numericScores (getComprehensiveEvaluation (option s)) = Some ?cs"
      and mem: "option s \<in> set ?P" by simp_all
    from numericScores_keys[OF num] have keys: "map fst ?cs = standardCriteria"
      by (simp add: getComprehensiveEvaluation_keys)
    from numericScores_range[OF inr[OF mem] num] have range: "scoresInRange ?cs" .
    from adj_all s have a:
      "objects h2 (criteriaScores s)
         = applyAdjustments (calculateContextualAdjustments (option s) constraints) ?cs"
      "weightedScore s
         = calculateWeightedScore (objects h2 (criteriaScores s)) (priorities constraints)"
      "normalizedScore s = round (weightedScore s)"
      by (auto simp: list_all_iff)
    from a(1) keys have "map fst (objects h2 (criteriaScores s)) = standardCriteria"
      by (simp add: applyAdjustments_keys)
    moreover from a(1) range have "scoresInRange (objects h2 (criteriaScores s))"
      by (simp add: applyAdjustments_range)
    ultimately show ?thesis using a(2,3) by simp
  qed
  then have all: "list_all (\<lambda>s. map fst (objects h2 (criteriaScores s)) = standardCriteria
                       \<and> scoresInRange (objects h2 (criteriaScores s))
                       \<and> weightedScore s
                          = calculateWeightedScore (objects h2 (criteriaScores s))
                              (priorities constraints)
                       \<and> normalizedScore s = round (weightedScore s)) adjusted"
    unfolding list_all_iff by blast
  from length len have ne: "adjusted \<noteq> []" by auto
  from each have keys: "\<forall>s \<in> set adjusted. map fst (objects h2 (criteriaScores s)) = standardCriteria"
    by blast
  have r1: "map option (scores result) = ?P"
    by (simp add: result_def opts base_opts)
  have r2: "distinct (map criteriaScores (scores result))"
    by (simp add: result_def refs base_dist)
  have r3: "list_all (\<lambda>s. map fst (objects h2 (criteriaScores s)) = standardCriteria
                       \<and> scoresInRange (objects h2 (criteriaScores s))
                       \<and> weightedScore s
                          = calculateWeightedScore (objects h2 (criteriaScores s))
                              (priorities constraints)
                       \<and> normalizedScore s = round (weightedScore s)) (scores result)"
    using all by (simp add: result_def)
  have r4: "rankings result = rankOptions (scores result)"
    by (simp add: result_def)
  have r5: "map rank (rankings result) = [1 ..< Suc (length opts)]"
    by (simp only: r4 rankOptions_ranks) (simp add: result_def length)
  have r6: "mset (map (\<lambda>r. (rankedOption r, score r)) (rankings result))
           = mset (map (\<lambda>s. (option s, weightedScore s)) (scores result))"
    by (simp only: r4 rankOptions_pairs mset_map mset_sort)
  have r7: "tradeOffs result = generateTradeOffAnalysis h2 (scores result) constraints"
    by (simp add: result_def)
  have r8: "map fst (strongestOption (tradeOffs result)) = standardCriteria"
    using tradeOff_keys(1)[OF ne keys, of constraints] by (simp add: result_def)
  have r9: "map fst (weakestOption (tradeOffs result)) = standardCriteria"
    using tradeOff_keys(2)[OF ne keys, of constraints] by (simp add: result_def)
  from ev r1 r2 r3 r4 r5 r6 r7 r8 r9 show ?thesis by blast
qed








lemma declared_types_scores_within_bounds:
  assumes v: "validateTechnicalOptions opts = Some v" "isValid v"
    and d: "\<forall>opt \<in> set opts. declaredTypes (rawMetadata opt)"
    and p: "nonNegative (priorities constraints)"
  shows "\<exists>result h'. evaluate opts constraints h = Returns result h'
       \<and> list_all (\<lambda>s. scoresInRange (objects h' (criteriaScores s))
                       \<and> 0 \<le> normalizedScore s \<and> normalizedScore s \<le> 100) (scores result)"
proof -
  from evaluate_returns_complete[OF v d, of constraints h]
  obtain result h' where e: "evaluate opts constraints h = Returns result h'"
    and l: "list_all (\<lambda>s. map fst (objects h' (criteriaScores s)) = standardCriteria
                       \<and> scoresInRange (objects h' (criteriaScores s))
                       \<and> weightedScore s
                          = calculateWeightedScore (objects h' (criteriaScores s))
                              (priorities constraints)
                       \<and> normalizedScore s = round (weightedScore s)) (scores result)"
    by blast
  have "scoresInRange (objects h' (criteriaScores s))
        \<and> 0 \<le> normalizedScore s \<and> normalizedScore s \<le> 100"
    if "s \<in> set (scores result)" for s
  proof -
    from l that have r: "scoresInRange (objects h' (criteriaScores s))"
      and w: "weightedScore s = calculateWeightedScore (objects h' (criteriaScores s))
                                  (priorities constraints)"
      and n: "normalizedScore s = round (weightedScore s)"
      by (simp_all add: list_all_iff)
    from calculateWeightedScore_range[OF p r] w
    have "0 \<le> weightedScore s" "weightedScore s \<le> 100" by simp_all
    from round_range[OF this] n r show ?thesis by simp
  qed
  then have "list_all (\<lambda>s. scoresInRange (objects h' (criteriaScores s))
                       \<and> 0 \<le> normalizedScore s \<and> normalizedScore s \<le> 100) (scores result)"
    by (simp add: list_all_iff)
  with e show ?thesis by blast
qed

text \<open>
  Claim C5. The criterion scores and the normalized score that \<open>evaluate\<close> produces are
  not within [0, 100] for every option. The metadata of an option is an object whose
  values have any type. The backend option \<open>Rocket\<close> has every required field of its
  category, with the text \<open>fast\<close> for \<open>performanceRating\<close>; \<open>Express\<close> is a second backend
  option. Validation accepts the two options and reports the field in a warning.
  \<open>scoreBackendPerformance\<close> adds \<open>'fast' * 7\<close> to 30, which is \<open>NaN\<close>, and the clamp
  returns \<open>NaN\<close>; neither the rule adjustments nor the contextual adjustments change
  that, and the criterion score \<open>performance\<close>, the weighted score and the normalized
  score of \<open>Rocket\<close> in the result of \<open>evaluate\<close> are \<open>NaN\<close>. With metadata of the declared
  types all of them are within [0, 100] (\<open>declared_types_scores_within_bounds\<close>).
\<close>

theorem non_numeric_rating_gives_NaN_scores:
  "validateTechnicalOptions [rocketOption, expressOption]
     = Some \<lparr>isValid = True, errors = [],
             warnings = [METADATA_ISSUE 0 ''Field performanceRating must be numeric'',
                         METADATA_ISSUE 1 ''Missing required field: language'',
                         METADATA_ISSUE 1 ''Missing required field: developmentSpeed'',
                         METADATA_ISSUE 1 ''Missing required field: communitySize'',
                         METADATA_ISSUE 1 ''Missing required field: enterpriseAdoption'',
                         METADATA_ISSUE 1 ''Missing required field: performanceRating'']\<rparr>
   \<and> getProp (metadata (processOption (asTechnicalOption rocketOption))) ''performanceRating''
       = JsString ''fast''
   \<and> scoreBackendPerformance (processOption (asTechnicalOption rocketOption)) = NaN
   \<and> getComprehensiveEvaluation (processOption (asTechnicalOption rocketOption))
       = [(COST, Num 90), (PERFORMANCE, NaN), (SCALABILITY, Num 60), (LEARNING_CURVE, Num 100),
          (VENDOR_LOCK_IN, Num 100), (MAINTAINABILITY, Num 99)]
   \<and> evaluate [rocketOption, expressOption] lowBudget neutralHeap
       = ReturnsNaN [jsOptionScore (processOption (asTechnicalOption rocketOption)) lowBudget,
                     jsOptionScore (processOption (asTechnicalOption expressOption)) lowBudget]
   \<and> jsCriteriaScores (jsOptionScore (processOption (asTechnicalOption rocketOption)) lowBudget)
       = [(COST, Num 100), (PERFORMANCE, NaN), (SCALABILITY, Num 60), (LEARNING_CURVE, Num 100),
          (VENDOR_LOCK_IN, Num 100), (MAINTAINABILITY, Num 99)]
   \<and> jsWeightedScore (jsOptionScore (processOption (asTechnicalOption rocketOption)) lowBudget)
       = NaN
   \<and> jsNormalizedScore (jsOptionScore (processOption (asTechnicalOption rocketOption)) lowBudget)
       = NaN
   \<and> \<not> inRange (jsNormalizedScore
                   (jsOptionScore (processOption (asTechnicalOption rocketOption)) lowBudget))"
proof -
  have v: "validateTechnicalOptions [rocketOption, expressOption]
     = Some \<lparr>isValid = True, errors = [],
             warnings = [METADATA_ISSUE 0 ''Field performanceRating must be numeric'',
                         METADATA_ISSUE 1 ''Missing required field: language'',
                         METADATA_ISSUE 1 ''Missing required field: developmentSpeed'',
                         METADATA_ISSUE 1 ''Missing required field: communitySize'',
                         METADATA_ISSUE 1 ''Missing required field: enterpriseAdoption'',
                         METADATA_ISSUE 1 ''Missing required field: performanceRating'']\<rparr>"
    by code_simp
  have g: "getProp (metadata (processOption (asTechnicalOption rocketOption))) ''performanceRating''
       = JsString ''fast''"
    by code_simp
  have s: "scoreBackendPerformance (processOption (asTechnicalOption rocketOption)) = NaN"
    by code_simp
  have c: "getComprehensiveEvaluation (processOption (asTechnicalOption rocketOption))
       = [(COST, Num 90), (PERFORMANCE, NaN), (SCALABILITY, Num 60), (LEARNING_CURVE, Num 100),
          (VENDOR_LOCK_IN, Num 100), (MAINTAINABILITY, Num 99)]"
    by code_simp
  have n: "numericScores (getComprehensiveEvaluation (processOption (asTechnicalOption rocketOption)))
             = None"
    unfolding c by simp
  have e: "evaluate [rocketOption, expressOption] lowBudget neutralHeap
       = ReturnsNaN [jsOptionScore (processOption (asTechnicalOption rocketOption)) lowBudget,
                     jsOptionScore (processOption (asTechnicalOption expressOption)) lowBudget]"
    by (simp add: evaluate_def v processOptions_def calculateOptionScore_def n)
  have j: "jsCriteriaScores (jsOptionScore (processOption (asTechnicalOption rocketOption)) lowBudget)
       = [(COST, Num 100), (PERFORMANCE, NaN), (SCALABILITY, Num 60), (LEARNING_CURVE, Num 100),
          (VENDOR_LOCK_IN, Num 100), (MAINTAINABILITY, Num 99)]"
    by code_simp
  have w: "jsWeightedScore (jsOptionScore (processOption (asTechnicalOption rocketOption)) lowBudget)
       = NaN"
    by code_simp
  have r: "jsNormalizedScore (jsOptionScore (processOption (asTechnicalOption rocketOption)) lowBudget)
       = NaN"
    by code_simp
  have i: "\<not> inRange (jsNormalizedScore
                   (jsOptionScore (processOption (asTechnicalOption rocketOption)) lowBudget))"
    unfolding r by simp
  from v g s c e j w r i show ?thesis by (intro conjI)
qed




subsection \<open>Weighting\<close>

lemma weightedLoop_sums:
  "weightedLoop m cs (ws, tw) =
     (ws + (\<Sum>(c, w) \<leftarrow> filter (\<lambda>(c, w). map_of cs c \<noteq> None) m. scoreOrZero cs c * w),
      tw + (\<Sum>(c, w) \<leftarrow> filter (\<lambda>(c, w). map_of cs c \<noteq> None) m. w))"
proof (induction m arbitrary: ws tw)
  case Nil
  then show ?case by simp
next
  case (Cons e m)
  obtain c w where e: "e = (c, w)" by (cases e)
  show ?case
    by (cases "map_of cs c") (simp_all add: e Cons.IH scoreOrZero_def)
qed

lemma positive_weights_sum:
  fixes m :: "(string \<times> real) list"
  assumes "list_all (\<lambda>(c, w). 0 < w) m"
  shows "0 < (\<Sum>(c, w) \<leftarrow> m. w) \<longleftrightarrow> m \<noteq> []"
  using assms
proof (induction m)
  case Nil
  then show ?case by simp
next
  case (Cons e m)
  obtain c w where e: "e = (c, w)" by (cases e)
  from Cons.prems e have w: "0 < w" and m: "list_all (\<lambda>(c, w). 0 < w) m" by auto
  have "0 \<le> (\<Sum>(c, w) \<leftarrow> m. w)"
    using Cons.IH[OF m] by (cases m) auto
  with w e show ?case by simp
qed

lemma valid_cases:
  assumes "x \<in> {1, 2, 3, 4, 5::real}"
  shows "0 < x" "0 < getEmphasisFactor x"
  using assms by (auto simp: getEmphasisFactor_def)

lemma validPrioritiesD:
  assumes "validPriorities p"
  shows "cost p \<in> {1, 2, 3, 4, 5}" "performance p \<in> {1, 2, 3, 4, 5}"
    "easeOfUse p \<in> {1, 2, 3, 4, 5}" "scalability p \<in> {1, 2, 3, 4, 5}"
    "vendorLockIn p \<in> {1, 2, 3, 4, 5}"
proof -
  from assms have a: "cost p \<in> {1, 2, 3, 4, 5} \<and> performance p \<in> {1, 2, 3, 4, 5}
      \<and> easeOfUse p \<in> {1, 2, 3, 4, 5} \<and> scalability p \<in> {1, 2, 3, 4, 5}
      \<and> vendorLockIn p \<in> {1, 2, 3, 4, 5}"
    unfolding validPriorities_def .
  show "cost p \<in> {1, 2, 3, 4, 5}" by (rule a[THEN conjunct1])
  show "performance p \<in> {1, 2, 3, 4, 5}" by (rule a[THEN conjunct2, THEN conjunct1])
  show "easeOfUse p \<in> {1, 2, 3, 4, 5}"
    by (rule a[THEN conjunct2, THEN conjunct2, THEN conjunct1])
  show "scalability p \<in> {1, 2, 3, 4, 5}"
    by (rule a[THEN conjunct2, THEN conjunct2, THEN conjunct2, THEN conjunct1])
  show "vendorLockIn p \<in> {1, 2, 3, 4, 5}"
    by (rule a[THEN conjunct2, THEN conjunct2, THEN conjunct2, THEN conjunct2])
qed

lemma normalized_valid:
  assumes "validPriorities p"
  shows "normalizePriorities p =
           \<lparr>cost = cost p / (cost p + performance p + easeOfUse p + scalability p + vendorLockIn p),
            performance = performance p
              / (cost p + performance p + easeOfUse p + scalability p + vendorLockIn p),
            easeOfUse = easeOfUse p
              / (cost p + performance p + easeOfUse p + scalability p + vendorLockIn p),
            scalability = scalability p
              / (cost p + performance p + easeOfUse p + scalability p + vendorLockIn p),
            vendorLockIn = vendorLockIn p
              / (cost p + performance p + easeOfUse p + scalability p + vendorLockIn p)\<rparr>"
    and "0 < cost p + performance p + easeOfUse p + scalability p + vendorLockIn p"
proof -
  note v = validPrioritiesD[OF assms]
  have pos: "0 < cost p" "0 < performance p" "0 < easeOfUse p" "0 < scalability p"
    "0 < vendorLockIn p"
    by (rule valid_cases(1), rule v)+
  then show t: "0 < cost p + performance p + easeOfUse p + scalability p + vendorLockIn p"
    by simp
  then show "normalizePriorities p =
           \<lparr>cost = cost p / (cost p + performance p + easeOfUse p + scalability p + vendorLockIn p),
            performance = performance p
              / (cost p + performance p + easeOfUse p + scalability p + vendorLockIn p),
            easeOfUse = easeOfUse p
              / (cost p + performance p + easeOfUse p + scalability p + vendorLockIn p),
            scalability = scalability p
              / (cost p + performance p + easeOfUse p + scalability p + vendorLockIn p),
            vendorLockIn = vendorLockIn p
              / (cost p + performance p + easeOfUse p + scalability p + vendorLockIn p)\<rparr>"
    by (simp add: normalizePriorities_def Let_def)
qed

lemma emphasis_valid:
  assumes "validPriorities p"
  defines "n \<equiv> normalizePriorities p"
  defines "S \<equiv> cost n * getEmphasisFactor (cost p)
              + performance n * getEmphasisFactor (performance p)
              + easeOfUse n * getEmphasisFactor (easeOfUse p)
              + scalability n * getEmphasisFactor (scalability p)
              + vendorLockIn n * getEmphasisFactor (vendorLockIn p)"
  shows "applyPriorityEmphasis n p =
           \<lparr>cost = cost n * getEmphasisFactor (cost p) / S,
            performance = performance n * getEmphasisFactor (performance p) / S,
            easeOfUse = easeOfUse n * getEmphasisFactor (easeOfUse p) / S,
            scalability = scalability n * getEmphasisFactor (scalability p) / S,
            vendorLockIn = vendorLockIn n * getEmphasisFactor (vendorLockIn p) / S\<rparr>"
    and "0 < cost n * getEmphasisFactor (cost p)"
    and "0 < performance n * getEmphasisFactor (performance p)"
    and "0 < easeOfUse n * getEmphasisFactor (easeOfUse p)"
    and "0 < scalability n * getEmphasisFactor (scalability p)"
    and "0 < vendorLockIn n * getEmphasisFactor (vendorLockIn p)"
    and "0 < S"
    and "cost n + performance n + easeOfUse n + scalability n + vendorLockIn n = 1"
proof -
  note v = validPrioritiesD[OF assms(1)]
  note nv = normalized_valid[OF assms(1)]
  have pos: "0 < cost p" "0 < performance p" "0 < easeOfUse p" "0 < scalability p"
    "0 < vendorLockIn p"
    by (rule valid_cases(1), rule v)+
  have f: "0 < getEmphasisFactor (cost p)" "0 < getEmphasisFactor (performance p)"
    "0 < getEmphasisFactor (easeOfUse p)" "0 < getEmphasisFactor (scalability p)"
    "0 < getEmphasisFactor (vendorLockIn p)"
    by (rule getEmphasisFactor_pos)+
  have npos: "0 < cost n" "0 < performance n" "0 < easeOfUse n" "0 < scalability n"
    "0 < vendorLockIn n"
    unfolding n_def nv(1) using pos nv(2) by simp_all
  show x: "0 < cost n * getEmphasisFactor (cost p)"
    "0 < performance n * getEmphasisFactor (performance p)"
    "0 < easeOfUse n * getEmphasisFactor (easeOfUse p)"
    "0 < scalability n * getEmphasisFactor (scalability p)"
    "0 < vendorLockIn n * getEmphasisFactor (vendorLockIn p)"
    using npos f by simp_all
  then show S: "0 < S" unfolding S_def by linarith
  then show "applyPriorityEmphasis n p =
           \<lparr>cost = cost n * getEmphasisFactor (cost p) / S,
            performance = performance n * getEmphasisFactor (performance p) / S,
            easeOfUse = easeOfUse n * getEmphasisFactor (easeOfUse p) / S,
            scalability = scalability n * getEmphasisFactor (scalability p) / S,
            vendorLockIn = vendorLockIn n * getEmphasisFactor (vendorLockIn p) / S\<rparr>"
    unfolding S_def by (simp add: applyPriorityEmphasis_def Let_def)
  show "cost n + performance n + easeOfUse n + scalability n + vendorLockIn n = 1"
    unfolding n_def nv(1) using nv(2) by (simp flip: add_divide_distrib)
qed

text \<open>
  Claim C4. For priorities in 1 to 5, \<open>calculateWeightedScore\<close> is the weighting
  algorithm: the emphasis factors are 0.5, 0.8, 1.0, 1.2 and 1.5; each emphasized weight
  is the normalized weight (the raw priority over the total of the five raw priorities)
  times the factor of its raw value, divided by the total of the five products, so the
  five sum to 1; the six criteria carry the weights of cost, performance, scalability,
  ease of use and vendor lock-in, and maintainability 0.3 times the cost weight plus 0.2
  times the performance weight; and the result is the sum of score times weight over the
  sum of the weights, both over the criteria present in the scores, and exactly 50 when
  none is present.
\<close>

theorem weighted_score_algorithm:
  assumes "validPriorities p"
  shows "(let T = cost p + performance p + easeOfUse p + scalability p + vendorLockIn p;
              n = normalizePriorities p;
              e = applyPriorityEmphasis n p;
              S = cost n * getEmphasisFactor (cost p)
                  + performance n * getEmphasisFactor (performance p)
                  + easeOfUse n * getEmphasisFactor (easeOfUse p)
                  + scalability n * getEmphasisFactor (scalability p)
                  + vendorLockIn n * getEmphasisFactor (vendorLockIn p);
              present = filter (\<lambda>(c, w). map_of cs c \<noteq> None) (criteriaMapping e)
          in getEmphasisFactor 1 = 0.5 \<and> getEmphasisFactor 2 = 0.8 \<and> getEmphasisFactor 3 = 1.0
           \<and> getEmphasisFactor 4 = 1.2 \<and> getEmphasisFactor 5 = 1.5
           \<and> cost n = cost p / T \<and> performance n = performance p / T
           \<and> easeOfUse n = easeOfUse p / T \<and> scalability n = scalability p / T
           \<and> vendorLockIn n = vendorLockIn p / T
           \<and> cost n + performance n + easeOfUse n + scalability n + vendorLockIn n = 1
           \<and> cost e = cost n * getEmphasisFactor (cost p) / S
           \<and> performance e = performance n * getEmphasisFactor (performance p) / S
           \<and> easeOfUse e = easeOfUse n * getEmphasisFactor (easeOfUse p) / S
           \<and> scalability e = scalability n * getEmphasisFactor (scalability p) / S
           \<and> vendorLockIn e = vendorLockIn n * getEmphasisFactor (vendorLockIn p) / S
           \<and> cost e + performance e + easeOfUse e + scalability e + vendorLockIn e = 1
           \<and> criteriaMapping e =
               [(COST, cost e), (PERFORMANCE, performance e), (SCALABILITY, scalability e),
                (LEARNING_CURVE, easeOfUse e), (VENDOR_LOCK_IN, vendorLockIn e),
                (MAINTAINABILITY, 0.3 * cost e + 0.2 * performance e)]
           \<and> calculateWeightedScore cs p =
               (if present = [] then 50
                else (\<Sum>(c, w) \<leftarrow> present. scoreOrZero cs c * w) / (\<Sum>(c, w) \<leftarrow> present. w)))"
proof -
  define n where "n = normalizePriorities p"
  define e where "e = applyPriorityEmphasis n p"
  define xc where "xc = cost n * getEmphasisFactor (cost p)"
  define xp where "xp = performance n * getEmphasisFactor (performance p)"
  define xe where "xe = easeOfUse n * getEmphasisFactor (easeOfUse p)"
  define xs where "xs = scalability n * getEmphasisFactor (scalability p)"
  define xv where "xv = vendorLockIn n * getEmphasisFactor (vendorLockIn p)"
  define S where "S = xc + xp + xe + xs + xv"
  define present where "present = filter (\<lambda>(c, w). map_of cs c \<noteq> None) (criteriaMapping e)"
  note ev = emphasis_valid[OF assms, folded n_def, folded xc_def xp_def xe_def xs_def xv_def,
      folded S_def, folded e_def]
  have tab: "getEmphasisFactor 1 = 0.5 \<and> getEmphasisFactor 2 = 0.8 \<and> getEmphasisFactor 3 = 1.0
           \<and> getEmphasisFactor 4 = 1.2 \<and> getEmphasisFactor 5 = 1.5"
    by (simp add: getEmphasisFactor_def)
  have ec: "cost e = xc / S" "performance e = xp / S" "easeOfUse e = xe / S"
    "scalability e = xs / S" "vendorLockIn e = xv / S"
    by (simp_all add: ev(1))
  have "xc / S + xp / S + xe / S + xs / S + xv / S = (xc + xp + xe + xs + xv) / S"
    by (simp add: add_divide_distrib)
  also have "\<dots> = 1" using ev(7) by (simp add: S_def)
  finally have sum1: "cost e + performance e + easeOfUse e + scalability e + vendorLockIn e = 1"
    by (simp only: ec)
  have epos: "0 < cost e" "0 < performance e" "0 < easeOfUse e" "0 < scalability e"
    "0 < vendorLockIn e"
    using ev(2-7) by (simp_all add: ec)
  have cm: "criteriaMapping e =
               [(COST, cost e), (PERFORMANCE, performance e), (SCALABILITY, scalability e),
                (LEARNING_CURVE, easeOfUse e), (VENDOR_LOCK_IN, vendorLockIn e),
                (MAINTAINABILITY, 0.3 * cost e + 0.2 * performance e)]"
    by (simp add: criteriaMapping_def)
  have "list_all (\<lambda>(c, w). 0 < w) (criteriaMapping e)"
    using epos by (simp add: cm add_pos_pos)
  then have "list_all (\<lambda>(c, w). 0 < w) present"
    by (simp add: present_def list_all_iff)
  note tw = positive_weights_sum[OF this]
  have loop: "weightedLoop (criteriaMapping e) cs (0, 0) =
           ((\<Sum>(c, w) \<leftarrow> present. scoreOrZero cs c * w), (\<Sum>(c, w) \<leftarrow> present. w))"
    by (simp add: weightedLoop_sums present_def)
  have cw: "calculateWeightedScore cs p =
               (if present = [] then 50
                else (\<Sum>(c, w) \<leftarrow> present. scoreOrZero cs c * w) / (\<Sum>(c, w) \<leftarrow> present. w))"
    unfolding calculateWeightedScore_def Let_def n_def[symmetric] e_def[symmetric] loop
    using tw by simp
  have nk: "cost n = cost p / (cost p + performance p + easeOfUse p + scalability p + vendorLockIn p)"
    "performance n
       = performance p / (cost p + performance p + easeOfUse p + scalability p + vendorLockIn p)"
    "easeOfUse n
       = easeOfUse p / (cost p + performance p + easeOfUse p + scalability p + vendorLockIn p)"
    "scalability n
       = scalability p / (cost p + performance p + easeOfUse p + scalability p + vendorLockIn p)"
    "vendorLockIn n
       = vendorLockIn p / (cost p + performance p + easeOfUse p + scalability p + vendorLockIn p)"
    unfolding n_def normalized_valid(1)[OF assms] by simp_all
  from tab nk ev(8) ec sum1 cm cw show ?thesis
    unfolding Let_def n_def[symmetric] e_def[symmetric] xc_def[symmetric] xp_def[symmetric]
      xe_def[symmetric] xs_def[symmetric] xv_def[symmetric] S_def[symmetric]
      present_def[symmetric]
    by (intro conjI) simp_all
qed

theorem weighted_score_algorithm_witness:
  "validPriorities mockPriorities
   \<and> calculateWeightedScore mockCriteria mockPriorities = 19615 / 241"
proof -
  have v: "validPriorities mockPriorities"
    by (simp add: validPriorities_def mockPriorities_def)
  have e: "applyPriorityEmphasis (normalizePriorities mockPriorities) mockPriorities
           = \<lparr>cost = 30 / 217, performance = 75 / 217, easeOfUse = 48 / 217,
              scalability = 48 / 217, vendorLockIn = 16 / 217\<rparr>"
    by (simp add: applyPriorityEmphasis_def normalizePriorities_def mockPriorities_def
        getEmphasisFactor_def Let_def)
  have present: "filter (\<lambda>(c, w). map_of mockCriteria c \<noteq> None)
           (criteriaMapping \<lparr>cost = 30 / 217, performance = 75 / 217, easeOfUse = 48 / 217,
              scalability = 48 / 217, vendorLockIn = 16 / 217\<rparr>)
         = criteriaMapping \<lparr>cost = 30 / 217, performance = 75 / 217, easeOfUse = 48 / 217,
              scalability = 48 / 217, vendorLockIn = 16 / 217\<rparr>"
    by (simp add: criteriaMapping_def mockCriteria_def criteria_distinct)
  from weighted_score_algorithm[OF v, of mockCriteria]
  have "calculateWeightedScore mockCriteria mockPriorities =
          (\<Sum>(c, w) \<leftarrow> criteriaMapping \<lparr>cost = 30 / 217, performance = 75 / 217,
                 easeOfUse = 48 / 217, scalability = 48 / 217, vendorLockIn = 16 / 217\<rparr>.
              scoreOrZero mockCriteria c * w)
          / (\<Sum>(c, w) \<leftarrow> criteriaMapping \<lparr>cost = 30 / 217, performance = 75 / 217,
                 easeOfUse = 48 / 217, scalability = 48 / 217, vendorLockIn = 16 / 217\<rparr>. w)"
    unfolding Let_def e present by (simp add: criteriaMapping_def)
  also have "\<dots> = 19615 / 241"
    by (simp add: criteriaMapping_def mockCriteria_def scoreOrZero_def criteria_distinct)
  finally show ?thesis using v by simp
qed

subsection \<open>Recommendation confidence\<close>

lemma normalized_sum_one:
  "cost (normalizePriorities p) + performance (normalizePriorities p)
   + easeOfUse (normalizePriorities p) + scalability (normalizePriorities p)
   + vendorLockIn (normalizePriorities p) = 1"
proof (cases "cost p + performance p + easeOfUse p + scalability p + vendorLockIn p = 0")
  case True
  then show ?thesis by (simp add: normalizePriorities_def Let_def)
next
  case False
  then show ?thesis
    by (simp add: normalizePriorities_def Let_def flip: add_divide_distrib)
qed

lemma scoreOrFifty_range:
  assumes "scoresInRange cs"
  shows "0 \<le> scoreOrFifty cs c \<and> scoreOrFifty cs c \<le> 100"
proof (cases "map_of cs c")
  case None
  then show ?thesis by (simp add: scoreOrFifty_def)
next
  case (Some v)
  then have "(c, v) \<in> set cs" by (rule map_of_SomeD)
  with assms have "0 \<le> v \<and> v \<le> 100" by (auto simp: scoresInRange_def list_all_iff)
  with Some show ?thesis by (simp add: scoreOrFifty_def)
qed

lemma alignment_value:
  "calculatePriorityAlignment h optionScore constraints =
     (let n = normalizePriorities (priorities constraints);
          cs = objects h (criteriaScores optionScore)
      in scoreOrFifty cs COST / 100 * cost n
         + scoreOrFifty cs PERFORMANCE / 100 * performance n
         + scoreOrFifty cs LEARNING_CURVE / 100 * easeOfUse n
         + scoreOrFifty cs SCALABILITY / 100 * scalability n
         + scoreOrFifty cs VENDOR_LOCK_IN / 100 * vendorLockIn n)"
  using normalized_sum_one[of "priorities constraints"]
  by (simp add: calculatePriorityAlignment_def priorityEntries_def mapPriorityToCriterion_def
      Let_def)

lemma alignment_range:
  assumes "nonNegative (priorities constraints)"
    and "scoresInRange (objects h (criteriaScores optionScore))"
  shows "0 \<le> calculatePriorityAlignment h optionScore constraints
       \<and> calculatePriorityAlignment h optionScore constraints \<le> 1"
proof -
  define n where "n = normalizePriorities (priorities constraints)"
  define cs where "cs = objects h (criteriaScores optionScore)"
  have nn: "0 \<le> cost n" "0 \<le> performance n" "0 \<le> easeOfUse n" "0 \<le> scalability n"
    "0 \<le> vendorLockIn n"
    using normalizePriorities_nonneg[OF assms(1)] by (simp_all add: n_def nonNegative_def)
  have sum: "cost n + performance n + easeOfUse n + scalability n + vendorLockIn n = 1"
    unfolding n_def by (rule normalized_sum_one)
  have tm: "0 \<le> scoreOrFifty cs c / 100 * w \<and> scoreOrFifty cs c / 100 * w \<le> w"
    if "0 \<le> w" for c w
  proof -
    from scoreOrFifty_range[OF assms(2), of c]
    have q: "0 \<le> scoreOrFifty cs c / 100" "scoreOrFifty cs c / 100 \<le> 1"
      by (simp_all add: cs_def)
    from q(1) that have "0 \<le> scoreOrFifty cs c / 100 * w" by (rule mult_nonneg_nonneg)
    moreover from q(2) that have "scoreOrFifty cs c / 100 * w \<le> 1 * w"
      by (rule mult_right_mono)
    ultimately show ?thesis by simp
  qed
  have a: "calculatePriorityAlignment h optionScore constraints =
         scoreOrFifty cs COST / 100 * cost n
         + scoreOrFifty cs PERFORMANCE / 100 * performance n
         + scoreOrFifty cs LEARNING_CURVE / 100 * easeOfUse n
         + scoreOrFifty cs SCALABILITY / 100 * scalability n
         + scoreOrFifty cs VENDOR_LOCK_IN / 100 * vendorLockIn n"
    by (simp add: alignment_value Let_def n_def cs_def)
  from tm[OF nn(1), of COST] tm[OF nn(2), of PERFORMANCE] tm[OF nn(3), of LEARNING_CURVE]
    tm[OF nn(4), of SCALABILITY] tm[OF nn(5), of VENDOR_LOCK_IN] sum
  show ?thesis unfolding a by linarith
qed

lemma consistencyBonus_range:
  assumes "calculateConsistencyBonus h result = Some b"
  shows "0 \<le> b \<and> b \<le> 0.2"
  using assms
  by (auto simp: calculateConsistencyBonus_def Let_def split: list.splits option.splits if_splits)

lemma consistencyBonus_defined:
  assumes "rankings result = r1 # rest"
    and "\<forall>s \<in> set (scores result). objects h (criteriaScores s) \<noteq> []"
  shows "\<exists>b. calculateConsistencyBonus h result = Some b"
proof (cases "find (\<lambda>s. name (option s) = name (rankedOption r1)) (scores result)")
  case None
  with assms(1) show ?thesis by (simp add: calculateConsistencyBonus_def)
next
  case (Some t)
  then have "t \<in> set (scores result)" by (auto simp: find_Some_iff)
  with assms(2) have "objects h (criteriaScores t) \<noteq> []" by simp
  with assms(1) Some show ?thesis by (simp add: calculateConsistencyBonus_def Let_def)
qed

lemma sqrt_900: "sqrt 900 = 30"
  by (rule real_sqrt_unique) simp_all

lemma close_bonus: "calculateConsistencyBonus evenHeap closeResult = Some 0.2"
  by (simp add: calculateConsistencyBonus_def closeResult_def evenHeap_def optionA_def
      optionB_def Let_def)

lemma close_alignment:
  "calculatePriorityAlignment evenHeap
     \<lparr>option = optionA, criteriaScores = 0, weightedScore = 78, normalizedScore = 78\<rparr>
     juniorImmediate = 78 / 100"
  by (simp add: alignment_value Let_def evenHeap_def scoreOrFifty_def criteria_distinct
      juniorImmediate_def normalizePriorities_def)

lemma close_confidence:
  "calculateRecommendationConfidence evenHeap closeResult juniorImmediate = Some (82 / 125)"
proof -
  have f: "find (\<lambda>s. name (option s) = name optionA) (scores closeResult)
           = Some \<lparr>option = optionA, criteriaScores = 0, weightedScore = 78, normalizedScore = 78\<rparr>"
    by (simp add: closeResult_def)
  have r: "rankings closeResult = [\<lparr>rankedOption = optionA, rank = 1, score = 78\<rparr>,
                  \<lparr>rankedOption = optionB, rank = 2, score = 77\<rparr>]"
    by (simp add: closeResult_def)
  show ?thesis
    by (simp add: calculateRecommendationConfidence_def r f close_bonus close_alignment Let_def)
qed

lemma wide_bonus: "calculateConsistencyBonus spikyHeap wideResult = Some 0"
  by (simp add: calculateConsistencyBonus_def wideResult_def spikyHeap_def optionA_def
      optionB_def Let_def sqrt_900)

lemma wide_alignment:
  "calculatePriorityAlignment spikyHeap
     \<lparr>option = optionA, criteriaScores = 0, weightedScore = 90, normalizedScore = 90\<rparr>
     skewedPriorities = 29 / 170"
  by (simp add: alignment_value Let_def spikyHeap_def scoreOrFifty_def criteria_distinct
      skewedPriorities_def normalizePriorities_def)

lemma wide_confidence:
  "calculateRecommendationConfidence spikyHeap wideResult skewedPriorities = Some (709 / 850)"
proof -
  have f: "find (\<lambda>s. name (option s) = name optionA) (scores wideResult)
           = Some \<lparr>option = optionA, criteriaScores = 0, weightedScore = 90, normalizedScore = 90\<rparr>"
    by (simp add: wideResult_def)
  have r: "rankings wideResult = [\<lparr>rankedOption = optionA, rank = 1, score = 90\<rparr>,
                  \<lparr>rankedOption = optionB, rank = 2, score = 55\<rparr>]"
    by (simp add: wideResult_def)
  show ?thesis
    by (simp add: calculateRecommendationConfidence_def r f wide_bonus wide_alignment Let_def)
qed

text \<open>
  Claim C8 as the specification words it fails in both halves. With ranked scores 90 and
  55, a top option whose criterion scores are 10 on cost, performance and learning curve
  and 70 on the others, under priorities 5, 5, 5, 1, 1, has alignment 29/170 and standard
  deviation 30: the confidence is 709/850, below 0.85. With ranked scores 78 and 77, a top
  option that scores 78 on every criterion has alignment 0.78 and standard deviation 0:
  the confidence is 0.4 + 0.056 + 0.2 = 82/125, above 0.5.
\<close>

theorem confidence_floor_ceiling_counterexample:
  "calculateRecommendationConfidence spikyHeap wideResult skewedPriorities = Some (709 / 850)
   \<and> (709 / 850 :: real) < 0.85
   \<and> calculateRecommendationConfidence evenHeap closeResult juniorImmediate = Some (82 / 125)
   \<and> (0.5 :: real) < 82 / 125"
  by (simp add: wide_confidence close_confidence)

lemma confidence_bounds:
  assumes "nonNegative (priorities constraints)"
    and "rankings result = r1 # r2 # rest"
    and "\<forall>s \<in> set (scores result).
           scoresInRange (objects h (criteriaScores s)) \<and> objects h (criteriaScores s) \<noteq> []"
  shows "\<exists>c. calculateRecommendationConfidence h result constraints = Some c
           \<and> 0.1 \<le> c \<and> c \<le> 1
           \<and> (score r1 - score r2 > 20 \<longrightarrow> 0.8 \<le> c)
           \<and> (score r1 - score r2 \<le> 5 \<longrightarrow> c \<le> 0.7)"
proof -
  from assms(3) have ne: "\<forall>s \<in> set (scores result). objects h (criteriaScores s) \<noteq> []" by simp
  from consistencyBonus_defined[OF assms(2) ne]
  obtain b where b: "calculateConsistencyBonus h result = Some b" by blast
  from consistencyBonus_range[OF b] have br: "0 \<le> b" "b \<le> 0.2" by simp_all
  define base :: real where
    "base = (if score r1 - score r2 > 20 then 0.9
             else if score r1 - score r2 > 10 then 0.75
             else if score r1 - score r2 > 5 then 0.6
             else 0.4)"
  define c1 where
    "c1 = (case find (\<lambda>s. name (option s) = name (rankedOption r1)) (scores result) of
             None \<Rightarrow> base
           | Some topOption \<Rightarrow>
               min 1.0 (base + (calculatePriorityAlignment h topOption constraints - 0.5) * 0.2))"
  have conf: "calculateRecommendationConfidence h result constraints
                = Some (max 0.1 (min 1.0 (min 1.0 (c1 + b))))"
    by (simp only: calculateRecommendationConfidence_def assms(2) list.case Let_def b
        option.case c1_def base_def)
  have base_r: "0.4 \<le> base" "base \<le> 0.9" by (simp_all add: base_def)
  have c1_r: "base - 0.1 \<le> c1 \<and> c1 \<le> base + 0.1"
  proof (cases "find (\<lambda>s. name (option s) = name (rankedOption r1)) (scores result)")
    case None
    then show ?thesis by (simp add: c1_def)
  next
    case (Some t)
    then have "t \<in> set (scores result)" by (auto simp: find_Some_iff)
    with assms(3) have "scoresInRange (objects h (criteriaScores t))" by simp
    from alignment_range[OF assms(1) this]
    have al: "0 \<le> calculatePriorityAlignment h t constraints"
      "calculatePriorityAlignment h t constraints \<le> 1" by simp_all
    define adj where "adj = (calculatePriorityAlignment h t constraints - 0.5) * 0.2"
    from al have adj_r: "- 0.1 \<le> adj" "adj \<le> 0.1" by (simp_all add: adj_def)
    have "c1 = min 1 (base + adj)" by (simp add: c1_def Some adj_def)
    with adj_r base_r show ?thesis by (simp add: min_def)
  qed
  have hi: "0.8 \<le> max 0.1 (min 1.0 (min 1.0 (c1 + b)))" if "score r1 - score r2 > 20"
  proof -
    from that have "base = 0.9" by (simp add: base_def)
    with c1_r br show ?thesis by (simp add: max_def min_def)
  qed
  have lo: "max 0.1 (min 1.0 (min 1.0 (c1 + b))) \<le> 0.7" if "score r1 - score r2 \<le> 5"
  proof -
    from that have "base = 0.4" by (simp add: base_def)
    with c1_r br show ?thesis by (simp add: max_def min_def)
  qed
  have gen: "0.1 \<le> max 0.1 (min 1.0 (min 1.0 (c1 + b)))"
    "max 0.1 (min 1.0 (min 1.0 (c1 + b))) \<le> 1" by simp_all
  from conf hi lo gen show ?thesis by blast
qed

lemma getEmphasisFactor_range: "0.5 \<le> getEmphasisFactor x \<and> getEmphasisFactor x \<le> 1.5"
  by (simp add: getEmphasisFactor_def)

lemma scoreOrFifty_ge:
  assumes "map_of cs c = Some v" "0 \<le> v"
  shows "v \<le> scoreOrFifty cs c"
  using assms by (simp add: scoreOrFifty_def)

lemma emphasized_le_three_normalized:
  assumes "0 < nk" "1 / 2 \<le> S" "f \<le> 3 / 2" "0 \<le> (sk::real)"
  shows "nk * f / S * sk \<le> 3 * (nk * sk)"
proof -
  from assms(2) have S: "0 < S" by simp
  have "f \<le> 3 * S" using assms(2,3) by simp
  then have "nk * f \<le> nk * (3 * S)" using assms(1) by (simp add: mult_left_mono)
  then have "nk * f / S \<le> 3 * nk" using S by (simp add: divide_le_eq mult_ac)
  then have "nk * f / S * sk \<le> 3 * nk * sk" using assms(4) by (rule mult_right_mono)
  then show ?thesis by (simp add: mult.assoc)
qed

lemma consistent_alignment:
  assumes v: "validPriorities p"
    and r: "scoresInRange cs"
    and pres: "map_of cs COST = Some sc" "map_of cs PERFORMANCE = Some sp"
      "map_of cs SCALABILITY = Some ss" "map_of cs LEARNING_CURVE = Some sl"
      "map_of cs VENDOR_LOCK_IN = Some sv" "map_of cs MAINTAINABILITY = Some sm"
    and W: "calculateWeightedScore cs p = 90"
  shows "29 / 100 \<le> scoreOrFifty cs COST / 100 * cost (normalizePriorities p)
         + scoreOrFifty cs PERFORMANCE / 100 * performance (normalizePriorities p)
         + scoreOrFifty cs LEARNING_CURVE / 100 * easeOfUse (normalizePriorities p)
         + scoreOrFifty cs SCALABILITY / 100 * scalability (normalizePriorities p)
         + scoreOrFifty cs VENDOR_LOCK_IN / 100 * vendorLockIn (normalizePriorities p)"
proof -
  define n where "n = normalizePriorities p"
  define nc np nl ns nv where "nc = cost n" and "np = performance n" and "nl = easeOfUse n"
    and "ns = scalability n" and "nv = vendorLockIn n"
  define fc fp fl fs fv where "fc = getEmphasisFactor (cost p)"
    and "fp = getEmphasisFactor (performance p)" and "fl = getEmphasisFactor (easeOfUse p)"
    and "fs = getEmphasisFactor (scalability p)" and "fv = getEmphasisFactor (vendorLockIn p)"
  define S where "S = nc * fc + np * fp + nl * fl + ns * fs + nv * fv"
  define ec ep el es ev where "ec = nc * fc / S" and "ep = np * fp / S" and "el = nl * fl / S"
    and "es = ns * fs / S" and "ev = nv * fv / S"
  define m where "m = ec * 0.3 + ep * 0.2"
  note emp = emphasis_valid[OF v, folded n_def, folded nc_def np_def nl_def ns_def nv_def
      fc_def fp_def fl_def fs_def fv_def, folded S_def, folded ec_def ep_def el_def es_def ev_def]
  have f_lo: "1 / 2 \<le> fc" "1 / 2 \<le> fp" "1 / 2 \<le> fl" "1 / 2 \<le> fs" "1 / 2 \<le> fv"
    and f_hi: "fc \<le> 3 / 2" "fp \<le> 3 / 2" "fl \<le> 3 / 2" "fs \<le> 3 / 2" "fv \<le> 3 / 2"
    using getEmphasisFactor_range by (simp_all add: fc_def fp_def fl_def fs_def fv_def)
  have f_pos: "0 < fc" "0 < fp" "0 < fl" "0 < fs" "0 < fv"
    using f_lo by simp_all
  have n_pos: "0 < nc" "0 < np" "0 < nl" "0 < ns" "0 < nv"
    using emp(2-6) f_pos by (simp_all add: zero_less_mult_iff)
  have n_sum: "nc + np + nl + ns + nv = 1" by (rule emp(8))
  have S_pos: "0 < S" by (rule emp(7))
  have S_lo: "1 / 2 \<le> S"
  proof -
    have "nc * (1 / 2) \<le> nc * fc" "np * (1 / 2) \<le> np * fp" "nl * (1 / 2) \<le> nl * fl"
      "ns * (1 / 2) \<le> ns * fs" "nv * (1 / 2) \<le> nv * fv"
      using n_pos f_lo by (simp_all add: mult_left_mono)
    with n_sum show ?thesis unfolding S_def by linarith
  qed
  have e_pos: "0 < ec" "0 < ep" "0 < el" "0 < es" "0 < ev"
    using emp(2-6) S_pos by (simp_all add: ec_def ep_def el_def es_def ev_def)
  have "ec + ep + el + es + ev = (nc * fc + np * fp + nl * fl + ns * fs + nv * fv) / S"
    by (simp add: ec_def ep_def el_def es_def ev_def add_divide_distrib)
  also have "\<dots> = 1" using S_pos by (simp add: S_def)
  finally have e_sum: "ec + ep + el + es + ev = 1" .
  have m_r: "0 \<le> m" "m \<le> 3 / 10"
    using e_pos e_sum unfolding m_def by simp_all
  have sr: "0 \<le> sc" "sc \<le> 100" "0 \<le> sp" "sp \<le> 100" "0 \<le> ss" "ss \<le> 100"
    "0 \<le> sl" "sl \<le> 100" "0 \<le> sv" "sv \<le> 100" "0 \<le> sm" "sm \<le> 100"
    using r pres[THEN map_of_SomeD] by (auto simp: scoresInRange_def list_all_iff)
  have e_eq: "applyPriorityEmphasis n p =
      \<lparr>cost = ec, performance = ep, easeOfUse = el, scalability = es, vendorLockIn = ev\<rparr>"
    by (rule emp(1))
  have loop: "weightedLoop (criteriaMapping (applyPriorityEmphasis n p)) cs (0, 0)
      = (sc * ec + sp * ep + ss * es + sl * el + sv * ev + sm * m, 1 + m)"
    using e_sum by (simp add: e_eq criteriaMapping_def pres m_def algebra_simps)
  have tw: "0 < 1 + m" using m_r by simp
  from W have "(sc * ec + sp * ep + ss * es + sl * el + sv * ev + sm * m) / (1 + m) = 90"
    using tw by (simp add: calculateWeightedScore_def Let_def n_def[symmetric] loop)
  then have "sc * ec + sp * ep + ss * es + sl * el + sv * ev + sm * m = 90 * (1 + m)"
    using tw by (simp add: divide_eq_eq)
  then have ws: "sc * ec + sp * ep + ss * es + sl * el + sv * ev + sm * m = 90 + 90 * m"
    by (simp add: distrib_left)
  have "sm * m \<le> 100 * m" using sr(12) m_r(1) by (rule mult_right_mono)
  with ws m_r have E5: "87 \<le> sc * ec + sp * ep + ss * es + sl * el + sv * ev" by linarith
  have t: "ec * sc \<le> 3 * (nc * sc)" "ep * sp \<le> 3 * (np * sp)" "es * ss \<le> 3 * (ns * ss)"
    "el * sl \<le> 3 * (nl * sl)" "ev * sv \<le> 3 * (nv * sv)"
    unfolding ec_def ep_def el_def es_def ev_def
    by (rule emphasized_le_three_normalized[OF n_pos(1) S_lo f_hi(1) sr(1)]
        emphasized_le_three_normalized[OF n_pos(2) S_lo f_hi(2) sr(3)]
        emphasized_le_three_normalized[OF n_pos(4) S_lo f_hi(4) sr(5)]
        emphasized_le_three_normalized[OF n_pos(3) S_lo f_hi(3) sr(7)]
        emphasized_le_three_normalized[OF n_pos(5) S_lo f_hi(5) sr(9)])+
  from E5 t have N5: "29 \<le> nc * sc + np * sp + ns * ss + nl * sl + nv * sv"
    by (simp add: mult.commute)
  have g: "sc * nc \<le> scoreOrFifty cs COST * nc" "sp * np \<le> scoreOrFifty cs PERFORMANCE * np"
    "ss * ns \<le> scoreOrFifty cs SCALABILITY * ns" "sl * nl \<le> scoreOrFifty cs LEARNING_CURVE * nl"
    "sv * nv \<le> scoreOrFifty cs VENDOR_LOCK_IN * nv"
    using n_pos sr pres by (simp_all add: scoreOrFifty_ge mult_right_mono)
  from N5 g have "29 \<le> scoreOrFifty cs COST * nc + scoreOrFifty cs PERFORMANCE * np
      + scoreOrFifty cs LEARNING_CURVE * nl + scoreOrFifty cs SCALABILITY * ns
      + scoreOrFifty cs VENDOR_LOCK_IN * nv"
    by (simp add: mult.commute)
  then show ?thesis
    unfolding n_def[symmetric] nc_def[symmetric] np_def[symmetric] nl_def[symmetric]
      ns_def[symmetric] nv_def[symmetric]
    by simp
qed

lemma consistent_confidence:
  assumes "validPriorities (priorities constraints)"
    and "nonNegative (priorities constraints)"
    and "rankings result = r1 # r2 # rest"
    and "\<forall>s \<in> set (scores result).
           scoresInRange (objects h (criteriaScores s)) \<and> objects h (criteriaScores s) \<noteq> []"
    and "score r1 - score r2 > 20"
    and "find (\<lambda>s. name (option s) = name (rankedOption r1)) (scores result) = Some t"
    and "calculateWeightedScore (objects h (criteriaScores t)) (priorities constraints) = 90"
    and "list_all (\<lambda>c. map_of (objects h (criteriaScores t)) c \<noteq> None)
           [COST, PERFORMANCE, SCALABILITY, LEARNING_CURVE, VENDOR_LOCK_IN, MAINTAINABILITY]"
  shows "\<exists>c. calculateRecommendationConfidence h result constraints = Some c \<and> 0.85 \<le> c"
proof -
  from assms(4) have ne: "\<forall>s \<in> set (scores result). objects h (criteriaScores s) \<noteq> []" by simp
  from consistencyBonus_defined[OF assms(3) ne]
  obtain b where b: "calculateConsistencyBonus h result = Some b" by blast
  from consistencyBonus_range[OF b] have br: "0 \<le> b" by simp
  from assms(6) have "t \<in> set (scores result)" by (auto simp: find_Some_iff)
  with assms(4) have r: "scoresInRange (objects h (criteriaScores t))" by simp
  from assms(8) obtain sc sp ss sl sv sm where pres:
    "map_of (objects h (criteriaScores t)) COST = Some sc"
    "map_of (objects h (criteriaScores t)) PERFORMANCE = Some sp"
    "map_of (objects h (criteriaScores t)) SCALABILITY = Some ss"
    "map_of (objects h (criteriaScores t)) LEARNING_CURVE = Some sl"
    "map_of (objects h (criteriaScores t)) VENDOR_LOCK_IN = Some sv"
    "map_of (objects h (criteriaScores t)) MAINTAINABILITY = Some sm"
    by auto
  from consistent_alignment[OF assms(1) r pres assms(7)]
  have al: "29 / 100 \<le> calculatePriorityAlignment h t constraints"
    by (simp add: alignment_value Let_def)
  define adj where "adj = (calculatePriorityAlignment h t constraints - 0.5) * 0.2"
  from al have adj_r: "- 0.042 \<le> adj" by (simp add: adj_def)
  have conf: "calculateRecommendationConfidence h result constraints
                = Some (max 0.1 (min 1.0 (min 1.0 (min 1.0 (0.9 + adj) + b))))"
    using assms(5)
    by (simp add: calculateRecommendationConfidence_def assms(3) b assms(6) Let_def adj_def)
  have "0.85 \<le> max 0.1 (min 1.0 (min 1.0 (min 1.0 (0.9 + adj) + b)))"
    using adj_r br by (simp add: max_def min_def)
  with conf show ?thesis by blast
qed

text \<open>
  Claim C8, as it holds on the code. Take an evaluation result in which every score has
  at least one criterion score and all of them lie in [0, 100], and priorities that are
  not negative. When the first two ranked scores are 90 and 55, the confidence is at
  least 0.8; it is at least 0.85 when moreover the priorities lie in 1 to 5 and 90 is the
  weighted score of the six criterion scores of the top option itself. When the first
  two ranked scores are 78 and 77, the confidence is at most 0.7.
\<close>

theorem confidence_floor_ceiling:
  assumes "nonNegative (priorities constraints)"
    and "rankings result = r1 # r2 # rest"
    and "\<forall>s \<in> set (scores result).
           scoresInRange (objects h (criteriaScores s)) \<and> objects h (criteriaScores s) \<noteq> []"
  shows "(score r1 = 90 \<and> score r2 = 55 \<longrightarrow>
            (\<exists>c. calculateRecommendationConfidence h result constraints = Some c \<and> 0.8 \<le> c))
       \<and> (score r1 = 90 \<and> score r2 = 55 \<and> validPriorities (priorities constraints)
            \<and> (\<exists>t. find (\<lambda>s. name (option s) = name (rankedOption r1)) (scores result) = Some t
                  \<and> calculateWeightedScore (objects h (criteriaScores t)) (priorities constraints)
                      = 90
                  \<and> list_all (\<lambda>c. map_of (objects h (criteriaScores t)) c \<noteq> None)
                       [COST, PERFORMANCE, SCALABILITY, LEARNING_CURVE, VENDOR_LOCK_IN,
                        MAINTAINABILITY]) \<longrightarrow>
            (\<exists>c. calculateRecommendationConfidence h result constraints = Some c \<and> 0.85 \<le> c))
       \<and> (score r1 = 78 \<and> score r2 = 77 \<longrightarrow>
            (\<exists>c. calculateRecommendationConfidence h result constraints = Some c \<and> c \<le> 0.7))"
proof (intro conjI impI)
  assume "score r1 = 90 \<and> score r2 = 55"
  then have "score r1 - score r2 > 20" by simp
  with confidence_bounds[OF assms]
  show "\<exists>c. calculateRecommendationConfidence h result constraints = Some c \<and> 0.8 \<le> c"
    by blast
next
  assume a: "score r1 = 90 \<and> score r2 = 55 \<and> validPriorities (priorities constraints)
            \<and> (\<exists>t. find (\<lambda>s. name (option s) = name (rankedOption r1)) (scores result) = Some t
                  \<and> calculateWeightedScore (objects h (criteriaScores t)) (priorities constraints)
                      = 90
                  \<and> list_all (\<lambda>c. map_of (objects h (criteriaScores t)) c \<noteq> None)
                       [COST, PERFORMANCE, SCALABILITY, LEARNING_CURVE, VENDOR_LOCK_IN,
                        MAINTAINABILITY])"
  then have gap: "score r1 - score r2 > 20" by simp
  from a obtain t where
    t: "find (\<lambda>s. name (option s) = name (rankedOption r1)) (scores result) = Some t"
      "calculateWeightedScore (objects h (criteriaScores t)) (priorities constraints) = 90"
      "list_all (\<lambda>c. map_of (objects h (criteriaScores t)) c \<noteq> None)
         [COST, PERFORMANCE, SCALABILITY, LEARNING_CURVE, VENDOR_LOCK_IN, MAINTAINABILITY]"
    by blast
  from a have v: "validPriorities (priorities constraints)" by simp
  show "\<exists>c. calculateRecommendationConfidence h result constraints = Some c \<and> 0.85 \<le> c"
    by (rule consistent_confidence[OF v assms gap t])
next
  assume "score r1 = 78 \<and> score r2 = 77"
  then have "score r1 - score r2 \<le> 5" by simp
  with confidence_bounds[OF assms]
  show "\<exists>c. calculateRecommendationConfidence h result constraints = Some c \<and> c \<le> 0.7"
    by blast
qed

lemma flat_weighted:
  "calculateWeightedScore (objects flatHeap 0) (priorities juniorImmediate) = 90"
  by (simp add: calculateWeightedScore_def normalizePriorities_def applyPriorityEmphasis_def
      getEmphasisFactor_def criteriaMapping_def flatHeap_def juniorImmediate_def Let_def
      criteria_distinct)

theorem confidence_floor_ceiling_witness:
  "(\<exists>c. calculateRecommendationConfidence spikyHeap wideResult skewedPriorities = Some c
         \<and> 0.8 \<le> c)
   \<and> (\<exists>c. calculateRecommendationConfidence flatHeap consistentResult juniorImmediate = Some c
         \<and> 0.85 \<le> c)
   \<and> (\<exists>c. calculateRecommendationConfidence evenHeap closeResult juniorImmediate = Some c
         \<and> c \<le> 0.7)"
proof -
  have p1: "nonNegative (priorities skewedPriorities)"
    by (simp add: nonNegative_def skewedPriorities_def)
  have p2: "nonNegative (priorities juniorImmediate)"
    by (simp add: nonNegative_def juniorImmediate_def)
  have v2: "validPriorities (priorities juniorImmediate)"
    by (simp add: validPriorities_def juniorImmediate_def)
  have r1: "rankings wideResult = \<lparr>rankedOption = optionA, rank = 1, score = 90\<rparr>
              # \<lparr>rankedOption = optionB, rank = 2, score = 55\<rparr> # []"
    by (simp add: wideResult_def)
  have r2: "rankings consistentResult = \<lparr>rankedOption = optionA, rank = 1, score = 90\<rparr>
              # \<lparr>rankedOption = optionB, rank = 2, score = 55\<rparr> # []"
    by (simp add: consistentResult_def)
  have r3: "rankings closeResult = \<lparr>rankedOption = optionA, rank = 1, score = 78\<rparr>
              # \<lparr>rankedOption = optionB, rank = 2, score = 77\<rparr> # []"
    by (simp add: closeResult_def)
  have s1: "\<forall>s \<in> set (scores wideResult).
           scoresInRange (objects spikyHeap (criteriaScores s))
           \<and> objects spikyHeap (criteriaScores s) \<noteq> []"
    by (simp add: wideResult_def spikyHeap_def scoresInRange_def)
  have s2: "\<forall>s \<in> set (scores consistentResult).
           scoresInRange (objects flatHeap (criteriaScores s))
           \<and> objects flatHeap (criteriaScores s) \<noteq> []"
    by (simp add: consistentResult_def flatHeap_def scoresInRange_def)
  have s3: "\<forall>s \<in> set (scores closeResult).
           scoresInRange (objects evenHeap (criteriaScores s))
           \<and> objects evenHeap (criteriaScores s) \<noteq> []"
    by (simp add: closeResult_def evenHeap_def scoresInRange_def)
  have f2: "find (\<lambda>s. name (option s) = name (rankedOption \<lparr>rankedOption = optionA, rank = 1, score = 90\<rparr>))
              (scores consistentResult)
            = Some \<lparr>option = optionA, criteriaScores = 0, weightedScore = 90, normalizedScore = 90\<rparr>"
    by (simp add: consistentResult_def)
  have l2: "list_all (\<lambda>c. map_of (objects flatHeap 0) c \<noteq> None)
              [COST, PERFORMANCE, SCALABILITY, LEARNING_CURVE, VENDOR_LOCK_IN, MAINTAINABILITY]"
    by (simp add: flatHeap_def criteria_distinct)
  have w1: "\<exists>c. calculateRecommendationConfidence spikyHeap wideResult skewedPriorities = Some c
         \<and> 0.8 \<le> c"
    by (rule confidence_floor_ceiling[OF p1 r1 s1, THEN conjunct1, THEN mp]) simp
  have w2: "\<exists>c. calculateRecommendationConfidence flatHeap consistentResult juniorImmediate = Some c
         \<and> 0.85 \<le> c"
    by (rule confidence_floor_ceiling[OF p2 r2 s2, THEN conjunct2, THEN conjunct1, THEN mp],
        insert v2 f2 flat_weighted l2,
        intro conjI exI[of _ "\<lparr>option = optionA, criteriaScores = 0, weightedScore = 90,
                               normalizedScore = 90\<rparr>"])
       simp_all
  have w3: "\<exists>c. calculateRecommendationConfidence evenHeap closeResult juniorImmediate = Some c
         \<and> c \<le> 0.7"
    by (rule confidence_floor_ceiling[OF p2 r3 s3, THEN conjunct2, THEN conjunct2, THEN mp]) simp
  from w1 w2 w3 show ?thesis by (intro conjI)
qed

end
